(* ===== verification/Prelude.thy ===== *)
theory Prelude
  imports Main
begin

text \<open>
  Shared vocabulary of the development: Python strings as lists of Unicode code points,
  the Python exceptions that the summariser can meet, an exception-state monad in which
  the methods of \<^verbatim>\<open>Summarizer\<close> thread the object and the outside world, and the
  Python built-ins the source uses (\<^verbatim>\<open>dict.get\<close>, slicing \<^verbatim>\<open>xs[:n]\<close>).
  The monad operations are declared \<open>[simp]\<close> and collected in \<open>pyM_simps\<close>, so that a
  method applied to a state unfolds by \<open>simp\<close>.
\<close>

section \<open>Python strings and exceptions\<close>

text \<open>
  A Python \<^verbatim>\<open>str\<close> is a sequence of code points and \<^verbatim>\<open>len\<close> counts code points,
  so a string is a list of naturals. ASCII literals are written \<open>u ''...''\<close>; the
  non-ASCII literals of the source are written out as code points.
\<close>

type_synonym codepoint = nat
type_synonym pystr = "codepoint list"

abbreviation u :: "string \<Rightarrow> pystr" where
  "u s \<equiv> map of_char s"

text \<open>
  The exceptions that can be raised in \<^verbatim>\<open>summarize\<close>: those of \<^verbatim>\<open>str.format\<close>
  (\<^verbatim>\<open>KeyError\<close>, \<^verbatim>\<open>IndexError\<close>, \<^verbatim>\<open>ValueError\<close>,
  \<^verbatim>\<open>TypeError\<close>), attribute and index errors
  on the SDK's response objects, and any exception of the SDK itself (import, client
  construction, network, authentication, rate limits), carried as \<open>SdkError\<close> with its
  message. \<open>Unmodelled\<close> marks behaviour of \<^verbatim>\<open>str.format\<close> that the model does not
  describe (attribute access, \<^verbatim>\<open>!r\<close>, non-empty format specifications).
\<close>

datatype pyexc =
    KeyError pystr
  | IndexError pystr
  | ValueError pystr
  | TypeError pystr
  | AttributeError pystr
  | SdkError pystr
  | Unmodelled pystr

section \<open>The exception-state monad\<close>

text \<open>
  A Python method that reads and writes state and may raise is a function from the state
  to a result (\<open>Inl\<close> the exception, \<open>Inr\<close> the value) and the state after it.
  State changes made before an exception are kept, as in Python.
\<close>

type_synonym ('s, 'a) pyM = "'s \<Rightarrow> (pyexc + 'a) \<times> 's"

named_theorems pyM_simps "unfolding rules of the exception-state monad"

definition returnM :: "'a \<Rightarrow> ('s, 'a) pyM" where
  "returnM x s = (Inr x, s)"

definition raiseM :: "pyexc \<Rightarrow> ('s, 'a) pyM" where
  "raiseM e s = (Inl e, s)"

definition bindM :: "('s, 'a) pyM \<Rightarrow> ('a \<Rightarrow> ('s, 'b) pyM) \<Rightarrow> ('s, 'b) pyM" where
  "bindM m f s = (case m s of (Inl e, s') \<Rightarrow> (Inl e, s') | (Inr x, s') \<Rightarrow> f x s')"

text \<open>\<^verbatim>\<open>try: m except Exception as e: h(e)\<close>\<close>

definition tryM :: "('s, 'a) pyM \<Rightarrow> (pyexc \<Rightarrow> ('s, 'a) pyM) \<Rightarrow> ('s, 'a) pyM" where
  "tryM m h s = (case m s of (Inl e, s') \<Rightarrow> h e s' | (Inr x, s') \<Rightarrow> (Inr x, s'))"

definition liftM :: "pyexc + 'a \<Rightarrow> ('s, 'a) pyM" where
  "liftM r s = (r, s)"

definition getsM :: "('s \<Rightarrow> 'a) \<Rightarrow> ('s, 'a) pyM" where
  "getsM f s = (Inr (f s), s)"

definition modifyM :: "('s \<Rightarrow> 's) \<Rightarrow> ('s, unit) pyM" where
  "modifyM f s = (Inr (), f s)"

declare returnM_def [simp, pyM_simps] raiseM_def [simp, pyM_simps] bindM_def [simp, pyM_simps]
  tryM_def [simp, pyM_simps] liftM_def [simp, pyM_simps] getsM_def [simp, pyM_simps]
  modifyM_def [simp, pyM_simps]

lemma bindM_assoc: "bindM (bindM m f) g = bindM m (\<lambda>x. bindM (f x) g)"
  by (rule ext) (simp split: prod.split sum.split)

lemma bindM_returnM [simp]: "bindM (returnM x) f = f x"
  by (rule ext) simp

lemma tryM_no_raise:
  assumes "\<And>e s'. fst (m s) \<noteq> Inl e"
  shows "tryM m h s = m s"
  using assms by (cases "m s") (auto split: sum.split)

text \<open>A computation that never raises keeps that property under \<open>tryM\<close> with a handler that never raises.\<close>

lemma tryM_Inr:
  assumes "\<And>e s'. isl (fst (h e s')) = False"
  shows "isl (fst (tryM m h s)) = False"
  using assms by (cases "m s") (auto split: sum.split)

subsection \<open>Relations kept by every run of a computation\<close>

text \<open>
  \<open>preserves R m\<close>: every run of \<open>m\<close>, raising or not, relates its start and end
  states by \<open>R\<close>. For a reflexive and transitive \<open>R\<close> the monad operations compose it;
  the rules are collected in \<open>preserves_intros\<close>.
\<close>

definition preserves :: "('s \<Rightarrow> 's \<Rightarrow> bool) \<Rightarrow> ('s, 'a) pyM \<Rightarrow> bool" where
  "preserves R m \<longleftrightarrow> (\<forall>s r s'. m s = (r, s') \<longrightarrow> R s s')"

named_theorems preserves_intros "composition rules of preserves"

lemma preservesD: "preserves R m \<Longrightarrow> m s = (r, s') \<Longrightarrow> R s s'"
  by (simp add: preserves_def)

lemma preservesI: "(\<And>s r s'. m s = (r, s') \<Longrightarrow> R s s') \<Longrightarrow> preserves R m"
  by (simp add: preserves_def)

lemma preserves_returnM [preserves_intros]: "(\<And>s. R s s) \<Longrightarrow> preserves R (returnM x)"
  and preserves_raiseM [preserves_intros]: "(\<And>s. R s s) \<Longrightarrow> preserves R (raiseM e)"
  and preserves_getsM [preserves_intros]: "(\<And>s. R s s) \<Longrightarrow> preserves R (getsM g)"
  and preserves_liftM [preserves_intros]: "(\<And>s. R s s) \<Longrightarrow> preserves R (liftM v)"
  and preserves_modifyM [preserves_intros]: "(\<And>s. R s (upd s)) \<Longrightarrow> preserves R (modifyM upd)"
  by (auto simp: preserves_def)

lemma preserves_if [preserves_intros]:
  "preserves R m1 \<Longrightarrow> preserves R m2 \<Longrightarrow> preserves R (if b then m1 else m2)"
  by simp

lemma preserves_bindM [preserves_intros]:
  assumes "\<And>a b c. R a b \<Longrightarrow> R b c \<Longrightarrow> R a c"
    and "preserves R m" and "\<And>x. preserves R (f x)"
  shows "preserves R (bindM m f)"
  using assms unfolding preserves_def bindM_def
  by (fastforce split: prod.splits sum.splits)

lemma preserves_tryM [preserves_intros]:
  assumes "\<And>a b c. R a b \<Longrightarrow> R b c \<Longrightarrow> R a c"
    and "preserves R m" and "\<And>e. preserves R (h e)"
  shows "preserves R (tryM m h)"
  using assms unfolding preserves_def tryM_def
  by (fastforce split: prod.splits sum.splits)


text \<open>Building a string under a possibly raising computation.\<close>

lemma map_sum_append_Nil [simp]: "map_sum id (append []) x = x"
  and map_sum_Cons_append [simp]:
    "map_sum id (Cons c) (map_sum id (append s) x) = map_sum id (append (c # s)) x"
  and map_sum_append_append [simp]:
    "map_sum id (append a) (map_sum id (append b) x) = map_sum id (append (a @ b)) x"
  by (cases x; simp)+


section \<open>Python built-ins\<close>

text \<open>\<^verbatim>\<open>d.get(k, default)\<close> on a dictionary.\<close>

definition dict_get :: "('k \<rightharpoonup> 'v) \<Rightarrow> 'k \<Rightarrow> 'v \<Rightarrow> 'v" where
  "dict_get d k dflt = (case d k of None \<Rightarrow> dflt | Some v \<Rightarrow> v)"

lemma dict_get_absent [simp]: "d k = None \<Longrightarrow> dict_get d k dflt = dflt"
  and dict_get_present [simp]: "d k = Some v \<Longrightarrow> dict_get d k dflt = v"
  by (simp_all add: dict_get_def)

text \<open>
  \<^verbatim>\<open>xs[:n]\<close> for a Python \<^verbatim>\<open>int\<close> \<open>n\<close>: a negative stop counts from the end and
  is clipped at 0, a stop beyond the end is clipped at the length.
\<close>

definition py_slice_to :: "'a list \<Rightarrow> int \<Rightarrow> 'a list" where
  "py_slice_to xs n = take (nat (if n < 0 then int (length xs) + n else n)) xs"

lemma py_slice_to_nonneg [simp]: "0 \<le> n \<Longrightarrow> py_slice_to xs n = take (nat n) xs"
  by (simp add: py_slice_to_def)

lemma py_slice_to_neg: "n < 0 \<Longrightarrow> py_slice_to xs n = take (nat (int (length xs) + n)) xs"
  by (simp add: py_slice_to_def)

lemma length_py_slice_to:
  "int (length (py_slice_to xs n)) =
     (if 0 \<le> n then min (int (length xs)) n else max 0 (int (length xs) + n))"
  by (auto simp: py_slice_to_def min_def max_def)

lemma py_slice_to_take: "\<exists>k. py_slice_to xs n = take k xs"
  by (auto simp: py_slice_to_def)

end
