(* ===== verification/Format_Spec.thy ===== *)
theory Format_Spec
  imports Prelude
begin

text \<open>
  The format specification of a replacement field applied to a \<^verbatim>\<open>str\<close>, as
  \<^verbatim>\<open>str.__format__\<close> does it in CPython 3.12 (\<^verbatim>\<open>Python/formatter_unicode.c\<close>):
  \<^verbatim>\<open>parse_internal_render_format_spec\<close> reads
  \<^verbatim>\<open>[[fill]align][sign][z][#][0][width][,|_][.precision][type]\<close> into an
  \<^verbatim>\<open>InternalFormatSpec\<close>, \<^verbatim>\<open>get_integer\<close> reads the width and the precision with
  its \<^verbatim>\<open>Py_ssize_t\<close> overflow check, and \<^verbatim>\<open>format_string_internal\<close> rejects what a
  string does not accept, then truncates to the precision and pads to the width.
  The lemmas: the bounds of \<^verbatim>\<open>get_integer\<close>, the equivalence of the fast path with the
  padding path, and the length and content of a formatted string.
\<close>

section \<open>Characters of the mini-language\<close>

definition is_ascii_digit :: "codepoint \<Rightarrow> bool" where
  "is_ascii_digit c \<longleftrightarrow> 48 \<le> c \<and> c \<le> 57"

text \<open>\<^verbatim>\<open>is_alignment_token\<close>: \<^verbatim>\<open><\<close>, \<^verbatim>\<open>>\<close>, \<^verbatim>\<open>=\<close>, \<^verbatim>\<open>^\<close>;
  \<^verbatim>\<open>is_sign_element\<close>: space, \<^verbatim>\<open>+\<close>, \<^verbatim>\<open>-\<close>.\<close>

definition is_alignment_token :: "codepoint \<Rightarrow> bool" where
  "is_alignment_token c \<longleftrightarrow> c = 60 \<or> c = 62 \<or> c = 61 \<or> c = 94"

definition is_sign_element :: "codepoint \<Rightarrow> bool" where
  "is_sign_element c \<longleftrightarrow> c = 32 \<or> c = 43 \<or> c = 45"

section \<open>Reading an integer\<close>

text \<open>\<^verbatim>\<open>PY_SSIZE_T_MAX\<close> on a 64-bit build.\<close>

definition PY_SSIZE_T_MAX :: int where
  "PY_SSIZE_T_MAX = 2 ^ 63 - 1"

text \<open>
  \<^verbatim>\<open>get_integer\<close>: the decimal digits at the front, their value in \<open>acc\<close> and their
  number in \<open>n\<close>; before each digit the test
  \<^verbatim>\<open>accumulator > (PY_SSIZE_T_MAX - digitval) / 10\<close> detects the overflow.
\<close>

fun get_integer_acc :: "int \<Rightarrow> nat \<Rightarrow> pystr \<Rightarrow> pyexc + (int \<times> nat \<times> pystr)" where
  "get_integer_acc acc n [] = Inr (acc, n, [])"
| "get_integer_acc acc n (c # cs) =
     (if is_ascii_digit c then
        (let d = int c - 48
         in if acc > (PY_SSIZE_T_MAX - d) div 10
            then Inl (ValueError (u ''Too many decimal digits in format string''))
            else get_integer_acc (acc * 10 + d) (Suc n) cs)
      else Inr (acc, n, c # cs))"

definition get_integer :: "pystr \<Rightarrow> pyexc + (int \<times> nat \<times> pystr)" where
  "get_integer s = get_integer_acc 0 0 s"

section \<open>The parsed specification\<close>

datatype thousands = LT_NO_LOCALE | LT_DEFAULT_LOCALE | LT_UNDERSCORE_LOCALE | LT_UNDER_FOUR_LOCALE

text \<open>\<^verbatim>\<open>InternalFormatSpec\<close>; an absent width or precision is \<open>-1\<close>, as in C.\<close>

record format_spec =
  sp_fill :: codepoint
  sp_align :: codepoint
  sp_alternate :: bool
  sp_no_neg_0 :: bool
  sp_sign :: "codepoint option"
  sp_width :: int
  sp_thousands :: thousands
  sp_precision :: int
  sp_type :: codepoint

text \<open>One optional character at the front, taken if it satisfies \<open>P\<close>.\<close>

definition opt_char :: "(codepoint \<Rightarrow> bool) \<Rightarrow> pystr \<Rightarrow> codepoint option \<times> pystr" where
  "opt_char P s = (case s of c # r \<Rightarrow> if P c then (Some c, r) else (None, s) | [] \<Rightarrow> (None, []))"

text \<open>\<open>[[fill]align]\<close>: a fill character only in front of an alignment token.\<close>

definition align_prefix :: "pystr \<Rightarrow> codepoint option \<times> codepoint option \<times> pystr" where
  "align_prefix s =
     (case s of
        c # d # r \<Rightarrow>
          if is_alignment_token d then (Some c, Some d, r)
          else if is_alignment_token c then (None, Some c, d # r)
          else (None, None, s)
      | [c] \<Rightarrow> if is_alignment_token c then (None, Some c, []) else (None, None, s)
      | [] \<Rightarrow> (None, None, []))"

text \<open>The digits of \<open>k\<close> in lower-case hexadecimal, as \<^verbatim>\<open>%x\<close> prints them.\<close>

definition hex_digit :: "nat \<Rightarrow> codepoint" where
  "hex_digit d = (if d < 10 then 48 + d else 87 + d)"

fun hex_str :: "nat \<Rightarrow> pystr" where
  "hex_str k = (if k < 16 then [hex_digit k] else hex_str (k div 16) @ [hex_digit (k mod 16)])"

text \<open>The character of a message \<^verbatim>\<open>'%c'\<close>, or \<^verbatim>\<open>'\x%x'\<close> outside the printable ASCII range.\<close>

definition msg_char :: "codepoint \<Rightarrow> pystr" where
  "msg_char c = (if 32 < c \<and> c < 128 then [c] else [92, 120] @ hex_str c)"

definition invalid_thousands_separator_type :: "thousands \<Rightarrow> codepoint \<Rightarrow> pyexc" where
  "invalid_thousands_separator_type t c =
     ValueError (u ''Cannot specify '' @ [39] @ (if t = LT_DEFAULT_LOCALE then u '','' else u ''_'') @
                 [39] @ u '' with '' @ [39] @ msg_char c @ [39, 46])"

definition invalid_comma_and_underscore :: pyexc where
  "invalid_comma_and_underscore =
     ValueError (u ''Cannot specify both '' @ [39, 44, 39] @ u '' and '' @ [39, 95, 39, 46])"

definition unknown_presentation_type :: "codepoint \<Rightarrow> pystr \<Rightarrow> pyexc" where
  "unknown_presentation_type c tname =
     ValueError (u ''Unknown format code '' @ [39] @ msg_char c @ [39] @ u '' for object of type '' @
                 [39] @ tname @ [39])"

section \<open>Parsing the specification\<close>

text \<open>
  \<^verbatim>\<open>parse_internal_render_format_spec(obj, format_spec, start, end, format,
  default_type, default_align)\<close>, step by step in the order of the C code; \<open>tname\<close> is
  the type name of \<^verbatim>\<open>obj\<close> used in the error message.
\<close>

text \<open>The precision after a dot: \<open>-1\<close> when there is no dot; a dot without digits is an error.\<close>

definition parse_precision :: "pystr \<Rightarrow> pyexc + (int \<times> pystr)" where
  "parse_precision s =
     (if take 1 s = [46] then
        (case get_integer (drop 1 s) of
           Inl e \<Rightarrow> Inl e
         | Inr (p, np, r) \<Rightarrow>
             if np = 0 then Inl (ValueError (u ''Format specifier missing precision'')) else Inr (p, r))
      else Inr (-1, s))"

text \<open>The presentation types that accept a thousands separator.\<close>

definition thousands_ok :: "thousands \<Rightarrow> codepoint \<Rightarrow> bool" where
  "thousands_ok th ty \<longleftrightarrow>
     th = LT_NO_LOCALE \<or> ty \<in> set (u ''defgEG%F'') \<or> ty = 0 \<or>
     (th = LT_UNDERSCORE_LOCALE \<and> ty \<in> set (u ''boxX''))"

definition parse_format_spec ::
  "codepoint \<Rightarrow> codepoint \<Rightarrow> pystr \<Rightarrow> pystr \<Rightarrow> pyexc + format_spec" where
  "parse_format_spec default_type default_align tname spec =
     (let (fill, align, s1) = align_prefix spec;
          (sign, s2) = opt_char is_sign_element s1;
          (z, s3) = opt_char (\<lambda>c. c = 122) s2;
          (alt, s4) = opt_char (\<lambda>c. c = 35) s3;
          (zero, s5) = (if fill = None then opt_char (\<lambda>c. c = 48) s4 else (None, s4))
      in case get_integer s5 of
           Inl e \<Rightarrow> Inl e
         | Inr (w, nw, s6) \<Rightarrow>
             (let (comma, s7) = opt_char (\<lambda>c. c = 44) s6;
                  (under, s8) = opt_char (\<lambda>c. c = 95) s7;
                  th = (if under \<noteq> None then LT_UNDERSCORE_LOCALE
                        else if comma \<noteq> None then LT_DEFAULT_LOCALE else LT_NO_LOCALE)
              in if under \<noteq> None \<and> (comma \<noteq> None \<or> take 1 s8 = [44]) then Inl invalid_comma_and_underscore
                 else
                   (case parse_precision s8 of
                      Inl e \<Rightarrow> Inl e
                    | Inr (p, s9) \<Rightarrow>
                        if length s9 > 1 then
                          Inl (ValueError (u ''Invalid format specifier '' @ [39] @ spec @ [39] @
                                           u '' for object of type '' @ [39] @ tname @ [39]))
                        else
                          (let ty = (case s9 of [c] \<Rightarrow> c | _ \<Rightarrow> default_type)
                           in if \<not> thousands_ok th ty then Inl (invalid_thousands_separator_type th ty)
                              else Inr \<lparr>sp_fill = (case fill of Some c \<Rightarrow> c | None \<Rightarrow> if zero \<noteq> None then 48 else 32),
                                        sp_align = (case align of Some a \<Rightarrow> a
                                                    | None \<Rightarrow> if zero \<noteq> None \<and> default_align = 62 then 61
                                                              else default_align),
                                        sp_alternate = (alt \<noteq> None), sp_no_neg_0 = (z \<noteq> None),
                                        sp_sign = sign, sp_width = (if nw = 0 then -1 else w),
                                        sp_thousands = (if th = LT_UNDERSCORE_LOCALE \<and> ty \<in> set (u ''boxX'')
                                                        then LT_UNDER_FOUR_LOCALE else th),
                                        sp_precision = p, sp_type = ty\<rparr>))))"

section \<open>Formatting a string\<close>

text \<open>\<^verbatim>\<open>calc_padding(nchars, width, align)\<close>: left padding, right padding, total.\<close>

definition calc_padding :: "int \<Rightarrow> int \<Rightarrow> codepoint \<Rightarrow> int \<times> int \<times> int" where
  "calc_padding nchars width align =
     (let total = (if width \<ge> 0 then (if nchars > width then nchars else width) else nchars);
          lpad = (if align = 62 then total - nchars else if align = 94 then (total - nchars) div 2 else 0)
      in (lpad, total - nchars - lpad, total))"

text \<open>The padding path: truncate to the precision, pad with the fill character.\<close>

definition pad_layout :: "format_spec \<Rightarrow> pystr \<Rightarrow> pystr" where
  "pad_layout f value =
     (let len = int (length value);
          len' = (if sp_precision f \<ge> 0 \<and> len \<ge> sp_precision f then sp_precision f else len);
          (lpad, rpad, total) = calc_padding len' (sp_width f) (sp_align f)
      in replicate (nat lpad) (sp_fill f) @ take (nat len') value @ replicate (nat rpad) (sp_fill f))"

text \<open>
  \<^verbatim>\<open>format_string_internal\<close>: the checks of what a string does not accept, the fast path
  that writes the string unchanged, and the padding path.
\<close>

definition format_string_internal :: "format_spec \<Rightarrow> pystr \<Rightarrow> pyexc + pystr" where
  "format_string_internal f value =
     (let len = int (length value)
      in if sp_sign f \<noteq> None then
           Inl (ValueError (if sp_sign f = Some 32 then u ''Space not allowed in string format specifier''
                            else u ''Sign not allowed in string format specifier''))
         else if sp_no_neg_0 f then
           Inl (ValueError (u ''Negative zero coercion (z) not allowed in string format specifier''))
         else if sp_alternate f then
           Inl (ValueError (u ''Alternate form (#) not allowed in string format specifier''))
         else if sp_align f = 61 then
           Inl (ValueError ([39, 61, 39] @ u '' alignment not allowed in string format specifier''))
         else if (sp_width f = -1 \<or> sp_width f \<le> len) \<and> (sp_precision f = -1 \<or> sp_precision f \<ge> len)
         then Inr value
         else Inr (pad_layout f value))"

text \<open>
  \<^verbatim>\<open>format(value, spec)\<close> for a \<^verbatim>\<open>str\<close> (\<^verbatim>\<open>_PyUnicode_FormatAdvancedWriter\<close>):
  the empty specification is \<^verbatim>\<open>str(value)\<close>, otherwise the default type is \<^verbatim>\<open>s\<close>, the
  default alignment \<^verbatim>\<open><\<close>, and \<^verbatim>\<open>s\<close> is the only type a string accepts.
\<close>

definition str_format_spec :: "pystr \<Rightarrow> pystr \<Rightarrow> pyexc + pystr" where
  "str_format_spec value spec =
     (if spec = [] then Inr value
      else case parse_format_spec 115 60 (u ''str'') spec of
             Inl e \<Rightarrow> Inl e
           | Inr f \<Rightarrow>
               if sp_type f = 115 then format_string_internal f value
               else Inl (unknown_presentation_type (sp_type f) (u ''str'')))"


text \<open>The value of a string of decimal digits, without bound.\<close>

definition dec_val :: "pystr \<Rightarrow> int" where
  "dec_val ds = foldl (\<lambda>a c. a * 10 + (int c - 48)) 0 ds"

text \<open>
  The layout the language reference describes for a string field: the text (already cut
  to the precision) padded with the fill character to the width, on the right for
  \<^verbatim>\<open><\<close>, on the left for \<^verbatim>\<open>>\<close>, on both sides for \<^verbatim>\<open>^\<close> with the odd
  character on the right. A reference for \<open>pad_layout\<close>, written independently of it.
\<close>

definition str_layout :: "codepoint \<Rightarrow> codepoint \<Rightarrow> nat \<Rightarrow> pystr \<Rightarrow> pystr" where
  "str_layout fill align width s =
     (let n = width - length s
      in if align = 62 then replicate n fill @ s
         else if align = 94 then replicate (n div 2) fill @ s @ replicate (n - n div 2) fill
         else s @ replicate n fill)"

text \<open>What the parser guarantees of a specification: an absent width or precision is \<open>-1\<close>.\<close>

definition spec_wf :: "format_spec \<Rightarrow> bool" where
  "spec_wf f \<longleftrightarrow> -1 \<le> sp_width f \<and> -1 \<le> sp_precision f"

lemma str_format_spec_Nil [simp]: "str_format_spec v [] = Inr v"
  by (simp add: str_format_spec_def)

section \<open>Lemmas\<close>

text \<open>
  The overflow test of \<^verbatim>\<open>get_integer\<close> is exact: it fails just when the next
  accumulator would exceed the bound, so the digits read are accepted exactly when their
  value is at most \<^verbatim>\<open>PY_SSIZE_T_MAX\<close>.
\<close>

lemma overflow_test:
  fixes acc d M :: int
  shows "acc > (M - d) div 10 \<longleftrightarrow> acc * 10 + d > M"
proof -
  have "M - d = 10 * ((M - d) div 10) + (M - d) mod 10" by simp
  moreover have "0 \<le> (M - d) mod 10" "(M - d) mod 10 < 10" by simp_all
  ultimately show ?thesis by linarith
qed

lemma digit_val: "is_ascii_digit c \<Longrightarrow> 0 \<le> int c - 48 \<and> int c - 48 \<le> 9"
  by (simp add: is_ascii_digit_def)

lemma foldl_dec_mono:
  "list_all is_ascii_digit ds \<Longrightarrow> 0 \<le> acc \<Longrightarrow> acc \<le> foldl (\<lambda>a c. a * 10 + (int c - 48)) acc ds"
proof (induction ds arbitrary: acc)
  case (Cons c ds)
  let ?a = "acc * 10 + (int c - 48)"
  have "acc \<le> ?a" "0 \<le> ?a" using Cons.prems digit_val [of c] by auto
  moreover have "?a \<le> foldl (\<lambda>a c. a * 10 + (int c - 48)) ?a ds"
    using Cons.IH Cons.prems(1) \<open>0 \<le> ?a\<close> by simp
  ultimately show ?case by simp
qed simp

lemma get_integer_acc_digits:
  assumes "list_all is_ascii_digit ds" and "take 1 rest = [] \<or> \<not> is_ascii_digit (hd rest)"
    and "0 \<le> acc" and "acc \<le> PY_SSIZE_T_MAX"
  shows "get_integer_acc acc n (ds @ rest) =
           (let v = foldl (\<lambda>a c. a * 10 + (int c - 48)) acc ds
            in if v \<le> PY_SSIZE_T_MAX then Inr (v, n + length ds, rest)
               else Inl (ValueError (u ''Too many decimal digits in format string'')))"
  using assms
proof (induction ds arbitrary: acc n)
  case Nil
  then show ?case by (cases rest) auto
next
  case (Cons c ds)
  define d where "d = int c - 48"
  have dd: "0 \<le> d" "d \<le> 9" using digit_val [of c] Cons.prems(1) by (auto simp: d_def)
  show ?case
  proof (cases "acc * 10 + d > PY_SSIZE_T_MAX")
    case True
    moreover have "acc * 10 + d \<le> foldl (\<lambda>a c. a * 10 + (int c - 48)) (acc * 10 + d) ds"
      using Cons.prems(1,3) dd by (intro foldl_dec_mono) auto
    ultimately show ?thesis using Cons.prems(1,3) dd overflow_test [of acc PY_SSIZE_T_MAX d]
      by (auto simp: d_def Let_def)
  next
    case False
    with overflow_test [of acc PY_SSIZE_T_MAX d] Cons.prems dd Cons.IH [of "acc * 10 + d" "Suc n"]
    show ?thesis by (auto simp: d_def Let_def)
  qed
qed

lemma get_integer_bounds:
  assumes "list_all is_ascii_digit ds" and "take 1 rest = [] \<or> \<not> is_ascii_digit (hd rest)"
  shows "get_integer (ds @ rest) =
           (if dec_val ds \<le> PY_SSIZE_T_MAX then Inr (dec_val ds, length ds, rest)
            else Inl (ValueError (u ''Too many decimal digits in format string'')))"
  using get_integer_acc_digits [OF assms, of 0 0]
  by (simp add: get_integer_def dec_val_def PY_SSIZE_T_MAX_def Let_def)

text \<open>The fast path of \<^verbatim>\<open>format_string_internal\<close> writes what the padding path would write.\<close>

lemma format_fast_path_eq:
  assumes "spec_wf f" and "sp_sign f = None" "\<not> sp_no_neg_0 f" "\<not> sp_alternate f" "sp_align f \<noteq> 61"
  shows "format_string_internal f v = Inr (pad_layout f v)"
proof -
  have "pad_layout f v = v"
    if "sp_width f = -1 \<or> sp_width f \<le> int (length v)"
       "sp_precision f = -1 \<or> sp_precision f \<ge> int (length v)"
    using that assms(1)
    by (auto simp: pad_layout_def calc_padding_def spec_wf_def Let_def)
  with assms show ?thesis by (auto simp: format_string_internal_def Let_def)
qed

text \<open>The padding path makes the string as long as the larger of the width and the truncated text.\<close>

lemma calc_padding_sum:
  assumes "0 \<le> n" and "-1 \<le> w" and "calc_padding n w a = (l, r, t)"
  shows "0 \<le> l \<and> 0 \<le> r \<and> l + n + r = t \<and> t = max w n"
  using assms by (auto simp: calc_padding_def Let_def max_def)

lemma pad_layout_length:
  assumes "spec_wf f"
  shows "length (pad_layout f v) =
           max (nat (sp_width f))
               (if 0 \<le> sp_precision f then min (nat (sp_precision f)) (length v) else length v)"
proof -
  define n where "n = (if sp_precision f \<ge> 0 \<and> int (length v) \<ge> sp_precision f
                       then sp_precision f else int (length v))"
  obtain l r t where lrt: "calc_padding n (sp_width f) (sp_align f) = (l, r, t)"
    by (cases "calc_padding n (sp_width f) (sp_align f)") auto
  have n0: "0 \<le> n" and tk: "length (take (nat n) v) = nat n"
    and nv: "nat n = (if 0 \<le> sp_precision f then min (nat (sp_precision f)) (length v) else length v)"
    using assms by (auto simp: n_def spec_wf_def)
  from calc_padding_sum [OF n0 _ lrt] assms have "0 \<le> l \<and> 0 \<le> r \<and> l + n + r = t \<and> t = max (sp_width f) n"
    by (simp add: spec_wf_def)
  then have "nat l + nat n + nat r = max (nat (sp_width f)) (nat n)"
    using n0 by (simp add: max_def nat_add_distrib [symmetric] split: if_splits)
  then show ?thesis
    using lrt tk by (simp add: pad_layout_def n_def [symmetric] Let_def nv)
qed

text \<open>The padding path lays the string out as the reference says.\<close>

lemma pad_layout_str_layout:
  assumes "spec_wf f"
  shows "pad_layout f v =
           str_layout (sp_fill f) (sp_align f) (nat (sp_width f))
             (if 0 \<le> sp_precision f then take (nat (sp_precision f)) v else v)"
proof -
  define t where "t = (if 0 \<le> sp_precision f then take (nat (sp_precision f)) v else v)"
  define k where "k = nat (sp_width f) - length t"
  have len: "(if sp_precision f \<ge> 0 \<and> int (length v) \<ge> sp_precision f then sp_precision f
              else int (length v)) = int (length t)"
    by (auto simp: t_def)
  have tk: "take (length t) v = t" by (auto simp: t_def min_def)
  have tot: "(if sp_width f \<ge> 0 then (if int (length t) > sp_width f then int (length t) else sp_width f)
              else int (length t)) - int (length t) = int k"
    using assms by (auto simp: k_def spec_wf_def)
  have "nat (int k div 2) = k div 2" "nat (int k - int k div 2) = k - k div 2"
    by (simp_all add: zdiv_int [symmetric] of_nat_diff [symmetric])
  then show ?thesis
    unfolding pad_layout_def calc_padding_def Let_def len tot
    by (simp add: str_layout_def Let_def k_def [symmetric] t_def [symmetric] tk)
qed

lemma get_integer_acc_nonneg:
  "get_integer_acc acc n s = Inr (v, m, r) \<Longrightarrow> 0 \<le> acc \<Longrightarrow> 0 \<le> v"
proof (induction acc n s rule: get_integer_acc.induct)
  case (2 acc n c cs)
  then show ?case by (auto simp: Let_def is_ascii_digit_def split: if_splits)
qed simp

lemma get_integer_nonneg: "get_integer s = Inr (v, m, r) \<Longrightarrow> 0 \<le> v"
  unfolding get_integer_def by (erule get_integer_acc_nonneg) simp

lemma parse_precision_wf: "parse_precision s = Inr (p, r) \<Longrightarrow> -1 \<le> p"
  by (auto simp: parse_precision_def dest!: get_integer_nonneg split: if_splits sum.splits prod.splits)

lemma parse_format_spec_wf:
  assumes "parse_format_spec dt da tn spec = Inr f"
  shows "spec_wf f"
proof -
  obtain fill align s1 where a: "align_prefix spec = (fill, align, s1)" by (metis prod.exhaust)
  obtain sign s2 where b: "opt_char is_sign_element s1 = (sign, s2)" by fastforce
  obtain z s3 where c: "opt_char (\<lambda>c. c = 122) s2 = (z, s3)" by fastforce
  obtain alt s4 where d: "opt_char (\<lambda>c. c = 35) s3 = (alt, s4)" by fastforce
  obtain zero s5 where e: "(if fill = None then opt_char (\<lambda>c. c = 48) s4 else (None, s4)) = (zero, s5)"
    by fastforce
  from assms a b c d e obtain w nw s6 where g: "get_integer s5 = Inr (w, nw, s6)"
    by (auto simp: parse_format_spec_def split: sum.splits)
  obtain comma s7 where h: "opt_char (\<lambda>c. c = 44) s6 = (comma, s7)" by fastforce
  obtain under s8 where i: "opt_char (\<lambda>c. c = 95) s7 = (under, s8)" by fastforce
  from assms a b c d e g h i obtain p s9 where j: "parse_precision s8 = Inr (p, s9)"
    by (auto simp: parse_format_spec_def Let_def split: sum.splits if_splits)
  from assms a b c d e g h i j have "sp_width f = (if nw = 0 then -1 else w) \<and> sp_precision f = p"
    by (auto simp: parse_format_spec_def Let_def split: if_splits)
  with get_integer_nonneg [OF g] parse_precision_wf [OF j] show ?thesis
    by (simp add: spec_wf_def)
qed



text \<open>A precision alone, \<^verbatim>\<open>.ds\<close>: the string cut to that many code points.\<close>

lemma str_format_spec_precision:
  assumes "list_all is_ascii_digit ds" and "ds \<noteq> []"
  shows "str_format_spec v (46 # ds) =
           (if dec_val ds \<le> PY_SSIZE_T_MAX then Inr (take (nat (dec_val ds)) v)
            else Inl (ValueError (u ''Too many decimal digits in format string'')))"
proof -
  have gi: "get_integer ds = (if dec_val ds \<le> PY_SSIZE_T_MAX then Inr (dec_val ds, length ds, [])
            else Inl (ValueError (u ''Too many decimal digits in format string'')))"
    using get_integer_bounds [OF assms(1), of "[]"] by simp
  from assms obtain d ds' where ds: "ds = d # ds'" and dd: "is_ascii_digit d"
    by (cases ds) auto
  have na: "\<not> is_alignment_token d" "\<not> is_alignment_token 46"
    using dd by (auto simp: is_alignment_token_def is_ascii_digit_def)
  have g0: "get_integer (46 # ds) = Inr (0, 0, 46 # ds)"
    by (simp add: get_integer_def is_ascii_digit_def)
  have pp: "parse_precision (46 # ds) =
              (if dec_val ds \<le> PY_SSIZE_T_MAX then Inr (dec_val ds, [])
               else Inl (ValueError (u ''Too many decimal digits in format string'')))"
    using gi assms(2) by (simp add: parse_precision_def)
  have nonneg: "0 \<le> dec_val ds" if "dec_val ds \<le> PY_SSIZE_T_MAX"
    using that gi get_integer_nonneg by fastforce
  show ?thesis
  proof (cases "dec_val ds \<le> PY_SSIZE_T_MAX")
    case True
    then have "parse_format_spec 115 60 (u ''str'') (46 # ds) =
        Inr \<lparr>sp_fill = 32, sp_align = 60, sp_alternate = False, sp_no_neg_0 = False, sp_sign = None,
             sp_width = -1, sp_thousands = LT_NO_LOCALE, sp_precision = dec_val ds, sp_type = 115\<rparr>"
      using na g0 pp ds
      by (simp add: parse_format_spec_def align_prefix_def opt_char_def is_sign_element_def
          thousands_ok_def)
    with True nonneg show ?thesis
      by (auto simp: str_format_spec_def format_string_internal_def pad_layout_def calc_padding_def
          Let_def)
  next
    case False
    then have "parse_format_spec 115 60 (u ''str'') (46 # ds) =
        Inl (ValueError (u ''Too many decimal digits in format string''))"
      using na g0 pp ds
      by (simp add: parse_format_spec_def align_prefix_def opt_char_def is_sign_element_def)
    with False show ?thesis by (simp add: str_format_spec_def)
  qed
qed

end
