(* ===== verification/Py_Repr.thy ===== *)
theory Py_Repr
  imports Format_Spec
begin

text \<open>
  The conversions \<^verbatim>\<open>!a\<close> and \<^verbatim>\<open>!r\<close> of a replacement field on a \<^verbatim>\<open>str\<close>:
  \<^verbatim>\<open>ascii(s)\<close> and \<^verbatim>\<open>repr(s)\<close> as CPython 3.12 computes them (\<^verbatim>\<open>unicode_repr\<close> in
  \<^verbatim>\<open>Objects/unicodeobject.c\<close>, then the \<^verbatim>\<open>backslashreplace\<close> error handler for
  \<^verbatim>\<open>ascii\<close>). The quote is \<^verbatim>\<open>"\<close> when the text has a single quote and no double
  quote, otherwise \<^verbatim>\<open>'\<close>; the quote and the backslash are escaped, tab, newline and
  carriage return are written \<^verbatim>\<open>\t\<close>, \<^verbatim>\<open>\n\<close>, \<^verbatim>\<open>\r\<close>, other control characters
  \<^verbatim>\<open>\xhh\<close>, and every non-ASCII character \<^verbatim>\<open>\xhh\<close>, \<^verbatim>\<open>\uhhhh\<close> or
  \<^verbatim>\<open>\Uhhhhhhhh\<close>. \<^verbatim>\<open>repr\<close> equals \<^verbatim>\<open>ascii\<close> on ASCII text; on other text it keeps the
  printable characters, which needs the Unicode database, and is not modelled.
  The reading of a Python string literal is modelled too (\<open>py_literal_value\<close>, the
  escapes above), and the lemmas show that \<^verbatim>\<open>ascii(s)\<close> is ASCII and reads back as
  \<open>s\<close>.
\<close>

section \<open>Hexadecimal digits\<close>

text \<open>The last \<open>n\<close> hexadecimal digits of \<open>k\<close>, as \<^verbatim>\<open>%0nx\<close> writes them.\<close>

fun hex_pad :: "nat \<Rightarrow> nat \<Rightarrow> pystr" where
  "hex_pad 0 k = []"
| "hex_pad (Suc n) k = hex_pad n (k div 16) @ [hex_digit (k mod 16)]"

text \<open>The value of a hexadecimal digit in a literal (either case), and of a string of them.\<close>

definition hex_digit_value :: "codepoint \<Rightarrow> nat option" where
  "hex_digit_value c =
     (if 48 \<le> c \<and> c \<le> 57 then Some (c - 48)
      else if 97 \<le> c \<and> c \<le> 102 then Some (c - 87)
      else if 65 \<le> c \<and> c \<le> 70 then Some (c - 55) else None)"

fun hex_value_acc :: "nat \<Rightarrow> pystr \<Rightarrow> nat option" where
  "hex_value_acc acc [] = Some acc"
| "hex_value_acc acc (c # cs) =
     (case hex_digit_value c of None \<Rightarrow> None | Some d \<Rightarrow> hex_value_acc (acc * 16 + d) cs)"

lemma hex_pad_numeral [simp]:
  "hex_pad (numeral n) k = hex_pad (pred_numeral n) (k div 16) @ [hex_digit (k mod 16)]"
  using hex_pad.simps(2) [of "pred_numeral n" k] by (simp only: numeral_eq_Suc [of n])

section \<open>ascii() and repr() of a string\<close>

text \<open>The escape of one character inside a literal quoted with \<open>q\<close>.\<close>

definition ascii_escape :: "codepoint \<Rightarrow> codepoint \<Rightarrow> pystr" where
  "ascii_escape q c =
     (if c = q \<or> c = 92 then [92, c]
      else if c = 9 then [92, 116]
      else if c = 10 then [92, 110]
      else if c = 13 then [92, 114]
      else if c < 32 \<or> c = 127 then [92, 120] @ hex_pad 2 c
      else if c < 127 then [c]
      else if c < 256 then [92, 120] @ hex_pad 2 c
      else if c < 65536 then [92, 117] @ hex_pad 4 c
      else [92, 85] @ hex_pad 8 c)"

definition repr_quote :: "pystr \<Rightarrow> codepoint" where
  "repr_quote s = (if 39 \<in> set s \<and> 34 \<notin> set s then 34 else 39)"

definition py_ascii :: "pystr \<Rightarrow> pystr" where
  "py_ascii s = (let q = repr_quote s in q # concat (map (ascii_escape q) s) @ [q])"

text \<open>\<^verbatim>\<open>repr(s)\<close>: the same as \<^verbatim>\<open>ascii(s)\<close> on ASCII text.\<close>

definition py_repr :: "pystr \<Rightarrow> pyexc + pystr" where
  "py_repr s = (if list_all (\<lambda>c. c < 128) s then Inr (py_ascii s)
                else Inl (Unmodelled (u ''repr of non-ASCII text'')))"

text \<open>
  \<^verbatim>\<open>do_conversion\<close> of \<^verbatim>\<open>Objects/stringlib/unicode_format.h\<close> on a \<^verbatim>\<open>str\<close>:
  no conversion and \<^verbatim>\<open>!s\<close> leave it, \<^verbatim>\<open>!r\<close> and \<^verbatim>\<open>!a\<close> quote it, any other
  character is an error naming it (\<^verbatim>\<open>%c\<close> in the printable range, \<^verbatim>\<open>\x%x\<close> outside).
\<close>

definition do_conversion :: "codepoint option \<Rightarrow> pystr \<Rightarrow> pyexc + pystr" where
  "do_conversion cv v =
     (case cv of
        None \<Rightarrow> Inr v
      | Some c \<Rightarrow>
          if c = 115 then Inr v
          else if c = 114 then py_repr v
          else if c = 97 then Inr (py_ascii v)
          else Inl (ValueError (u ''Unknown conversion specifier '' @
                                (if 32 < c \<and> c < 127 then [c] else [92, 120] @ hex_str c))))"

lemma do_conversion_None [simp]: "do_conversion None v = Inr v"
  by (simp add: do_conversion_def)

section \<open>Reading a string literal\<close>

text \<open>
  The body of a literal opened with quote \<open>q\<close>, up to its closing quote, which must end
  the text; \<open>None\<close> for a malformed literal.
\<close>

function lit_body :: "codepoint \<Rightarrow> pystr \<Rightarrow> pystr option" where
  "lit_body q [] = None"
| "lit_body q (c # cs) =
     (if c = q then (if cs = [] then Some [] else None)
      else if c = 92 then
        (case cs of
           [] \<Rightarrow> None
         | e # r \<Rightarrow>
             if e = 92 \<or> e = 39 \<or> e = 34 then map_option (Cons e) (lit_body q r)
             else if e = 116 then map_option (Cons 9) (lit_body q r)
             else if e = 110 then map_option (Cons 10) (lit_body q r)
             else if e = 114 then map_option (Cons 13) (lit_body q r)
             else
               (let k = (if e = 120 then 2 else if e = 117 then 4 else if e = 85 then 8 else 0)
                in if k = 0 \<or> length r < k then None
                   else (case hex_value_acc 0 (take k r) of
                           None \<Rightarrow> None
                         | Some v \<Rightarrow> map_option (Cons v) (lit_body q (drop k r)))))
      else map_option (Cons c) (lit_body q cs))"
  by pat_completeness auto
termination
  by (relation "measure (\<lambda>(q, s). length s)") auto

definition py_literal_value :: "pystr \<Rightarrow> pystr option" where
  "py_literal_value s = (case s of q # r \<Rightarrow> if q = 39 \<or> q = 34 then lit_body q r else None | [] \<Rightarrow> None)"

section \<open>Lemmas\<close>

lemma hex_digit_value_digit: "d < 16 \<Longrightarrow> hex_digit_value (hex_digit d) = Some d"
  by (simp add: hex_digit_value_def hex_digit_def)

lemma hex_value_acc_snoc:
  "hex_value_acc acc (xs @ [c]) =
     (case hex_value_acc acc xs of None \<Rightarrow> None
      | Some a \<Rightarrow> (case hex_digit_value c of None \<Rightarrow> None | Some d \<Rightarrow> Some (a * 16 + d)))"
  by (induction xs arbitrary: acc) (auto split: option.split)

lemma length_hex_pad [simp]: "length (hex_pad n k) = n"
  by (induction n arbitrary: k) auto

lemma hex_value_hex_pad: "k < 16 ^ n \<Longrightarrow> hex_value_acc acc (hex_pad n k) = Some (acc * 16 ^ n + k)"
proof (induction n arbitrary: acc k)
  case (Suc n)
  have "k div 16 < 16 ^ n" using Suc.prems by (simp add: less_mult_imp_div_less mult.commute)
  from Suc.IH [OF this] show ?case
    by (simp add: hex_value_acc_snoc hex_digit_value_digit algebra_simps)
qed simp

lemma hex_digit_ascii: "d < 16 \<Longrightarrow> hex_digit d < 128"
  by (simp add: hex_digit_def)

lemma hex_pad_ascii: "c \<in> set (hex_pad n k) \<Longrightarrow> c < 128"
  by (induction n arbitrary: k) (auto simp: hex_digit_ascii)

text \<open>Reading back the escape of one character.\<close>

lemma lit_body_hex:
  assumes q: "q = 39 \<or> q = 34" and k: "k < 16 ^ n"
    and e: "(e = 120 \<and> n = 2) \<or> (e = 117 \<and> n = 4) \<or> (e = 85 \<and> n = 8)"
  shows "lit_body q (92 # e # hex_pad n k @ rest) = map_option (Cons k) (lit_body q rest)"
proof -
  have tk: "take n (hex_pad n k @ rest) = hex_pad n k" and dr: "drop n (hex_pad n k @ rest) = rest"
    and ln: "\<not> length (hex_pad n k @ rest) < n"
    by simp_all
  have "lit_body q (92 # e # hex_pad n k @ rest) =
          (case hex_value_acc 0 (take n (hex_pad n k @ rest)) of
             None \<Rightarrow> None
           | Some v \<Rightarrow> map_option (Cons v) (lit_body q (drop n (hex_pad n k @ rest))))"
    using q e ln by (auto simp del: hex_pad_numeral)
  with hex_value_hex_pad [OF k, of 0] show ?thesis
    unfolding tk dr by simp
qed

lemma lit_body_escape:
  assumes q: "q = 39 \<or> q = 34" and c: "c < 1114112"
  shows "lit_body q (ascii_escape q c @ rest) = map_option (Cons c) (lit_body q rest)"
proof -
  consider "c = q \<or> c = 92 \<or> c = 9 \<or> c = 10 \<or> c = 13"
    | (ctl) "\<not> (c = q \<or> c = 92 \<or> c = 9 \<or> c = 10 \<or> c = 13)" "c < 32 \<or> c = 127"
    | (plain) "\<not> (c = q \<or> c = 92 \<or> c = 9 \<or> c = 10 \<or> c = 13)" "32 \<le> c" "c < 127"
    | (x) "127 < c" "c < 256"
    | (uu) "256 \<le> c" "c < 65536"
    | (U) "65536 \<le> c"
    by linarith
  then show ?thesis
  proof cases
    case 1
    have nq: "92 \<noteq> q" using q by auto
    from 1 consider "c = q" | "c = 92" | "c = 9" | "c = 10" | "c = 13" by blast
    then show ?thesis
    proof cases
      case 1
      then have "ascii_escape q c = [92, q]" by (simp add: ascii_escape_def)
      with 1 q nq show ?thesis by (simp only: append.simps lit_body.simps) auto
    next
      case 2
      then have "ascii_escape q c = [92, 92]" by (simp add: ascii_escape_def)
      with 2 nq show ?thesis by (simp only: append.simps lit_body.simps) simp
    next
      case 3
      with q have "ascii_escape q c = [92, 116]" by (auto simp: ascii_escape_def)
      with 3 nq show ?thesis by (simp only: append.simps lit_body.simps) simp
    next
      case 4
      with q have "ascii_escape q c = [92, 110]" by (auto simp: ascii_escape_def)
      with 4 nq show ?thesis by (simp only: append.simps lit_body.simps) simp
    next
      case 5
      with q have "ascii_escape q c = [92, 114]" by (auto simp: ascii_escape_def)
      with 5 nq show ?thesis by (simp only: append.simps lit_body.simps) simp
    qed
  next
    case ctl
    then have "ascii_escape q c = [92, 120] @ hex_pad 2 c" by (auto simp: ascii_escape_def simp del: hex_pad_numeral)
    with ctl lit_body_hex [OF q, of c 2 120 rest] show ?thesis by (auto simp del: hex_pad_numeral)
  next
    case plain
    then have "ascii_escape q c = [c]" by (simp add: ascii_escape_def)
    with plain q show ?thesis by simp
  next
    case x
    with q have "ascii_escape q c = [92, 120] @ hex_pad 2 c" by (auto simp: ascii_escape_def simp del: hex_pad_numeral)
    with x lit_body_hex [OF q, of c 2 120 rest] show ?thesis by (simp del: hex_pad_numeral)
  next
    case uu
    with q have "ascii_escape q c = [92, 117] @ hex_pad 4 c" by (auto simp: ascii_escape_def simp del: hex_pad_numeral)
    with uu lit_body_hex [OF q, of c 4 117 rest] show ?thesis by (simp del: hex_pad_numeral)
  next
    case U
    with q have "ascii_escape q c = [92, 85] @ hex_pad 8 c" by (auto simp: ascii_escape_def simp del: hex_pad_numeral)
    with U c lit_body_hex [OF q, of c 8 85 rest] show ?thesis by (simp del: hex_pad_numeral)
  qed
qed

lemma lit_body_escaped:
  "q = 39 \<or> q = 34 \<Longrightarrow> list_all (\<lambda>c. c < 1114112) s \<Longrightarrow>
     lit_body q (concat (map (ascii_escape q) s) @ [q]) = Some s"
  by (induction s) (simp_all add: lit_body_escape)

lemma ascii_escape_ascii: "x \<in> set (ascii_escape q c) \<Longrightarrow> q < 128 \<Longrightarrow> x < 128"
  by (auto simp: ascii_escape_def simp del: hex_pad_numeral split: if_splits dest: hex_pad_ascii)

text \<open>\<^verbatim>\<open>ascii(s)\<close> is pure ASCII and, read as a literal, gives back \<open>s\<close>.\<close>

lemma py_ascii_ascii: "x \<in> set (py_ascii s) \<Longrightarrow> x < 128"
  by (auto simp: py_ascii_def repr_quote_def Let_def dest: ascii_escape_ascii)

lemma py_ascii_literal:
  "list_all (\<lambda>c. c < 1114112) s \<Longrightarrow> py_literal_value (py_ascii s) = Some s"
  by (simp add: py_ascii_def py_literal_value_def repr_quote_def Let_def lit_body_escaped)

end
