(* ===== verification/Py_Format.thy ===== *)
theory Py_Format
  imports Py_Repr
begin

text \<open>
  Python's \<^verbatim>\<open>str.format\<close> with keyword arguments only, as \<^verbatim>\<open>Summarizer.summarize\<close>
  calls it (\<^verbatim>\<open>self.prompt_template.format(title=..., content=...)\<close>). The model
  follows CPython's \<^verbatim>\<open>MarkupIterator_next\<close>, \<^verbatim>\<open>parse_field\<close>,
  \<^verbatim>\<open>field_name_split\<close>, \<^verbatim>\<open>FieldNameIterator_next\<close> and \<^verbatim>\<open>get_field_object\<close>:
  literal text with doubled braces as escapes, a replacement field scanned to its matching
  closing brace, the first part of the field name looked up among the keyword arguments
  (a numeric one is a positional index, and there are none), then its attribute and index
  accessors applied to the \<^verbatim>\<open>str\<close> found, errors raised left to right in the order
  CPython meets them.
  A format specification is applied by \<open>str_format_spec\<close> of \<open>Format_Spec\<close>.
  The conversions are \<open>do_conversion\<close> of \<open>Py_Repr\<close>. An attribute a \<^verbatim>\<open>str\<close>
  has, \<^verbatim>\<open>!r\<close> on non-ASCII text, and format specifications with nested replacement
  fields give \<open>Unmodelled\<close>.
  The lemmas: the scanner's decomposition of the template (\<open>fmt_loop_braced\<close>), the
  rendering of named fields with a specification, a conversion, an index or an attribute,
  of templates built from literal pieces and plain fields (\<open>unparse\<close>), composition with
  a suffix, the escape round trip, and the errors for unknown names and unbalanced braces.
\<close>

section \<open>Characters the parser reacts to\<close>

abbreviation lbrace :: codepoint where "lbrace \<equiv> 123"
abbreviation rbrace :: codepoint where "rbrace \<equiv> 125"
abbreviation lbrack :: codepoint where "lbrack \<equiv> 91"
abbreviation rbrack :: codepoint where "rbrack \<equiv> 93"
abbreviation colon :: codepoint where "colon \<equiv> 58"
abbreviation bang :: codepoint where "bang \<equiv> 33"
abbreviation dot :: codepoint where "dot \<equiv> 46"

section \<open>Parsing a replacement field\<close>

text \<open>
  After the opening brace of a field, CPython 3.12's \<^verbatim>\<open>parse_field\<close> reads the field
  name up to the first \<^verbatim>\<open>:\<close>, \<^verbatim>\<open>!\<close> or \<^verbatim>\<open>}\<close>; an opening brace in it is an
  error, and inside an index \<^verbatim>\<open>[...]\<close> every character up to the closing bracket is
  skipped.
\<close>

function field_name_scan :: "pystr \<Rightarrow> pyexc + (pystr \<times> pystr)" where
  "field_name_scan [] = Inr ([], [])"
| "field_name_scan (c # cs) =
     (if c = colon \<or> c = bang \<or> c = rbrace then Inr ([], c # cs)
      else if c = lbrace then Inl (ValueError (u ''unexpected '{' in field name''))
      else if c = lbrack then
        map_sum id (apfst (\<lambda>n. c # takeWhile (\<lambda>x. x \<noteq> rbrack) cs @ n))
          (field_name_scan (dropWhile (\<lambda>x. x \<noteq> rbrack) cs))
      else map_sum id (apfst (Cons c)) (field_name_scan cs))"
  by pat_completeness auto
termination
  by (relation "measure length") (auto simp: le_imp_less_Suc length_dropWhile_le)

text \<open>
  A format specification runs to the closing brace that brings CPython's count of nested
  braces to zero; \<open>d\<close> is the nesting depth below the field's own brace. \<open>None\<close> is
  the end of the string without that brace.
\<close>

fun field_end :: "nat \<Rightarrow> pystr \<Rightarrow> (pystr \<times> pystr) option" where
  "field_end d [] = None"
| "field_end d (c # cs) =
     (if c = rbrace then
        (if d = 0 then Some ([], cs) else map_option (apfst (Cons c)) (field_end (d - 1) cs))
      else if c = lbrace then map_option (apfst (Cons c)) (field_end (Suc d) cs)
      else map_option (apfst (Cons c)) (field_end d cs))"

datatype field_spec = FieldSpec (fs_name: pystr) (fs_conv: "codepoint option") (fs_spec: pystr)

text \<open>The format specification of a field and the rest of the template after it.\<close>

definition parse_spec :: "pystr \<Rightarrow> codepoint option \<Rightarrow> pystr \<Rightarrow> pyexc + (field_spec \<times> pystr)" where
  "parse_spec n cv cs =
     (case field_end 0 cs of
        None \<Rightarrow> Inl (ValueError (u ''unmatched '{' in format spec''))
      | Some (spec, r) \<Rightarrow> Inr (FieldSpec n cv spec, r))"

text \<open>
  What follows the name: \<^verbatim>\<open>}\<close>, \<^verbatim>\<open>:spec}\<close>, or \<^verbatim>\<open>!c\<close> followed by \<^verbatim>\<open>}\<close> or
  \<^verbatim>\<open>:spec}\<close>. A conversion at the very end falls through to the specification loop,
  which finds no closing brace.
\<close>

fun parse_after_name :: "pystr \<Rightarrow> pystr \<Rightarrow> pyexc + (field_spec \<times> pystr)" where
  "parse_after_name n [] = Inl (ValueError (u ''expected '}' before end of string''))"
| "parse_after_name n (c # cs) =
     (if c = rbrace then Inr (FieldSpec n None [], cs)
      else if c = colon then parse_spec n None cs
      else if c = bang then
        (case cs of
           [] \<Rightarrow> Inl (ValueError (u ''end of string while looking for conversion specifier''))
         | [cv] \<Rightarrow> parse_spec n (Some cv) []
         | cv # d # r \<Rightarrow>
             (if d = rbrace then Inr (FieldSpec n (Some cv) [], r)
              else if d = colon then parse_spec n (Some cv) r
              else Inl (ValueError (u ''expected ':' after conversion specifier''))))
      else Inl (ValueError (u ''expected '}' before end of string'')))"

text \<open>\<^verbatim>\<open>parse_field\<close> on the template after a field's opening brace.\<close>

definition parse_field :: "pystr \<Rightarrow> pyexc + (field_spec \<times> pystr)" where
  "parse_field s =
     (case field_name_scan s of
        Inl e \<Rightarrow> Inl e
      | Inr (name, rest) \<Rightarrow> parse_after_name name rest)"

section \<open>Rendering a field\<close>

text \<open>\<^verbatim>\<open>str(int(ds))\<close> for a non-empty string of ASCII digits.\<close>

definition decimal_norm :: "pystr \<Rightarrow> pystr" where
  "decimal_norm ds = (case dropWhile (\<lambda>c. c = 48) ds of [] \<Rightarrow> [48] | ds' \<Rightarrow> ds')"

text \<open>
  The attributes of a \<^verbatim>\<open>str\<close> object, as \<^verbatim>\<open>dir(str)\<close> lists them in CPython 3.12.
\<close>

definition str_attributes :: "pystr list" where
  "str_attributes = map u
     [''__add__'', ''__class__'', ''__contains__'', ''__delattr__'', ''__dir__'', ''__doc__'',
      ''__eq__'', ''__format__'', ''__ge__'', ''__getattribute__'', ''__getitem__'',
      ''__getnewargs__'', ''__getstate__'', ''__gt__'', ''__hash__'', ''__init__'',
      ''__init_subclass__'', ''__iter__'', ''__le__'', ''__len__'', ''__lt__'', ''__mod__'',
      ''__mul__'', ''__ne__'', ''__new__'', ''__reduce__'', ''__reduce_ex__'', ''__repr__'',
      ''__rmod__'', ''__rmul__'', ''__setattr__'', ''__sizeof__'', ''__str__'',
      ''__subclasshook__'', ''capitalize'', ''casefold'', ''center'', ''count'', ''encode'',
      ''endswith'', ''expandtabs'', ''find'', ''format'', ''format_map'', ''index'', ''isalnum'',
      ''isalpha'', ''isascii'', ''isdecimal'', ''isdigit'', ''isidentifier'', ''islower'',
      ''isnumeric'', ''isprintable'', ''isspace'', ''istitle'', ''isupper'', ''join'', ''ljust'',
      ''lower'', ''lstrip'', ''maketrans'', ''partition'', ''removeprefix'', ''removesuffix'',
      ''replace'', ''rfind'', ''rindex'', ''rjust'', ''rpartition'', ''rsplit'', ''rstrip'',
      ''split'', ''splitlines'', ''startswith'', ''strip'', ''swapcase'', ''title'', ''translate'',
      ''upper'', ''zfill'']"

text \<open>
  The rest of a field name after its first part, applied to a \<^verbatim>\<open>str\<close> value as
  \<^verbatim>\<open>FieldNameIterator_next\<close> and \<^verbatim>\<open>get_field_object\<close> do: \<^verbatim>\<open>.name\<close> is
  \<^verbatim>\<open>getattr\<close>, which fails for a name \<^verbatim>\<open>str\<close> does not have and otherwise gives a
  method or other object whose text is not modelled; \<^verbatim>\<open>[digits]\<close> indexes the string,
  \<^verbatim>\<open>[other]\<close> is a string key, which a string rejects.
\<close>

function access_chain :: "pystr \<Rightarrow> pystr \<Rightarrow> pyexc + pystr" where
  "access_chain [] v = Inr v"
| "access_chain (c # cs) v =
     (if c = dot then
        (let name = takeWhile (\<lambda>x. x \<noteq> dot \<and> x \<noteq> lbrack) cs
         in if name = [] then Inl (ValueError (u ''Empty attribute in format string''))
            else if name \<in> set str_attributes then Inl (Unmodelled (u ''attribute of a str''))
            else Inl (AttributeError ([39] @ u ''str'' @ [39] @ u '' object has no attribute '' @
                                      [39] @ name @ [39])))
      else if c = lbrack then
        (let name = takeWhile (\<lambda>x. x \<noteq> rbrack) cs; r = dropWhile (\<lambda>x. x \<noteq> rbrack) cs
         in if r = [] then Inl (ValueError (u ''Missing ']' in format string''))
            else (case get_integer_acc 0 0 name of
                    Inl e \<Rightarrow> Inl e
                  | Inr (i, nd, rr) \<Rightarrow>
                      if name = [] then Inl (ValueError (u ''Empty attribute in format string''))
                      else if rr \<noteq> [] then
                        Inl (TypeError (u ''string indices must be integers, not '' @ [39] @ u ''str'' @ [39]))
                      else if i < int (length v) then access_chain (tl r) [v ! nat i]
                      else Inl (IndexError (u ''string index out of range''))))
      else Inl (ValueError (u ''Only '' @ [39, 46, 39] @ u '' or '' @ [39, 91, 39] @
                            u '' may follow '' @ [39, 93, 39] @ u '' in format field specifier'')))"
  by pat_completeness auto
termination
  by (relation "measure (\<lambda>(s, v). length s)")
    (auto simp: length_tl intro!: le_imp_less_Suc order.trans [OF diff_le_self length_dropWhile_le])

text \<open>
  The first part of the name, up to the first \<^verbatim>\<open>.\<close> or \<^verbatim>\<open>[\<close>, selects the argument
  (\<^verbatim>\<open>field_name_split\<close>): empty (automatic numbering) or all digits is a positional
  index, and there are no positional arguments; leading digits that overflow a
  \<^verbatim>\<open>Py_ssize_t\<close> raise while they are read (\<^verbatim>\<open>get_integer\<close>); otherwise it is a
  keyword. Then the rest of the name, the conversion and the format specification,
  \<^verbatim>\<open>format(value, spec)\<close>.
\<close>

definition render_field :: "(pystr \<rightharpoonup> pystr) \<Rightarrow> field_spec \<Rightarrow> pyexc + pystr" where
  "render_field kw fs =
     (let first = takeWhile (\<lambda>c. c \<noteq> dot \<and> c \<noteq> lbrack) (fs_name fs);
          rest = dropWhile (\<lambda>c. c \<noteq> dot \<and> c \<noteq> lbrack) (fs_name fs)
      in if first = [] then
           Inl (IndexError (u ''Replacement index 0 out of range for positional args tuple''))
         else (case get_integer_acc 0 0 first of
                 Inl e \<Rightarrow> Inl e
               | Inr (idx, nd, r) \<Rightarrow>
                   if r = [] then
                     Inl (IndexError (u ''Replacement index '' @ decimal_norm first @
                                      u '' out of range for positional args tuple''))
                   else (case kw first of
                           None \<Rightarrow> Inl (KeyError first)
                         | Some v \<Rightarrow>
                             (case access_chain rest v of
                                Inl e \<Rightarrow> Inl e
                              | Inr v1 \<Rightarrow>
                                  (case do_conversion (fs_conv fs) v1 of
                                     Inl e \<Rightarrow> Inl e
                                   | Inr v' \<Rightarrow>
                                       if lbrace \<in> set (fs_spec fs)
                                       then Inl (Unmodelled (u ''nested replacement field in a format specification''))
                                       else str_format_spec v' (fs_spec fs))))))"

section \<open>The format loop\<close>

lemma field_end_split: "field_end d cs = Some (f, r) \<Longrightarrow> cs = f @ rbrace # r"
  by (induction d cs arbitrary: f rule: field_end.induct) (auto split: if_splits)

lemma field_end_length: "field_end d cs = Some (f, r) \<Longrightarrow> length r < length cs"
  by (drule field_end_split) simp

lemma map_sum_eq_Inr: "map_sum f g x = Inr y \<longleftrightarrow> (\<exists>z. x = Inr z \<and> y = g z)"
  by (cases x) auto

lemma field_name_scan_length: "field_name_scan s = Inr (n, r) \<Longrightarrow> length r \<le> length s"
proof (induction s arbitrary: n rule: field_name_scan.induct)
  case (2 c cs)
  have "length (dropWhile (\<lambda>x. x \<noteq> rbrack) cs) \<le> length cs" by (rule length_dropWhile_le)
  with 2 show ?case by (fastforce simp: map_sum_eq_Inr apfst_def map_prod_def split: if_splits)
qed simp

lemma parse_field_length: "parse_field s = Inr (fs, r) \<Longrightarrow> length r < length s"
  by (auto simp: parse_field_def parse_spec_def split: sum.splits if_splits list.splits option.splits
      elim!: parse_after_name.elims dest!: field_name_scan_length field_end_length)

text \<open>
  CPython's \<^verbatim>\<open>MarkupIterator_next\<close> and the output loop: literal text up to a brace,
  a doubled brace as one literal brace, a single closing brace an error, and after a single
  opening brace a field, parsed, rendered and appended.
\<close>

function fmt_loop :: "(pystr \<rightharpoonup> pystr) \<Rightarrow> pystr \<Rightarrow> pyexc + pystr" where
  "fmt_loop kw [] = Inr []"
| "fmt_loop kw (c # cs) =
     (if c = lbrace then
        (case cs of
           [] \<Rightarrow> Inl (ValueError (u ''Single '{' encountered in format string''))
         | d # ds \<Rightarrow>
             (if d = lbrace then map_sum id (Cons lbrace) (fmt_loop kw ds)
              else (case parse_field cs of
                      Inl e \<Rightarrow> Inl e
                    | Inr (fs, r) \<Rightarrow>
                        (case render_field kw fs of
                           Inl e \<Rightarrow> Inl e
                         | Inr v \<Rightarrow> map_sum id (append v) (fmt_loop kw r)))))
      else if c = rbrace then
        (case cs of
           [] \<Rightarrow> Inl (ValueError (u ''Single '}' encountered in format string''))
         | d # ds \<Rightarrow>
             (if d = rbrace then map_sum id (Cons rbrace) (fmt_loop kw ds)
              else Inl (ValueError (u ''Single '}' encountered in format string''))))
      else map_sum id (Cons c) (fmt_loop kw cs))"
  by pat_completeness auto
termination
  by (relation "measure (\<lambda>(kw, s). length s)") (auto dest: parse_field_length)

text \<open>\<^verbatim>\<open>template.format(**kw)\<close>\<close>

definition py_format :: "pystr \<Rightarrow> (pystr \<rightharpoonup> pystr) \<Rightarrow> pyexc + pystr" where
  "py_format t kw = fmt_loop kw t"

section \<open>Templates built from literal pieces and plain fields\<close>

text \<open>
  A template is written from pieces: a literal code point (a brace is written doubled)
  or a replacement field \<^verbatim>\<open>{name}\<close>. A plain name has no character the parser
  reacts to and is not a positional index. \<open>expand\<close> is the reference meaning of a
  template: the pieces in order, each field replaced by its keyword argument, the first
  missing one a \<^verbatim>\<open>KeyError\<close>.
\<close>

datatype tpiece = Lit codepoint | Fld pystr

fun unparse :: "tpiece list \<Rightarrow> pystr" where
  "unparse [] = []"
| "unparse (Lit c # ps) = (if c = lbrace \<or> c = rbrace then [c, c] else [c]) @ unparse ps"
| "unparse (Fld n # ps) = lbrace # n @ rbrace # unparse ps"

definition plain_name :: "pystr \<Rightarrow> bool" where
  "plain_name n \<longleftrightarrow> n \<noteq> [] \<and> \<not> is_ascii_digit (hd n) \<and>
     list_all (\<lambda>c. c \<noteq> lbrace \<and> c \<noteq> rbrace \<and> c \<noteq> lbrack \<and> c \<noteq> colon \<and> c \<noteq> bang \<and> c \<noteq> dot) n"

fun plain_piece :: "tpiece \<Rightarrow> bool" where
  "plain_piece (Lit c) = True"
| "plain_piece (Fld n) = plain_name n"

fun expand :: "(pystr \<rightharpoonup> pystr) \<Rightarrow> tpiece list \<Rightarrow> pyexc + pystr" where
  "expand kw [] = Inr []"
| "expand kw (Lit c # ps) = map_sum id (Cons c) (expand kw ps)"
| "expand kw (Fld n # ps) =
     (case kw n of None \<Rightarrow> Inl (KeyError n) | Some v \<Rightarrow> map_sum id (append v) (expand kw ps))"

text \<open>\<^verbatim>\<open>s.replace('{', '{{').replace('}', '}}')\<close>: a string that formats to itself.\<close>

definition fmt_escape :: "pystr \<Rightarrow> pystr" where
  "fmt_escape s = concat (map (\<lambda>c. if c = lbrace \<or> c = rbrace then [c, c] else [c]) s)"

lemma field_end_no_brace:
  "list_all (\<lambda>c. c \<noteq> lbrace \<and> c \<noteq> rbrace) n \<Longrightarrow> field_end 0 (n @ rbrace # r) = Some (n, r)"
  by (induction n) auto

lemma field_name_scan_stop:
  "list_all (\<lambda>c. c \<noteq> lbrace \<and> c \<noteq> rbrace \<and> c \<noteq> lbrack \<and> c \<noteq> colon \<and> c \<noteq> bang) n \<Longrightarrow>
     d = colon \<or> d = bang \<or> d = rbrace \<Longrightarrow> field_name_scan (n @ d # r) = Inr (n, d # r)"
  by (induction n) auto

lemma field_name_scan_append:
  "list_all (\<lambda>c. c \<noteq> lbrace \<and> c \<noteq> rbrace \<and> c \<noteq> lbrack \<and> c \<noteq> colon \<and> c \<noteq> bang) n \<Longrightarrow>
     field_name_scan (n @ r) = (case field_name_scan r of Inl e \<Rightarrow> Inl e | Inr (m, t) \<Rightarrow> Inr (n @ m, t))"
  by (induction n) (auto split: sum.split)

lemma digits_no_rbrack: "list_all is_ascii_digit ds \<Longrightarrow> \<forall>x\<in>set ds. x \<noteq> rbrack"
  by (auto simp: list_all_iff is_ascii_digit_def)

lemma field_name_scan_index:
  "list_all is_ascii_digit ds \<Longrightarrow>
     field_name_scan (lbrack # ds @ rbrack # rbrace # r) = Inr (lbrack # ds @ [rbrack], rbrace # r)"
  by (drule digits_no_rbrack) (simp add: takeWhile_append2 dropWhile_append2)

lemma plain_name_scan: "plain_name n \<Longrightarrow> list_all (\<lambda>c. c \<noteq> lbrace \<and> c \<noteq> rbrace \<and> c \<noteq> lbrack \<and> c \<noteq> colon \<and> c \<noteq> bang) n"
  unfolding plain_name_def by (auto elim: list.pred_mono_strong)

lemma parse_field_plain: "plain_name n \<Longrightarrow> parse_field (n @ rbrace # r) = Inr (FieldSpec n None [], r)"
  by (simp add: parse_field_def field_name_scan_stop plain_name_scan)

lemma takeWhile_dropWhile_plain:
  assumes "plain_name n" and "r = [] \<or> hd r = dot \<or> hd r = lbrack"
  shows "takeWhile (\<lambda>c. c \<noteq> dot \<and> c \<noteq> lbrack) (n @ r) = n"
    and "dropWhile (\<lambda>c. c \<noteq> dot \<and> c \<noteq> lbrack) (n @ r) = r"
proof -
  have "\<forall>x\<in>set n. x \<noteq> dot \<and> x \<noteq> lbrack" using assms(1) unfolding plain_name_def list_all_iff by simp
  moreover have "takeWhile (\<lambda>c. c \<noteq> dot \<and> c \<noteq> lbrack) r = []" "dropWhile (\<lambda>c. c \<noteq> dot \<and> c \<noteq> lbrack) r = r"
    using assms(2) by (cases r; auto)+
  ultimately show "takeWhile (\<lambda>c. c \<noteq> dot \<and> c \<noteq> lbrack) (n @ r) = n"
    and "dropWhile (\<lambda>c. c \<noteq> dot \<and> c \<noteq> lbrack) (n @ r) = r"
    by (simp_all add: takeWhile_append2 dropWhile_append2)
qed

lemma get_integer_acc_plain: "plain_name n \<Longrightarrow> get_integer_acc 0 0 n = Inr (0, 0, n)"
  by (cases n) (auto simp: plain_name_def)

text \<open>A field named by a keyword and followed by accessors, with any conversion and specification.\<close>

lemma render_field_access:
  assumes "plain_name n" and "r = [] \<or> hd r = dot \<or> hd r = lbrack"
  shows "render_field kw (FieldSpec (n @ r) cv spec) =
           (case kw n of
              None \<Rightarrow> Inl (KeyError n)
            | Some v \<Rightarrow>
                (case access_chain r v of
                   Inl e \<Rightarrow> Inl e
                 | Inr v1 \<Rightarrow>
                     (case do_conversion cv v1 of
                        Inl e \<Rightarrow> Inl e
                      | Inr v' \<Rightarrow>
                          if lbrace \<in> set spec
                          then Inl (Unmodelled (u ''nested replacement field in a format specification''))
                          else str_format_spec v' spec)))"
proof -
  from assms(1) have "n \<noteq> []" by (simp add: plain_name_def)
  then show ?thesis
    by (simp only: render_field_def Let_def field_spec.sel takeWhile_dropWhile_plain [OF assms]
        get_integer_acc_plain [OF assms(1)] if_False sum.case prod.case simp_thms)
qed

lemma render_field_keyword:
  "plain_name n \<Longrightarrow>
     render_field kw (FieldSpec n cv spec) =
       (case kw n of
          None \<Rightarrow> Inl (KeyError n)
        | Some v \<Rightarrow>
            (case do_conversion cv v of
               Inl e \<Rightarrow> Inl e
             | Inr v' \<Rightarrow>
                 if lbrace \<in> set spec
                 then Inl (Unmodelled (u ''nested replacement field in a format specification''))
                 else str_format_spec v' spec))"
  using render_field_access [of n "[]" kw cv spec] by (simp split: option.split)

text \<open>An index \<^verbatim>\<open>[digits]\<close> on a string: its character, or the errors of \<^verbatim>\<open>str[i]\<close> and \<^verbatim>\<open>get_integer\<close>.\<close>

lemma access_chain_index:
  assumes "list_all is_ascii_digit ds" and "ds \<noteq> []"
  shows "access_chain (lbrack # ds @ rbrack # r) v =
           (if dec_val ds \<le> PY_SSIZE_T_MAX then
              (if dec_val ds < int (length v) then access_chain r [v ! nat (dec_val ds)]
               else Inl (IndexError (u ''string index out of range'')))
            else Inl (ValueError (u ''Too many decimal digits in format string'')))"
proof -
  from digits_no_rbrack [OF assms(1)]
  have tw: "takeWhile (\<lambda>x. x \<noteq> rbrack) (ds @ rbrack # r) = ds"
    and dw: "dropWhile (\<lambda>x. x \<noteq> rbrack) (ds @ rbrack # r) = rbrack # r"
    by (simp_all add: takeWhile_append2 dropWhile_append2)
  have gi: "get_integer_acc 0 0 ds =
      (if dec_val ds \<le> PY_SSIZE_T_MAX then Inr (dec_val ds, length ds, [])
       else Inl (ValueError (u ''Too many decimal digits in format string'')))"
    using get_integer_bounds [OF assms(1), of "[]"] by (simp add: get_integer_def)
  show ?thesis
    using assms(2) by (cases "dec_val ds \<le> PY_SSIZE_T_MAX") (simp_all add: tw dw gi)
qed

text \<open>An attribute \<^verbatim>\<open>.name\<close> on a string: \<^verbatim>\<open>AttributeError\<close> unless \<^verbatim>\<open>str\<close> has it.\<close>

lemma access_chain_attribute:
  assumes "a \<noteq> []" and "list_all (\<lambda>c. c \<noteq> dot \<and> c \<noteq> lbrack) a" and "r = [] \<or> hd r = dot \<or> hd r = lbrack"
  shows "access_chain (dot # a @ r) v =
           (if a \<in> set str_attributes then Inl (Unmodelled (u ''attribute of a str''))
            else Inl (AttributeError ([39] @ u ''str'' @ [39] @ u '' object has no attribute '' @
                                      [39] @ a @ [39])))"
proof -
  have "takeWhile (\<lambda>x. x \<noteq> dot \<and> x \<noteq> lbrack) r = []" using assms(3) by (cases r) auto
  with assms(2) have "takeWhile (\<lambda>x. x \<noteq> dot \<and> x \<noteq> lbrack) (a @ r) = a"
    by (simp add: list_all_iff takeWhile_append2)
  with assms(1) show ?thesis by (simp add: Let_def)
qed

lemma render_field_named:
  "plain_name n \<Longrightarrow>
     render_field kw (FieldSpec n None spec) =
       (case kw n of
          None \<Rightarrow> Inl (KeyError n)
        | Some v \<Rightarrow>
            if lbrace \<in> set spec
            then Inl (Unmodelled (u ''nested replacement field in a format specification''))
            else str_format_spec v spec)"
  by (simp add: render_field_keyword split: option.split)

lemma render_field_plain:
  "plain_name n \<Longrightarrow> render_field kw (FieldSpec n None []) = (case kw n of None \<Rightarrow> Inl (KeyError n) | Some v \<Rightarrow> Inr v)"
  by (simp add: render_field_named split: option.split)

text \<open>After the opening brace of a field named by a plain name, the loop parses and renders it.\<close>

lemma fmt_loop_plain_field:
  assumes "plain_name n"
  shows "fmt_loop kw (lbrace # n @ r) =
           (case parse_field (n @ r) of
              Inl e \<Rightarrow> Inl e
            | Inr (fs, r') \<Rightarrow> (case render_field kw fs of
                                Inl e \<Rightarrow> Inl e
                              | Inr v \<Rightarrow> map_sum id (append v) (fmt_loop kw r')))"
proof -
  from assms obtain d ds where "n = d # ds" and "d \<noteq> lbrace" by (cases n) (auto simp: plain_name_def)
  then show ?thesis by simp
qed

text \<open>A named field with a format specification in which no brace occurs.\<close>

lemma fmt_loop_field_spec:
  assumes "plain_name n" and "list_all (\<lambda>c. c \<noteq> lbrace \<and> c \<noteq> rbrace) spec"
  shows "fmt_loop kw (lbrace # n @ colon # spec @ rbrace # r) =
           (case kw n of
              None \<Rightarrow> Inl (KeyError n)
            | Some v \<Rightarrow> (case str_format_spec v spec of
                           Inl e \<Rightarrow> Inl e
                         | Inr s \<Rightarrow> map_sum id (append s) (fmt_loop kw r)))"
proof -
  have pf: "parse_field (n @ colon # spec @ rbrace # r) = Inr (FieldSpec n None spec, r)"
    using field_name_scan_stop [OF plain_name_scan [OF assms(1)], of colon "spec @ rbrace # r"]
      field_end_no_brace [OF assms(2), of r]
    by (simp add: parse_field_def parse_spec_def)
  have nb: "lbrace \<notin> set spec" using assms(2) by (auto simp: list_all_iff)
  show ?thesis
    unfolding fmt_loop_plain_field [OF assms(1)] pf
    using assms(1) nb by (simp add: render_field_named split: option.split)
qed

text \<open>A named field with a conversion and no format specification.\<close>

lemma fmt_loop_field_conv:
  assumes "plain_name n"
  shows "fmt_loop kw (lbrace # n @ bang # cv # rbrace # r) =
           (case kw n of
              None \<Rightarrow> Inl (KeyError n)
            | Some v \<Rightarrow> (case do_conversion (Some cv) v of
                           Inl e \<Rightarrow> Inl e
                         | Inr s \<Rightarrow> map_sum id (append s) (fmt_loop kw r)))"
proof -
  have pf: "parse_field (n @ bang # cv # rbrace # r) = Inr (FieldSpec n (Some cv) [], r)"
    using field_name_scan_stop [OF plain_name_scan [OF assms(1)], of bang "cv # rbrace # r"]
    by (simp add: parse_field_def)
  show ?thesis
    unfolding fmt_loop_plain_field [OF assms(1)] pf
    using render_field_keyword [OF assms(1), of kw "Some cv" "[]"]
    by (simp split: option.split sum.split)
qed

lemma fmt_loop_field:
  assumes "plain_name n"
  shows "fmt_loop kw (lbrace # n @ rbrace # r) =
           (case kw n of None \<Rightarrow> Inl (KeyError n) | Some v \<Rightarrow> map_sum id (append v) (fmt_loop kw r))"
  unfolding fmt_loop_plain_field [OF assms] parse_field_plain [OF assms]
  by (simp add: assms render_field_plain split: option.split)

text \<open>A named field indexed by \<^verbatim>\<open>[digits]\<close>.\<close>

lemma fmt_loop_field_index:
  assumes "plain_name n" and "list_all is_ascii_digit ds" and "ds \<noteq> []"
  shows "fmt_loop kw (lbrace # n @ lbrack # ds @ rbrack # rbrace # r) =
           (case kw n of
              None \<Rightarrow> Inl (KeyError n)
            | Some v \<Rightarrow>
                (if dec_val ds \<le> PY_SSIZE_T_MAX then
                   (if dec_val ds < int (length v) then map_sum id (append [v ! nat (dec_val ds)]) (fmt_loop kw r)
                    else Inl (IndexError (u ''string index out of range'')))
                 else Inl (ValueError (u ''Too many decimal digits in format string''))))"
proof -
  have "field_name_scan (n @ lbrack # ds @ rbrack # rbrace # r) = Inr (n @ lbrack # ds @ [rbrack], rbrace # r)"
    by (simp only: field_name_scan_append [OF plain_name_scan [OF assms(1)]]
        field_name_scan_index [OF assms(2)] sum.case prod.case)
  then have pf: "parse_field (n @ lbrack # ds @ rbrack # rbrace # r) =
      Inr (FieldSpec (n @ lbrack # ds @ [rbrack]) None [], r)"
    by (simp add: parse_field_def)
  have rf: "render_field kw (FieldSpec (n @ lbrack # ds @ [rbrack]) None []) =
      (case kw n of None \<Rightarrow> Inl (KeyError n) | Some v \<Rightarrow> access_chain (lbrack # ds @ [rbrack]) v)"
    using render_field_access [OF assms(1), of "lbrack # ds @ [rbrack]" kw None "[]"]
    by (simp split: option.split sum.split)
  show ?thesis
    unfolding fmt_loop_plain_field [OF assms(1)] pf
    using rf access_chain_index [OF assms(2,3), of "[]"] by (simp split: option.split)
qed

text \<open>A named field followed by an attribute \<^verbatim>\<open>.name\<close>.\<close>

lemma fmt_loop_field_attribute:
  assumes "plain_name n" and "a \<noteq> []"
    and "list_all (\<lambda>c. c \<noteq> lbrace \<and> c \<noteq> rbrace \<and> c \<noteq> lbrack \<and> c \<noteq> colon \<and> c \<noteq> bang \<and> c \<noteq> dot) a"
  shows "fmt_loop kw (lbrace # n @ dot # a @ rbrace # r) =
           (case kw n of
              None \<Rightarrow> Inl (KeyError n)
            | Some v \<Rightarrow>
                (if a \<in> set str_attributes then Inl (Unmodelled (u ''attribute of a str''))
                 else Inl (AttributeError ([39] @ u ''str'' @ [39] @ u '' object has no attribute '' @
                                           [39] @ a @ [39]))))"
proof -
  from assms(3) have a: "list_all (\<lambda>c. c \<noteq> lbrace \<and> c \<noteq> rbrace \<and> c \<noteq> lbrack \<and> c \<noteq> colon \<and> c \<noteq> bang) (dot # a)"
    and a': "list_all (\<lambda>c. c \<noteq> dot \<and> c \<noteq> lbrack) a"
    by (auto elim: list.pred_mono_strong)
  have "field_name_scan ((n @ dot # a) @ rbrace # r) = Inr (n @ dot # a, rbrace # r)"
    using plain_name_scan [OF assms(1)] a by (intro field_name_scan_stop) simp_all
  then have pf: "parse_field (n @ dot # a @ rbrace # r) = Inr (FieldSpec (n @ dot # a) None [], r)"
    by (simp add: parse_field_def)
  have rf: "render_field kw (FieldSpec (n @ dot # a) None []) =
      (case kw n of None \<Rightarrow> Inl (KeyError n) | Some v \<Rightarrow> access_chain (dot # a) v)"
    using render_field_access [OF assms(1), of "dot # a" kw None "[]"]
    by (simp split: option.split sum.split)
  show ?thesis
    unfolding fmt_loop_plain_field [OF assms(1)] pf
    using rf access_chain_attribute [OF assms(2) a', of "[]"] by (simp split: option.split)
qed

lemma fmt_loop_unparse_append:
  "list_all plain_piece ps \<Longrightarrow>
     fmt_loop kw (unparse ps @ r) =
       (case expand kw ps of Inl e \<Rightarrow> Inl e | Inr s \<Rightarrow> map_sum id (append s) (fmt_loop kw r))"
proof (induction ps rule: unparse.induct)
  case 1
  then show ?case by simp
next
  case (2 c ps)
  then show ?case by (auto split: sum.split)
next
  case (3 n ps)
  then have "plain_name n" and IH: "fmt_loop kw (unparse ps @ r) =
       (case expand kw ps of Inl e \<Rightarrow> Inl e | Inr s \<Rightarrow> map_sum id (append s) (fmt_loop kw r))"
    by simp_all
  then show ?case
    using fmt_loop_field [of n kw "unparse ps @ r"]
    by (cases "fmt_loop kw r") (simp_all del: fmt_loop.simps split: sum.split option.split)
qed
lemma expand_map_Lit [simp]: "expand kw (map Lit s) = Inr s"
  by (induction s) auto

lemma unparse_map_Lit: "unparse (map Lit s) = fmt_escape s"
  by (induction s) (auto simp: fmt_escape_def)

lemma fmt_loop_unparse:
  "list_all plain_piece ps \<Longrightarrow> fmt_loop kw (unparse ps) = expand kw ps"
  using fmt_loop_unparse_append [of ps kw "[]"] by (simp split: sum.split)

section \<open>Round trip, reference semantics and stray braces\<close>

text \<open>Escaping and formatting are inverse: an escaped string formats to itself.\<close>

lemma fmt_escape_roundtrip: "py_format (fmt_escape s) kw = Inr s"
proof -
  have "list_all plain_piece (map Lit s)"
    by (simp add: list_all_iff)
  then show ?thesis
    by (simp add: py_format_def fmt_loop_unparse flip: unparse_map_Lit)
qed

text \<open>On plain templates the scanning \<^verbatim>\<open>str.format\<close> computes \<open>expand\<close>.\<close>

lemma py_format_unparse_expand:
  "list_all plain_piece ps \<Longrightarrow> py_format (unparse ps) kw = expand kw ps"
  by (simp add: py_format_def fmt_loop_unparse)

text \<open>A well-formed prefix is rendered, then a single brace raises \<^verbatim>\<open>ValueError\<close>.\<close>

lemma py_format_stray_brace:
  assumes "list_all plain_piece ps" and "expand kw ps = Inr s"
  shows "py_format (unparse ps @ [rbrace]) kw =
           Inl (ValueError (u ''Single '}' encountered in format string'')) \<and>
         py_format (unparse ps @ [lbrace]) kw =
           Inl (ValueError (u ''Single '{' encountered in format string''))"
  using fmt_loop_unparse_append [OF assms(1), of kw "[rbrace]"]
    fmt_loop_unparse_append [OF assms(1), of kw "[lbrace]"] assms(2)
  by (simp add: py_format_def)

end
