(* ===== verification/Summarizer_Object.thy ===== *)
theory Summarizer_Object
  imports Py_Format
begin

text \<open>
  The data of \<^verbatim>\<open>src/rss_reader/summarizer.py\<close>: the article fields the module reads,
  the provider clients it creates, the fields of a \<^verbatim>\<open>Summarizer\<close> object and its
  constructor \<^verbatim>\<open>__init__\<close> with the default prompt \<^verbatim>\<open>_default_prompt\<close>, the lines it
  prints, and the world the methods run in: the object, the requests sent to the
  providers' SDKs and the printed lines. The SDKs are not modelled; they are an
  environment \<open>sdk\<close> that says, for each request, what the call returns or raises.
\<close>

section \<open>Articles\<close>

text \<open>\<^verbatim>\<open>fetcher.Article\<close>, of which the summariser reads the title and the content.\<close>

record article =
  title :: pystr
  content :: pystr

section \<open>Provider clients\<close>

text \<open>
  \<^verbatim>\<open>anthropic.Anthropic(api_key=...)\<close> and
  \<^verbatim>\<open>openai.OpenAI(api_key=..., base_url=...)\<close>, with the arguments they are built from.
\<close>

datatype client =
    AnthropicClient "pystr option"
  | OpenAIClient "pystr option" pystr

section \<open>The Summarizer object\<close>

record summarizer =
  provider :: pystr
  model :: pystr
  api_key :: "pystr option"
  openai_api_key :: "pystr option"
  openai_api_base :: pystr
  openai_model :: pystr
  prompt_template :: pystr
  client :: "client option"

text \<open>
  \<^verbatim>\<open>_default_prompt\<close>: the Chinese instruction, written as code points, around the two
  placeholders \<^verbatim>\<open>{title}\<close> and \<^verbatim>\<open>{content}\<close>.
\<close>

definition default_prompt_head :: pystr where
  "default_prompt_head = [35831, 29992, 20013, 25991, 20026, 20197, 19979, 25991, 31456, 29983,
     25104, 31616, 27905, 25688, 35201, 65288, 51, 45, 53, 21477, 35805, 65289, 65306, 10,
     26631, 39064, 65306]"

definition default_prompt_mid :: pystr where
  "default_prompt_mid = [10, 20869, 23481, 65306]"

definition default_prompt_tail :: pystr where
  "default_prompt_tail = [10, 10, 35201, 27714, 65306, 31361, 20986, 26680, 24515, 35266, 28857,
     65292, 24110, 21161, 35835, 32773, 24555, 36895, 21028, 26029, 26159, 21542, 20540, 24471,
     38405, 35835, 21407, 25991, 12290]"

definition default_prompt :: pystr where
  "default_prompt = default_prompt_head @ u ''{title}'' @ default_prompt_mid @ u ''{content}'' @
     default_prompt_tail"

text \<open>
  \<^verbatim>\<open>__init__(config)\<close>: every field read with \<^verbatim>\<open>config.get\<close>, with its default where
  the source gives one; the two keys read without a default are \<open>None\<close> when absent.
  The configuration is a dictionary of strings.
\<close>

definition summarizer_init :: "(pystr \<rightharpoonup> pystr) \<Rightarrow> summarizer" where
  "summarizer_init config =
     \<lparr>provider = dict_get config (u ''provider'') (u ''claude''),
      model = dict_get config (u ''model'') (u ''claude-sonnet-4-20250514''),
      api_key = config (u ''api_key''),
      openai_api_key = config (u ''openai_api_key''),
      openai_api_base = dict_get config (u ''openai_api_base'') (u ''https://api.openai.com/v1''),
      openai_model = dict_get config (u ''openai_model'') (u ''gpt-4o-mini''),
      prompt_template = dict_get config (u ''summary_prompt'') default_prompt,
      client = None\<rparr>"

section \<open>Printed lines\<close>

text \<open>
  The three \<^verbatim>\<open>print\<close> calls: the progress line of the batch (index, total, the first 50
  code points of the title), the warning for an unknown provider, and the error line with
  the article's title and the exception.
\<close>

datatype log_line =
    LogProgress int int pystr
  | LogUnknownProvider pystr
  | LogSummaryFailed pystr pyexc

section \<open>Requests and responses of the SDKs\<close>

datatype endpoint = MessagesCreate | ChatCompletionsCreate

text \<open>The keyword arguments of \<^verbatim>\<open>create(model=..., max_tokens=..., messages=[...])\<close>.\<close>

record api_request =
  rq_endpoint :: endpoint
  rq_client :: client
  rq_model :: pystr
  rq_max_tokens :: int
  rq_messages :: "(pystr \<times> pystr) list"

text \<open>
  A block of a Claude message's \<^verbatim>\<open>content\<close> (a text block has \<^verbatim>\<open>.text\<close>, the others,
  such as tool use, do not) and a choice of a chat completion, whose
  \<^verbatim>\<open>message.content\<close> may be \<^verbatim>\<open>None\<close>.
\<close>

datatype content_block = TextBlock pystr | OtherBlock pystr

datatype chat_choice = ChatChoice "pystr option"

text \<open>
  The environment: whether building a client raises (the SDK is not installed, no key),
  and what the \<open>n\<close>-th request sent returns or raises.
\<close>

record sdk =
  sdk_construct :: "client \<Rightarrow> pyexc option"
  sdk_messages :: "nat \<Rightarrow> api_request \<Rightarrow> pyexc + content_block list"
  sdk_chat :: "nat \<Rightarrow> api_request \<Rightarrow> pyexc + chat_choice list"

section \<open>The world\<close>

record world =
  obj :: summarizer
  requests :: "api_request list"
  printed :: "log_line list"

definition print_line :: "log_line \<Rightarrow> (world, unit) pyM" where
  "print_line l = modifyM (\<lambda>w. w\<lparr>printed := printed w @ [l]\<rparr>)"

lemma print_line_simp [simp]: "print_line l w = (Inr (), w\<lparr>printed := printed w @ [l]\<rparr>)"
  by (simp add: print_line_def)

section \<open>A concrete world for the witnesses\<close>

text \<open>
  A freshly constructed summariser with the default configuration, nothing sent and
  nothing printed, and an SDK whose clients build and whose calls answer with the text
  \<open>ok\<close>.
\<close>

definition demo_world :: world where
  "demo_world = \<lparr>obj = summarizer_init Map.empty, requests = [], printed = []\<rparr>"

definition demo_sdk :: sdk where
  "demo_sdk = \<lparr>sdk_construct = (\<lambda>_. None),
               sdk_messages = (\<lambda>_ _. Inr [TextBlock (u ''ok'')]),
               sdk_chat = (\<lambda>_ _. Inr [ChatChoice (Some (u ''ok''))])\<rparr>"


text \<open>An article long enough to be sent to a provider, and the default prompt it renders to.\<close>

definition demo_article :: article where
  "demo_article = \<lparr>title = u ''C'', content = replicate 200 120\<rparr>"

definition demo_prompt :: pystr where
  "demo_prompt = default_prompt_head @ u ''C'' @ default_prompt_mid @ replicate 200 120 @ default_prompt_tail"

section \<open>Lemmas\<close>

lemma summarizer_init_client [simp]: "client (summarizer_init config) = None"
  by (simp add: summarizer_init_def)

lemma summarizer_init_fields [simp]:
  "provider (summarizer_init config) = dict_get config (u ''provider'') (u ''claude'')"
  "prompt_template (summarizer_init config) = dict_get config (u ''summary_prompt'') default_prompt"
  "api_key (summarizer_init config) = config (u ''api_key'')"
  by (simp_all add: summarizer_init_def)

end
