(* ===== verification/Client_Cache.thy ===== *)
theory Client_Cache
  imports Summarizer_Object
begin

text \<open>
  \<^verbatim>\<open>_get_claude_client\<close> and \<^verbatim>\<open>_get_openai_client\<close>: the lazily built, cached
  provider client in \<^verbatim>\<open>self._client\<close>. Building a client may raise (the SDK is not
  installed, no key); then nothing is cached. The lemmas: each getter's result on every
  branch, that it touches no field but the cache and sends and prints nothing, that a
  cached client is returned as it is (memoisation), and that the cache invariant
  \<open>client_inv\<close> (the cached client is the one the configured provider builds from the
  configured credentials) is kept by the getter of the configured provider.
\<close>

section \<open>The getters\<close>

definition get_claude_client :: "sdk \<Rightarrow> (world, client) pyM" where
  "get_claude_client env w =
     (case client (obj w) of
        None \<Rightarrow>
          (let c = AnthropicClient (api_key (obj w))
           in case sdk_construct env c of
                Some e \<Rightarrow> (Inl e, w)
              | None \<Rightarrow> (Inr c, w\<lparr>obj := (obj w)\<lparr>client := Some c\<rparr>\<rparr>))
      | Some c \<Rightarrow> (Inr c, w))"

definition get_openai_client :: "sdk \<Rightarrow> (world, client) pyM" where
  "get_openai_client env w =
     (case client (obj w) of
        None \<Rightarrow>
          (let c = OpenAIClient (openai_api_key (obj w)) (openai_api_base (obj w))
           in case sdk_construct env c of
                Some e \<Rightarrow> (Inl e, w)
              | None \<Rightarrow> (Inr c, w\<lparr>obj := (obj w)\<lparr>client := Some c\<rparr>\<rparr>))
      | Some c \<Rightarrow> (Inr c, w))"

section \<open>The cache invariant\<close>

text \<open>The client the configured provider's getter builds; none for an unknown provider.\<close>

definition provider_client :: "summarizer \<Rightarrow> client option" where
  "provider_client s =
     (if provider s = u ''claude'' then Some (AnthropicClient (api_key s))
      else if provider s = u ''openai'' then Some (OpenAIClient (openai_api_key s) (openai_api_base s))
      else None)"

definition client_inv :: "summarizer \<Rightarrow> bool" where
  "client_inv s \<longleftrightarrow> client s = None \<or> client s = provider_client s"

text \<open>The object without its cache: the configuration, which no method writes.\<close>

definition config_of :: "summarizer \<Rightarrow> summarizer" where
  "config_of s = s\<lparr>client := None\<rparr>"

text \<open>What a step may change: the cache, only from empty; the requests and lines, only by appending.\<close>

definition world_step :: "world \<Rightarrow> world \<Rightarrow> bool" where
  "world_step w w' \<longleftrightarrow>
     config_of (obj w') = config_of (obj w) \<and>
     (client (obj w) \<noteq> None \<longrightarrow> client (obj w') = client (obj w)) \<and>
     (\<exists>rs. requests w' = requests w @ rs) \<and> (\<exists>ls. printed w' = printed w @ ls)"

lemma world_step_refl [simp]: "world_step w w"
  by (auto simp: world_step_def)

lemma world_step_trans:
  assumes "world_step w1 w2" and "world_step w2 w3"
  shows "world_step w1 w3"
proof -
  from assms obtain rs1 rs2 ls1 ls2 where
    "requests w2 = requests w1 @ rs1" "requests w3 = requests w2 @ rs2"
    "printed w2 = printed w1 @ ls1" "printed w3 = printed w2 @ ls2"
    unfolding world_step_def by blast
  with assms show ?thesis unfolding world_step_def by auto
qed

lemma world_step_print [simp]: "world_step w (w\<lparr>printed := printed w @ ls\<rparr>)"
  by (auto simp: world_step_def)

lemma world_step_request [simp]: "world_step w (w\<lparr>requests := requests w @ rs\<rparr>)"
  by (auto simp: world_step_def)

lemma config_of_client_update [simp]: "config_of (s\<lparr>client := c\<rparr>) = config_of s"
  by (simp add: config_of_def)

lemma config_of_eq_fields:
  assumes "config_of s' = config_of s"
  shows "provider s' = provider s \<and> model s' = model s \<and> api_key s' = api_key s \<and>
    openai_api_key s' = openai_api_key s \<and> openai_api_base s' = openai_api_base s \<and>
    openai_model s' = openai_model s \<and> prompt_template s' = prompt_template s"
  using assms unfolding config_of_def by (cases s, cases s') simp

lemma config_of_eq_provider_client:
  "config_of s' = config_of s \<Longrightarrow> provider_client s' = provider_client s"
  using config_of_eq_fields [of s' s] by (simp add: provider_client_def)

section \<open>The getters, branch by branch\<close>

lemma get_claude_client_cached [simp]:
  "client (obj w) = Some c \<Longrightarrow> get_claude_client env w = (Inr c, w)"
  and get_openai_client_cached [simp]:
  "client (obj w) = Some c \<Longrightarrow> get_openai_client env w = (Inr c, w)"
  by (simp_all add: get_claude_client_def get_openai_client_def)

lemma get_claude_client_new:
  "client (obj w) = None \<Longrightarrow> sdk_construct env (AnthropicClient (api_key (obj w))) = None \<Longrightarrow>
     get_claude_client env w =
       (Inr (AnthropicClient (api_key (obj w))),
        w\<lparr>obj := (obj w)\<lparr>client := Some (AnthropicClient (api_key (obj w)))\<rparr>\<rparr>)"
  by (simp add: get_claude_client_def Let_def)

lemma get_claude_client_raises:
  "client (obj w) = None \<Longrightarrow> sdk_construct env (AnthropicClient (api_key (obj w))) = Some e \<Longrightarrow>
     get_claude_client env w = (Inl e, w)"
  by (simp add: get_claude_client_def)

lemma get_openai_client_new:
  "client (obj w) = None \<Longrightarrow>
   sdk_construct env (OpenAIClient (openai_api_key (obj w)) (openai_api_base (obj w))) = None \<Longrightarrow>
     get_openai_client env w =
       (Inr (OpenAIClient (openai_api_key (obj w)) (openai_api_base (obj w))),
        w\<lparr>obj := (obj w)\<lparr>client := Some (OpenAIClient (openai_api_key (obj w)) (openai_api_base (obj w)))\<rparr>\<rparr>)"
  by (simp add: get_openai_client_def Let_def)

lemma get_openai_client_raises:
  "client (obj w) = None \<Longrightarrow>
   sdk_construct env (OpenAIClient (openai_api_key (obj w)) (openai_api_base (obj w))) = Some e \<Longrightarrow>
     get_openai_client env w = (Inl e, w)"
  by (simp add: get_openai_client_def)

lemma get_claude_client_step: "get_claude_client env w = (r, w') \<Longrightarrow> world_step w w'"
  and get_openai_client_step: "get_openai_client env w = (r, w') \<Longrightarrow> world_step w w'"
  by (auto simp: get_claude_client_def get_openai_client_def world_step_def Let_def
           split: option.splits)

text \<open>The getter returns the client it leaves in the cache.\<close>

lemma get_claude_client_caches:
  "get_claude_client env w = (Inr c, w') \<Longrightarrow> client (obj w') = Some c"
  and get_openai_client_caches:
  "get_openai_client env w = (Inr c, w') \<Longrightarrow> client (obj w') = Some c"
  by (auto simp: get_claude_client_def get_openai_client_def Let_def split: option.splits)

lemma get_claude_client_inv:
  "provider (obj w) = u ''claude'' \<Longrightarrow> client_inv (obj w) \<Longrightarrow>
     get_claude_client env w = (r, w') \<Longrightarrow> client_inv (obj w')"
  and get_openai_client_inv:
  "provider (obj w) = u ''openai'' \<Longrightarrow> client_inv (obj w) \<Longrightarrow>
     get_openai_client env w = (r, w') \<Longrightarrow> client_inv (obj w')"
  by (auto simp: get_claude_client_def get_openai_client_def client_inv_def provider_client_def
           Let_def split: option.splits)

end
