(* ===== verification/Summarize.thy ===== *)
theory Summarize
  imports Client_Cache
begin

text \<open>
  \<^verbatim>\<open>_summarize_with_claude\<close>, \<^verbatim>\<open>_summarize_with_openai\<close> and \<^verbatim>\<open>summarize\<close>.
  The SDK calls \<^verbatim>\<open>client.messages.create\<close> and \<^verbatim>\<open>client.chat.completions.create\<close>
  record the request they send in the world and return what the environment \<open>sdk\<close> gives
  for it; calling one on the other provider's client is an attribute error, as in Python.
  Reading the response (\<^verbatim>\<open>message.content[0].text\<close>,
  \<^verbatim>\<open>response.choices[0].message.content\<close>) may raise too. \<^verbatim>\<open>summarize\<close> is the
  short-content shortcut, the prompt rendered with \<^verbatim>\<open>str.format\<close> outside the
  \<^verbatim>\<open>try\<close>, and the provider dispatch inside it, whose exceptions the handler prints and
  turns into \<open>None\<close>.
\<close>

section \<open>The prompt\<close>

definition render_prompt :: "pystr \<Rightarrow> article \<Rightarrow> pyexc + pystr" where
  "render_prompt tmpl a = py_format tmpl [u ''title'' \<mapsto> title a, u ''content'' \<mapsto> content a]"

section \<open>The SDK calls\<close>

definition messages_create ::
  "sdk \<Rightarrow> client \<Rightarrow> pystr \<Rightarrow> int \<Rightarrow> (pystr \<times> pystr) list \<Rightarrow> (world, content_block list) pyM" where
  "messages_create env c m mt msgs w =
     (case c of
        OpenAIClient _ _ \<Rightarrow> (Inl (AttributeError (u ''OpenAI object has no attribute messages'')), w)
      | AnthropicClient _ \<Rightarrow>
          (let rq = \<lparr>rq_endpoint = MessagesCreate, rq_client = c, rq_model = m,
                     rq_max_tokens = mt, rq_messages = msgs\<rparr>
           in (sdk_messages env (length (requests w)) rq, w\<lparr>requests := requests w @ [rq]\<rparr>)))"

definition chat_completions_create ::
  "sdk \<Rightarrow> client \<Rightarrow> pystr \<Rightarrow> int \<Rightarrow> (pystr \<times> pystr) list \<Rightarrow> (world, chat_choice list) pyM" where
  "chat_completions_create env c m mt msgs w =
     (case c of
        AnthropicClient _ \<Rightarrow> (Inl (AttributeError (u ''Anthropic object has no attribute chat'')), w)
      | OpenAIClient _ _ \<Rightarrow>
          (let rq = \<lparr>rq_endpoint = ChatCompletionsCreate, rq_client = c, rq_model = m,
                     rq_max_tokens = mt, rq_messages = msgs\<rparr>
           in (sdk_chat env (length (requests w)) rq, w\<lparr>requests := requests w @ [rq]\<rparr>)))"

text \<open>\<^verbatim>\<open>message.content[0].text\<close>\<close>

fun first_text :: "content_block list \<Rightarrow> pyexc + pystr" where
  "first_text [] = Inl (IndexError (u ''list index out of range''))"
| "first_text (TextBlock t # _) = Inr t"
| "first_text (OtherBlock k # _) = Inl (AttributeError (u ''content block has no attribute text''))"

text \<open>\<^verbatim>\<open>response.choices[0].message.content\<close>\<close>

fun first_choice_content :: "chat_choice list \<Rightarrow> pyexc + pystr option" where
  "first_choice_content [] = Inl (IndexError (u ''list index out of range''))"
| "first_choice_content (ChatChoice c # _) = Inr c"

section \<open>The two providers\<close>

definition summarize_with_claude :: "sdk \<Rightarrow> pystr \<Rightarrow> (world, pystr option) pyM" where
  "summarize_with_claude env prompt =
     bindM (get_claude_client env) (\<lambda>c.
     bindM (getsM (\<lambda>w. model (obj w))) (\<lambda>m.
     bindM (messages_create env c m 500 [(u ''user'', prompt)]) (\<lambda>blocks.
     liftM (map_sum id Some (first_text blocks)))))"

definition summarize_with_openai :: "sdk \<Rightarrow> pystr \<Rightarrow> (world, pystr option) pyM" where
  "summarize_with_openai env prompt =
     bindM (get_openai_client env) (\<lambda>c.
     bindM (getsM (\<lambda>w. openai_model (obj w))) (\<lambda>m.
     bindM (chat_completions_create env c m 500 [(u ''user'', prompt)]) (\<lambda>choices.
     liftM (first_choice_content choices))))"

section \<open>summarize\<close>

text \<open>The body of the \<^verbatim>\<open>try\<close>: the provider dispatch.\<close>

definition provider_dispatch :: "sdk \<Rightarrow> pystr \<Rightarrow> (world, pystr option) pyM" where
  "provider_dispatch env prompt =
     bindM (getsM (\<lambda>w. provider (obj w))) (\<lambda>p.
       if p = u ''claude'' then summarize_with_claude env prompt
       else if p = u ''openai'' then summarize_with_openai env prompt
       else bindM (print_line (LogUnknownProvider p)) (\<lambda>_. returnM None))"

text \<open>The \<^verbatim>\<open>except Exception as e\<close> clause.\<close>

definition report_failure :: "article \<Rightarrow> pyexc \<Rightarrow> (world, pystr option) pyM" where
  "report_failure a e = bindM (print_line (LogSummaryFailed (title a) e)) (\<lambda>_. returnM None)"

text \<open>The placeholder for an empty content (\<^verbatim>\<open>"no content summary"\<close> in Chinese).\<close>

definition no_summary_text :: pystr where
  "no_summary_text = [26242, 26080, 20869, 23481, 25688, 35201]"

definition summarize :: "sdk \<Rightarrow> article \<Rightarrow> (world, pystr option) pyM" where
  "summarize env a w =
     (if length (content a) < 100
      then returnM (Some (if content a \<noteq> [] then content a else no_summary_text)) w
      else bindM (getsM (\<lambda>w. prompt_template (obj w))) (\<lambda>tmpl.
           bindM (liftM (render_prompt tmpl a)) (\<lambda>prompt.
           tryM (provider_dispatch env prompt) (report_failure a))) w)"

section \<open>Unfolding lemmas\<close>

lemma report_failure_simp [simp]:
  "report_failure a e w = (Inr None, w\<lparr>printed := printed w @ [LogSummaryFailed (title a) e]\<rparr>)"
  by (simp add: report_failure_def)

lemma summarize_short:
  "length (content a) < 100 \<Longrightarrow>
     summarize env a w = (Inr (Some (if content a \<noteq> [] then content a else no_summary_text)), w)"
  by (simp add: summarize_def)

lemma summarize_long:
  "\<not> length (content a) < 100 \<Longrightarrow>
     summarize env a w =
       (case render_prompt (prompt_template (obj w)) a of
          Inl e \<Rightarrow> (Inl e, w)
        | Inr prompt \<Rightarrow> tryM (provider_dispatch env prompt) (report_failure a) w)"
  by (simp add: summarize_def split: sum.split)

lemma provider_dispatch_claude:
  "provider (obj w) = u ''claude'' \<Longrightarrow> provider_dispatch env p w = summarize_with_claude env p w"
  and provider_dispatch_openai:
  "provider (obj w) = u ''openai'' \<Longrightarrow> provider_dispatch env p w = summarize_with_openai env p w"
  and provider_dispatch_unknown:
  "provider (obj w) \<noteq> u ''claude'' \<Longrightarrow> provider (obj w) \<noteq> u ''openai'' \<Longrightarrow>
     provider_dispatch env p w =
       (Inr None, w\<lparr>printed := printed w @ [LogUnknownProvider (provider (obj w))]\<rparr>)"
  by (simp_all add: provider_dispatch_def)

section \<open>The request each provider path sends\<close>

text \<open>
  The request \<^verbatim>\<open>_summarize_with_claude\<close> sends for a prompt, and the world after it:
  the client cached, the request appended. Likewise for OpenAI.
\<close>

definition claude_request :: "summarizer \<Rightarrow> pystr \<Rightarrow> api_request" where
  "claude_request s p =
     \<lparr>rq_endpoint = MessagesCreate, rq_client = AnthropicClient (api_key s), rq_model = model s,
      rq_max_tokens = 500, rq_messages = [(u ''user'', p)]\<rparr>"

definition claude_sent :: "world \<Rightarrow> pystr \<Rightarrow> world" where
  "claude_sent w p =
     w\<lparr>obj := (obj w)\<lparr>client := Some (AnthropicClient (api_key (obj w)))\<rparr>,
       requests := requests w @ [claude_request (obj w) p]\<rparr>"

definition openai_request :: "summarizer \<Rightarrow> pystr \<Rightarrow> api_request" where
  "openai_request s p =
     \<lparr>rq_endpoint = ChatCompletionsCreate,
      rq_client = OpenAIClient (openai_api_key s) (openai_api_base s), rq_model = openai_model s,
      rq_max_tokens = 500, rq_messages = [(u ''user'', p)]\<rparr>"

definition openai_sent :: "world \<Rightarrow> pystr \<Rightarrow> world" where
  "openai_sent w p =
     w\<lparr>obj := (obj w)\<lparr>client := Some (OpenAIClient (openai_api_key (obj w)) (openai_api_base (obj w)))\<rparr>,
       requests := requests w @ [openai_request (obj w) p]\<rparr>"

text \<open>
  Under the cache invariant, the getter of the configured provider returns the client that
  provider builds, unless none is cached and building it raises.
\<close>

lemma get_claude_client_ok:
  assumes "client_inv (obj w)" and "provider (obj w) = u ''claude''"
    and "client (obj w) \<noteq> None \<or> sdk_construct env (AnthropicClient (api_key (obj w))) = None"
  shows "get_claude_client env w =
           (Inr (AnthropicClient (api_key (obj w))),
            w\<lparr>obj := (obj w)\<lparr>client := Some (AnthropicClient (api_key (obj w)))\<rparr>\<rparr>)"
proof (cases "client (obj w)")
  case None
  with assms(3) have "sdk_construct env (AnthropicClient (api_key (obj w))) = None" by simp
  with None show ?thesis by (rule get_claude_client_new)
next
  case (Some c)
  with assms(1,2) have c: "c = AnthropicClient (api_key (obj w))"
    by (simp add: client_inv_def provider_client_def)
  with Some have "(obj w)\<lparr>client := Some c\<rparr> = obj w"
    by (cases "obj w") simp
  with Some c show ?thesis by simp
qed

lemma get_openai_client_ok:
  assumes "client_inv (obj w)" and "provider (obj w) = u ''openai''"
    and "client (obj w) \<noteq> None \<or>
         sdk_construct env (OpenAIClient (openai_api_key (obj w)) (openai_api_base (obj w))) = None"
  shows "get_openai_client env w =
           (Inr (OpenAIClient (openai_api_key (obj w)) (openai_api_base (obj w))),
            w\<lparr>obj := (obj w)\<lparr>client := Some (OpenAIClient (openai_api_key (obj w)) (openai_api_base (obj w)))\<rparr>\<rparr>)"
proof (cases "client (obj w)")
  case None
  with assms(3) have "sdk_construct env (OpenAIClient (openai_api_key (obj w)) (openai_api_base (obj w))) = None"
    by simp
  with None show ?thesis by (rule get_openai_client_new)
next
  case (Some c)
  with assms(1,2) have c: "c = OpenAIClient (openai_api_key (obj w)) (openai_api_base (obj w))"
    by (simp add: client_inv_def provider_client_def)
  with Some have "(obj w)\<lparr>client := Some c\<rparr> = obj w"
    by (cases "obj w") simp
  with Some c show ?thesis by simp
qed

lemma summarize_with_claude_ok:
  assumes "client_inv (obj w)" and "provider (obj w) = u ''claude''"
    and "client (obj w) \<noteq> None \<or> sdk_construct env (AnthropicClient (api_key (obj w))) = None"
  shows "summarize_with_claude env p w =
           (case sdk_messages env (length (requests w)) (claude_request (obj w) p) of
              Inl e \<Rightarrow> (Inl e, claude_sent w p)
            | Inr blocks \<Rightarrow> (map_sum id Some (first_text blocks), claude_sent w p))"
  using get_claude_client_ok [OF assms]
  by (simp add: summarize_with_claude_def messages_create_def claude_request_def claude_sent_def
      split: sum.split)

lemma summarize_with_openai_ok:
  assumes "client_inv (obj w)" and "provider (obj w) = u ''openai''"
    and "client (obj w) \<noteq> None \<or>
         sdk_construct env (OpenAIClient (openai_api_key (obj w)) (openai_api_base (obj w))) = None"
  shows "summarize_with_openai env p w =
           (case sdk_chat env (length (requests w)) (openai_request (obj w) p) of
              Inl e \<Rightarrow> (Inl e, openai_sent w p)
            | Inr choices \<Rightarrow> (first_choice_content choices, openai_sent w p))"
  using get_openai_client_ok [OF assms]
  by (simp add: summarize_with_openai_def chat_completions_create_def openai_request_def
      openai_sent_def split: sum.split)

text \<open>Inside the \<^verbatim>\<open>try\<close>, the handler turns every exception into a value.\<close>

lemma tryM_report_failure_no_raise: "tryM m (report_failure a) w \<noteq> (Inl e, w')"
  by (auto split: prod.split sum.split)

lemma summarize_Inl_render:
  "summarize env a w = (Inl e, w') \<Longrightarrow> render_prompt (prompt_template (obj w)) a = Inl e"
  by (cases "length (content a) < 100")
    (auto simp: summarize_short summarize_long tryM_report_failure_no_raise simp del: tryM_def
      split: sum.splits)

section \<open>The frame of summarize\<close>

text \<open>
  Every SDK call, getter and print is a \<open>world_step\<close>; so is every method built from
  them, by the composition rules of \<open>preserves\<close>.
\<close>

lemma messages_create_preserves: "preserves world_step (messages_create env c m mt msgs)"
  and chat_completions_create_preserves:
    "preserves world_step (chat_completions_create env c m mt msgs)"
  by (auto intro!: preservesI simp: messages_create_def chat_completions_create_def Let_def
      split: client.splits)

lemma get_client_preserves:
  "preserves world_step (get_claude_client env)" "preserves world_step (get_openai_client env)"
  by (auto intro: preservesI get_claude_client_step get_openai_client_step)

lemma print_line_preserves: "preserves world_step (print_line l)"
  by (auto intro!: preservesI)

text \<open>
  Any reflexive, transitive relation kept by the getters, the SDK calls and the two lines
  \<^verbatim>\<open>summarize\<close> can print is kept by \<^verbatim>\<open>summarize\<close>: the interface the batch relies on.
\<close>

lemma summarize_preserves_rel:
  assumes refl: "\<And>s. R s s" and trans: "\<And>a b c. R a b \<Longrightarrow> R b c \<Longrightarrow> R a c"
    and get: "preserves R (get_claude_client env)" "preserves R (get_openai_client env)"
    and sdk: "\<And>c m mt msgs. preserves R (messages_create env c m mt msgs)"
      "\<And>c m mt msgs. preserves R (chat_completions_create env c m mt msgs)"
    and out: "\<And>p. preserves R (print_line (LogUnknownProvider p))"
      "\<And>t e. preserves R (print_line (LogSummaryFailed t e))"
  shows "preserves R (summarize env a)"
proof -
  note rules = preserves_bindM [where R = R, OF trans] preserves_tryM [where R = R, OF trans]
    preserves_returnM [where R = R, OF refl] preserves_getsM [where R = R, OF refl]
    preserves_liftM [where R = R, OF refl] preserves_if
  have "preserves R (provider_dispatch env p)" for p
    unfolding provider_dispatch_def summarize_with_claude_def summarize_with_openai_def
    by (intro rules get sdk out)
  moreover have "preserves R (report_failure a e)" for e
    unfolding report_failure_def by (intro rules out)
  ultimately have long: "preserves R
      (bindM (getsM (\<lambda>w. prompt_template (obj w))) (\<lambda>tmpl.
       bindM (liftM (render_prompt tmpl a)) (\<lambda>prompt.
       tryM (provider_dispatch env prompt) (report_failure a))))"
    by (intro rules)
  show ?thesis
  proof (rule preservesI)
    fix w r w'
    assume run: "summarize env a w = (r, w')"
    show "R w w'"
    proof (cases "length (content a) < 100")
      case True
      with run refl show ?thesis by (simp add: summarize_short)
    next
      case False
      with run long show ?thesis
        by (simp add: summarize_def preservesD del: tryM_def bindM_def getsM_def liftM_def)
    qed
  qed
qed

lemma summarize_preserves: "preserves world_step (summarize env a)"
  by (rule summarize_preserves_rel [where R = world_step, OF world_step_refl world_step_trans
      get_client_preserves messages_create_preserves chat_completions_create_preserves
      print_line_preserves print_line_preserves])

section \<open>Templates that cannot raise\<close>

text \<open>
  A template written from literal pieces and the two fields \<^verbatim>\<open>{title}\<close> and
  \<^verbatim>\<open>{content}\<close>, such as the default prompt.
\<close>

definition safe_template :: "tpiece list \<Rightarrow> bool" where
  "safe_template ps \<longleftrightarrow>
     list_all (\<lambda>p. case p of Lit c \<Rightarrow> True | Fld n \<Rightarrow> n = u ''title'' \<or> n = u ''content'') ps"

lemma safe_piece_plain:
  "(case p of Lit c \<Rightarrow> True | Fld n \<Rightarrow> n = u ''title'' \<or> n = u ''content'') \<Longrightarrow> plain_piece p"
  by (cases p) (auto simp: plain_name_def is_ascii_digit_def)

lemma render_prompt_safe:
  assumes "safe_template ps"
  shows "\<exists>s. render_prompt (unparse ps) a = Inr s"
proof -
  have plain: "list_all plain_piece ps"
    using assms unfolding safe_template_def
    by (rule list.pred_mono_strong) (rule safe_piece_plain)
  have "\<exists>s. expand [u ''title'' \<mapsto> title a, u ''content'' \<mapsto> content a] ps = Inr s"
    using assms unfolding safe_template_def
    by (induction ps) (auto split: tpiece.splits)
  with plain show ?thesis
    by (simp add: render_prompt_def py_format_def fmt_loop_unparse)
qed

section \<open>Lemmas on whole runs\<close>

lemma provider_dispatch_client_inv:
  assumes inv: "client_inv (obj w)" and run: "provider_dispatch env p w = (r, w1)"
  shows "client_inv (obj w1)"
proof -
  consider (claude) "provider (obj w) = u ''claude''" | (openai) "provider (obj w) = u ''openai''"
    | (other) "provider (obj w) \<noteq> u ''claude''" "provider (obj w) \<noteq> u ''openai''"
    by blast
  then show ?thesis
  proof cases
    case claude
    show ?thesis
    proof (cases "client (obj w) = None \<and> sdk_construct env (AnthropicClient (api_key (obj w))) \<noteq> None")
      case True
      with run claude inv show ?thesis
        by (auto simp: provider_dispatch_claude summarize_with_claude_def get_claude_client_raises)
    next
      case False
      with run claude inv show ?thesis
        by (auto simp: provider_dispatch_claude summarize_with_claude_ok claude_sent_def client_inv_def
            provider_client_def split: sum.splits)
    qed
  next
    case openai
    show ?thesis
    proof (cases "client (obj w) = None \<and>
        sdk_construct env (OpenAIClient (openai_api_key (obj w)) (openai_api_base (obj w))) \<noteq> None")
      case True
      with run openai inv show ?thesis
        by (auto simp: provider_dispatch_openai summarize_with_openai_def get_openai_client_raises)
    next
      case False
      with run openai inv show ?thesis
        by (auto simp: provider_dispatch_openai summarize_with_openai_ok openai_sent_def client_inv_def
            provider_client_def split: sum.splits)
    qed
  next
    case other
    with run inv show ?thesis by (auto simp: provider_dispatch_unknown)
  qed
qed

lemma summarize_claude_world:
  assumes "100 \<le> length (content a)" and "provider (obj w) = u ''claude''" and "client_inv (obj w)"
    and "client (obj w) \<noteq> None \<or> sdk_construct env (AnthropicClient (api_key (obj w))) = None"
    and "render_prompt (prompt_template (obj w)) a = Inr p"
    and "summarize env a w = (r, w')"
  shows "obj w' = obj (claude_sent w p) \<and> requests w' = requests w @ [claude_request (obj w) p]"
  using assms
  by (auto simp: summarize_long provider_dispatch_claude summarize_with_claude_ok claude_sent_def
      split: sum.splits)

lemma render_demo_article: "render_prompt default_prompt demo_article = Inr demo_prompt"
  by (simp add: demo_article_def demo_prompt_def render_prompt_def py_format_def default_prompt_def
      default_prompt_head_def default_prompt_mid_def default_prompt_tail_def parse_field_def
      render_field_def is_ascii_digit_def)

lemma demo_world_facts:
  "provider (obj demo_world) = u ''claude''" "client (obj demo_world) = None"
  "client_inv (obj demo_world)" "prompt_template (obj demo_world) = default_prompt"
  "100 \<le> length (content demo_article)"
  by (simp_all add: demo_world_def client_inv_def demo_article_def)

section \<open>Properties of summarize\<close>

text \<open>
  C1: an article whose content is non-empty and shorter than 100 code points is
  summarised by its content, unchanged; no request is sent, nothing is printed and the
  object is not touched.
\<close>

theorem summarize_short_content_verbatim:
  assumes "content a \<noteq> []" and "length (content a) < 100"
  shows "summarize env a w = (Inr (Some (content a)), w)"
  using assms by (simp add: summarize_short)

theorem summarize_short_content_verbatim_witness:
  "content \<lparr>title = u ''B'', content = replicate 50 120\<rparr> \<noteq> [] \<and>
   length (content \<lparr>title = u ''B'', content = replicate 50 120\<rparr>) < 100 \<and>
   summarize demo_sdk \<lparr>title = u ''B'', content = replicate 50 120\<rparr> demo_world =
     (Inr (Some (replicate 50 120)), demo_world)"
  using summarize_short_content_verbatim [of "\<lparr>title = u ''B'', content = replicate 50 120\<rparr>"
      demo_sdk demo_world]
  by simp

text \<open>
  C2: an article with empty content is summarised by the fixed placeholder text, with no
  request sent, nothing printed and the object not touched.
\<close>

theorem summarize_empty_content_placeholder:
  "content a = [] \<Longrightarrow> summarize env a w = (Inr (Some no_summary_text), w)"
  by (simp add: summarize_short)

theorem summarize_empty_content_placeholder_witness:
  "content \<lparr>title = u ''A'', content = []\<rparr> = [] \<and>
   summarize demo_sdk \<lparr>title = u ''A'', content = []\<rparr> demo_world =
     (Inr (Some no_summary_text), demo_world)"
  using summarize_empty_content_placeholder [of "\<lparr>title = u ''A'', content = []\<rparr>" demo_sdk demo_world]
  by simp

text \<open>
  C3: with the Claude provider and content of at least 100 code points, \<^verbatim>\<open>summarize\<close>
  sends exactly one request (model from the configuration, 500 tokens, one user message
  holding the rendered prompt) on the client built from \<^verbatim>\<open>api_key\<close>, caches that client,
  and returns the text of the first block of the response.
\<close>

theorem summarize_claude_text:
  assumes "100 \<le> length (content a)" and "provider (obj w) = u ''claude''"
    and "client_inv (obj w)" and "sdk_construct env (AnthropicClient (api_key (obj w))) = None"
    and "render_prompt (prompt_template (obj w)) a = Inr p"
    and "sdk_messages env (length (requests w)) (claude_request (obj w) p) = Inr (TextBlock t # bs)"
  shows "summarize env a w = (Inr (Some t), claude_sent w p)"
  using assms by (simp add: summarize_long provider_dispatch_claude summarize_with_claude_ok)

theorem summarize_claude_text_witness:
  "summarize demo_sdk demo_article demo_world = (Inr (Some (u ''ok'')), claude_sent demo_world demo_prompt)"
  using summarize_claude_text [of demo_article demo_world demo_sdk demo_prompt "u ''ok''" "[]"]
    render_demo_article demo_world_facts
  by (simp add: demo_sdk_def)

text \<open>
  C4: with the OpenAI provider, \<^verbatim>\<open>summarize\<close> sends one chat-completions request
  (the OpenAI model, 500 tokens, one user message) on the client built from
  \<^verbatim>\<open>openai_api_key\<close> and \<^verbatim>\<open>openai_api_base\<close>, and returns the content of the first
  choice, which may itself be \<open>None\<close>.
\<close>

theorem summarize_openai_content:
  assumes "100 \<le> length (content a)" and "provider (obj w) = u ''openai''"
    and "client_inv (obj w)"
    and "sdk_construct env (OpenAIClient (openai_api_key (obj w)) (openai_api_base (obj w))) = None"
    and "render_prompt (prompt_template (obj w)) a = Inr p"
    and "sdk_chat env (length (requests w)) (openai_request (obj w) p) = Inr (ChatChoice c # cs)"
  shows "summarize env a w = (Inr c, openai_sent w p)"
  using assms by (simp add: summarize_long provider_dispatch_openai summarize_with_openai_ok)

theorem summarize_openai_content_witness:
  "summarize demo_sdk demo_article (demo_world\<lparr>obj := (obj demo_world)\<lparr>provider := u ''openai''\<rparr>\<rparr>) =
     (Inr (Some (u ''ok'')), openai_sent (demo_world\<lparr>obj := (obj demo_world)\<lparr>provider := u ''openai''\<rparr>\<rparr>) demo_prompt)"
  using summarize_openai_content [of demo_article "demo_world\<lparr>obj := (obj demo_world)\<lparr>provider := u ''openai''\<rparr>\<rparr>"
      demo_sdk demo_prompt "Some (u ''ok'')" "[]"]
    render_demo_article demo_world_facts
  by (simp add: demo_sdk_def client_inv_def)

text \<open>
  C5: with a provider other than \<^verbatim>\<open>claude\<close> and \<^verbatim>\<open>openai\<close>, \<^verbatim>\<open>summarize\<close> prints
  one warning naming the provider and returns \<open>None\<close>; no client is built and no request
  is sent.
\<close>

theorem summarize_unknown_provider:
  assumes "100 \<le> length (content a)"
    and "provider (obj w) \<noteq> u ''claude''" and "provider (obj w) \<noteq> u ''openai''"
    and "render_prompt (prompt_template (obj w)) a = Inr p"
  shows "summarize env a w =
           (Inr None, w\<lparr>printed := printed w @ [LogUnknownProvider (provider (obj w))]\<rparr>)"
  using assms by (simp add: summarize_long provider_dispatch_unknown)

theorem summarize_unknown_provider_witness:
  "summarize demo_sdk demo_article (demo_world\<lparr>obj := (obj demo_world)\<lparr>provider := u ''mystery''\<rparr>\<rparr>) =
     (Inr None, demo_world\<lparr>obj := (obj demo_world)\<lparr>provider := u ''mystery''\<rparr>,
                           printed := [LogUnknownProvider (u ''mystery'')]\<rparr>)"
  using summarize_unknown_provider [of demo_article "demo_world\<lparr>obj := (obj demo_world)\<lparr>provider := u ''mystery''\<rparr>\<rparr>"
      demo_prompt demo_sdk]
    render_demo_article demo_world_facts
  by (simp add: demo_world_def)

text \<open>
  C6: an exception raised by the provider call is caught: \<^verbatim>\<open>summarize\<close> prints one
  error line with the article's title and the exception and returns \<open>None\<close>; the request
  was sent and the client stays cached.
\<close>

theorem summarize_claude_error_absorbed:
  assumes "100 \<le> length (content a)" and "provider (obj w) = u ''claude''"
    and "client_inv (obj w)" and "sdk_construct env (AnthropicClient (api_key (obj w))) = None"
    and "render_prompt (prompt_template (obj w)) a = Inr p"
    and "sdk_messages env (length (requests w)) (claude_request (obj w) p) = Inl e"
  shows "summarize env a w =
           (Inr None, (claude_sent w p)\<lparr>printed := printed w @ [LogSummaryFailed (title a) e]\<rparr>)"
  using assms
  by (simp add: summarize_long provider_dispatch_claude summarize_with_claude_ok claude_sent_def)

theorem summarize_claude_error_absorbed_witness:
  "summarize (demo_sdk\<lparr>sdk_messages := (\<lambda>_ _. Inl (SdkError (u ''rate limited'')))\<rparr>) demo_article demo_world =
     (Inr None, (claude_sent demo_world demo_prompt)\<lparr>printed := [LogSummaryFailed (u ''C'') (SdkError (u ''rate limited''))]\<rparr>)"
  using summarize_claude_error_absorbed [of demo_article demo_world
      "demo_sdk\<lparr>sdk_messages := (\<lambda>_ _. Inl (SdkError (u ''rate limited'')))\<rparr>" demo_prompt
      "SdkError (u ''rate limited'')"]
    render_demo_article demo_world_facts
  by (simp add: demo_sdk_def demo_article_def demo_world_def)

text \<open>
  C7: an exception raised while building the client (SDK missing, no key) is caught the
  same way; nothing is cached and no request is sent, so the next call tries again.
\<close>

theorem summarize_construction_error_absorbed:
  assumes "100 \<le> length (content a)" and "provider (obj w) = u ''claude''"
    and "client (obj w) = None" and "sdk_construct env (AnthropicClient (api_key (obj w))) = Some e"
    and "render_prompt (prompt_template (obj w)) a = Inr p"
  shows "summarize env a w = (Inr None, w\<lparr>printed := printed w @ [LogSummaryFailed (title a) e]\<rparr>)"
  using assms
  by (simp add: summarize_long provider_dispatch_claude summarize_with_claude_def get_claude_client_raises)

theorem summarize_construction_error_absorbed_witness:
  "summarize (demo_sdk\<lparr>sdk_construct := (\<lambda>_. Some (SdkError (u ''no api key'')))\<rparr>) demo_article demo_world =
     (Inr None, demo_world\<lparr>printed := [LogSummaryFailed (u ''C'') (SdkError (u ''no api key''))]\<rparr>)"
  using summarize_construction_error_absorbed [of demo_article demo_world
      "demo_sdk\<lparr>sdk_construct := (\<lambda>_. Some (SdkError (u ''no api key'')))\<rparr>"
      "SdkError (u ''no api key'')" demo_prompt]
    render_demo_article demo_world_facts
  by (simp add: demo_sdk_def demo_article_def demo_world_def)

text \<open>
  C8: \<^verbatim>\<open>summarize\<close> raises exactly when the content has at least 100 code points and
  rendering the prompt template raises; it then raises that exception and leaves the world
  as it was. Every exception of the provider path is absorbed.
\<close>

theorem summarize_raises_iff:
  "summarize env a w = (Inl e, w') \<longleftrightarrow>
     100 \<le> length (content a) \<and> render_prompt (prompt_template (obj w)) a = Inl e \<and> w' = w"
proof (cases "length (content a) < 100")
  case True
  then show ?thesis by (simp add: summarize_short)
next
  case False
  then show ?thesis
    by (auto simp: summarize_long tryM_report_failure_no_raise simp del: tryM_def split: sum.split)
qed

text \<open>
  C9: a template naming a field other than \<^verbatim>\<open>title\<close> and \<^verbatim>\<open>content\<close> makes
  \<^verbatim>\<open>summarize\<close> raise \<^verbatim>\<open>KeyError\<close> to its caller, since the prompt is formatted
  outside the \<^verbatim>\<open>try\<close> block.
\<close>

theorem summarize_template_key_error:
  assumes "100 \<le> length (content a)" and "prompt_template (obj w) = u ''{url}''"
  shows "summarize env a w = (Inl (KeyError (u ''url'')), w)"
  using assms
  by (simp add: summarize_long render_prompt_def py_format_def parse_field_def render_field_def
      is_ascii_digit_def)

theorem summarize_template_key_error_witness:
  "summarize demo_sdk demo_article (demo_world\<lparr>obj := (obj demo_world)\<lparr>prompt_template := u ''{url}''\<rparr>\<rparr>) =
     (Inl (KeyError (u ''url'')), demo_world\<lparr>obj := (obj demo_world)\<lparr>prompt_template := u ''{url}''\<rparr>\<rparr>)"
  using summarize_template_key_error [of demo_article
      "demo_world\<lparr>obj := (obj demo_world)\<lparr>prompt_template := u ''{url}''\<rparr>\<rparr>" demo_sdk]
    demo_world_facts
  by simp

text \<open>
  C10: with a template built from literal text and the fields \<^verbatim>\<open>{title}\<close> and
  \<^verbatim>\<open>{content}\<close>, \<^verbatim>\<open>summarize\<close> never raises, whatever the SDK does.
\<close>

theorem summarize_safe_template_no_raise:
  assumes "safe_template ps" and "prompt_template (obj w) = unparse ps"
  shows "\<exists>r w'. summarize env a w = (Inr r, w')"
proof -
  obtain s where s: "render_prompt (prompt_template (obj w)) a = Inr s"
    using render_prompt_safe [OF assms(1)] assms(2) by auto
  obtain r w' where run: "summarize env a w = (r, w')"
    by fastforce
  show ?thesis
  proof (cases r)
    case (Inl e)
    with run s show ?thesis using summarize_Inl_render by fastforce
  next
    case (Inr x)
    with run show ?thesis by blast
  qed
qed

theorem summarize_safe_template_no_raise_witness:
  "\<exists>r w'. summarize demo_sdk demo_article
      (demo_world\<lparr>obj := (obj demo_world)\<lparr>prompt_template := u ''{content}''\<rparr>\<rparr>) = (Inr r, w')"
  using summarize_safe_template_no_raise [of "[Fld (u ''content'')]"
      "demo_world\<lparr>obj := (obj demo_world)\<lparr>prompt_template := u ''{content}''\<rparr>\<rparr>" demo_sdk demo_article]
  by (simp add: safe_template_def)

text \<open>
  C11: the default prompt renders to its fixed text with the title and the content
  substituted verbatim, braces in them included.
\<close>

theorem render_default_prompt:
  "render_prompt default_prompt a =
     Inr (default_prompt_head @ title a @ default_prompt_mid @ content a @ default_prompt_tail)"
  by (simp add: render_prompt_def py_format_def default_prompt_def default_prompt_head_def
      default_prompt_mid_def default_prompt_tail_def parse_field_def render_field_def is_ascii_digit_def)

text \<open>
  C12: the client cache invariant is kept by \<^verbatim>\<open>summarize\<close>: a cached client is always the
  one the configured provider builds from the configured credentials.
\<close>

theorem summarize_client_inv:
  assumes "client_inv (obj w)" and "summarize env a w = (r, w')"
  shows "client_inv (obj w')"
proof (cases "length (content a) < 100")
  case True
  with assms show ?thesis by (simp add: summarize_short)
next
  case False
  show ?thesis
  proof (cases "render_prompt (prompt_template (obj w)) a")
    case (Inl e)
    with False assms show ?thesis by (simp add: summarize_long)
  next
    case (Inr p)
    with False assms provider_dispatch_client_inv [OF assms(1), of env p] show ?thesis
      by (auto simp: summarize_long split: prod.splits sum.splits)
  qed
qed

theorem summarize_client_inv_witness:
  "client_inv (obj (snd (summarize demo_sdk demo_article demo_world)))"
  using summarize_client_inv [of demo_world demo_sdk "demo_article"
      "fst (summarize demo_sdk demo_article demo_world)"
      "snd (summarize demo_sdk demo_article demo_world)"]
  by (simp add: demo_world_def client_inv_def)

text \<open>
  C13: \<^verbatim>\<open>summarize\<close> never changes the configuration, never replaces a cached client,
  and only appends to the requests sent and the lines printed.
\<close>

theorem summarize_world_step: "summarize env a w = (r, w') \<Longrightarrow> world_step w w'"
  by (rule preservesD [OF summarize_preserves])

theorem summarize_world_step_witness:
  "world_step demo_world (snd (summarize demo_sdk demo_article demo_world))"
  using summarize_world_step [of demo_sdk demo_article demo_world
      "fst (summarize demo_sdk demo_article demo_world)" "snd (summarize demo_sdk demo_article demo_world)"]
  by simp

text \<open>
  C14: summaries are not cached but the client is: summarising the same long article twice
  sends the same request twice, and the second call uses the client the first one cached,
  without building one: its request is sent even when building a client would now raise.
\<close>

theorem summarize_twice_two_requests:
  assumes "100 \<le> length (content a)" and "provider (obj w) = u ''claude''" and "client_inv (obj w)"
    and "sdk_construct env (AnthropicClient (api_key (obj w))) = None"
    and "render_prompt (prompt_template (obj w)) a = Inr p"
    and "summarize env a w = (r1, w1)" and "summarize env' a w1 = (r2, w2)"
  shows "requests w2 = requests w @ [claude_request (obj w) p, claude_request (obj w) p] \<and>
         client (obj w2) = Some (AnthropicClient (api_key (obj w)))"
proof -
  from assms(1-6) have w1: "obj w1 = obj (claude_sent w p)"
    and rq1: "requests w1 = requests w @ [claude_request (obj w) p]"
    using summarize_claude_world by blast+
  have o1: "obj w1 = (obj w)\<lparr>client := Some (AnthropicClient (api_key (obj w)))\<rparr>"
    using w1 by (simp add: claude_sent_def)
  from o1 assms(2) have "provider (obj w1) = u ''claude''" and "client_inv (obj w1)"
    and "client (obj w1) \<noteq> None" and "prompt_template (obj w1) = prompt_template (obj w)"
    by (simp_all add: client_inv_def provider_client_def)
  moreover from assms(5) this(4) have "render_prompt (prompt_template (obj w1)) a = Inr p"
    by simp
  ultimately have "obj w2 = obj (claude_sent w1 p) \<and> requests w2 = requests w1 @ [claude_request (obj w1) p]"
    using summarize_claude_world [of a w1 env' p r2 w2] assms(1,7) by blast
  with rq1 o1 show ?thesis by (simp add: claude_request_def claude_sent_def)
qed

theorem summarize_twice_two_requests_witness:
  "requests (snd (summarize (demo_sdk\<lparr>sdk_construct := \<lambda>_. Some (SdkError (u ''no SDK''))\<rparr>) demo_article
      (snd (summarize demo_sdk demo_article demo_world)))) =
     [claude_request (obj demo_world) demo_prompt, claude_request (obj demo_world) demo_prompt] \<and>
   client (obj (snd (summarize (demo_sdk\<lparr>sdk_construct := \<lambda>_. Some (SdkError (u ''no SDK''))\<rparr>) demo_article
      (snd (summarize demo_sdk demo_article demo_world))))) =
     Some (AnthropicClient (api_key (obj demo_world)))"
  using summarize_twice_two_requests [of demo_article demo_world demo_sdk demo_prompt
      "fst (summarize demo_sdk demo_article demo_world)" "snd (summarize demo_sdk demo_article demo_world)"
      "demo_sdk\<lparr>sdk_construct := \<lambda>_. Some (SdkError (u ''no SDK''))\<rparr>"
      "fst (summarize (demo_sdk\<lparr>sdk_construct := \<lambda>_. Some (SdkError (u ''no SDK''))\<rparr>) demo_article
         (snd (summarize demo_sdk demo_article demo_world)))"
      "snd (summarize (demo_sdk\<lparr>sdk_construct := \<lambda>_. Some (SdkError (u ''no SDK''))\<rparr>) demo_article
         (snd (summarize demo_sdk demo_article demo_world)))"]
    render_demo_article demo_world_facts
  by (simp add: demo_sdk_def demo_world_def)

end
