(* ===== verification/Batch.thy ===== *)
theory Batch
  imports Summarize
begin

text \<open>
  \<^verbatim>\<open>summarize_batch(articles, max_articles=10)\<close>: a loop over
  \<^verbatim>\<open>articles[:max_articles]\<close> that prints a progress line, summarises the article and
  appends the pair to \<^verbatim>\<open>results\<close>, in order and one article at a time. An exception of
  \<^verbatim>\<open>summarize\<close> leaves the loop and the partial results are lost. The lemmas: the
  results pair the processed prefix with summaries in input order; the progress lines and
  the lines each summary prints interleave article by article; a safe template makes the
  batch return; a batch raises only for an article whose prompt fails to render;
  short articles get their content back; the batch is a frame step of the world.
\<close>

section \<open>The loop\<close>

text \<open>
  \<open>i\<close> is the index of \<^verbatim>\<open>enumerate\<close>, \<open>count\<close> the value
  \<^verbatim>\<open>min(len(articles), max_articles)\<close> printed in every progress line, \<open>results\<close>
  the list built so far.
\<close>

fun batch_loop ::
  "sdk \<Rightarrow> int \<Rightarrow> int \<Rightarrow> (article \<times> pystr option) list \<Rightarrow> article list \<Rightarrow>
     (world, (article \<times> pystr option) list) pyM" where
  "batch_loop env count i results [] = returnM results"
| "batch_loop env count i results (a # as) =
     bindM (print_line (LogProgress (i + 1) count (py_slice_to (title a) 50))) (\<lambda>_.
     bindM (summarize env a) (\<lambda>summary.
     batch_loop env count (i + 1) (results @ [(a, summary)]) as))"

definition summarize_batch ::
  "sdk \<Rightarrow> article list \<Rightarrow> int \<Rightarrow> (world, (article \<times> pystr option) list) pyM" where
  "summarize_batch env articles max_articles =
     batch_loop env (min (int (length articles)) max_articles) 0 [] (py_slice_to articles max_articles)"

text \<open>The call with the default argument.\<close>

definition summarize_batch_default :: "sdk \<Rightarrow> article list \<Rightarrow> (world, (article \<times> pystr option) list) pyM" where
  "summarize_batch_default env articles = summarize_batch env articles 10"

section \<open>Specification of the printed lines\<close>

fun is_progress :: "log_line \<Rightarrow> bool" where
  "is_progress (LogProgress i n t) = True"
| "is_progress (LogUnknownProvider p) = False"
| "is_progress (LogSummaryFailed t e) = False"

text \<open>
  The lines of a batch over \<open>as\<close> from index \<open>i\<close>, where \<open>segs\<close> are the lines
  each summary printed: each article's progress line comes right before its own lines.
\<close>

fun batch_log :: "int \<Rightarrow> int \<Rightarrow> article list \<Rightarrow> log_line list list \<Rightarrow> log_line list" where
  "batch_log count i (a # as) (seg # segs) =
     LogProgress (i + 1) count (take 50 (title a)) # seg @ batch_log count (i + 1) as segs"
| "batch_log count i as segs = []"

text \<open>A step that prints only lines other than progress lines.\<close>

definition quiet_step :: "world \<Rightarrow> world \<Rightarrow> bool" where
  "quiet_step w w' \<longleftrightarrow> (\<exists>ls. printed w' = printed w @ ls \<and> \<not> list_ex is_progress ls)"

text \<open>The result a short article gets, whatever the provider does.\<close>

definition short_result :: "article \<times> pystr option \<Rightarrow> bool" where
  "short_result r \<longleftrightarrow>
     (length (content (fst r)) < 100 \<longrightarrow>
      snd r = Some (if content (fst r) \<noteq> [] then content (fst r) else no_summary_text))"

text \<open>
  A line of the batch respects the total \<open>c\<close>: a progress line has an index from 1 to
  \<open>c\<close>, the total \<open>c\<close>, and at most 50 code points of title.
\<close>

fun progress_bounded :: "int \<Rightarrow> log_line \<Rightarrow> bool" where
  "progress_bounded c (LogProgress i c' t) \<longleftrightarrow> 1 \<le> i \<and> i \<le> c \<and> c' = c \<and> length t \<le> 50"
| "progress_bounded c l \<longleftrightarrow> True"

section \<open>A concrete batch for the witnesses\<close>

text \<open>Three short articles, the first one empty.\<close>

definition demo_batch :: "article list" where
  "demo_batch = [\<lparr>title = u ''A'', content = []\<rparr>, \<lparr>title = u ''B'', content = u ''short''\<rparr>,
                 \<lparr>title = u ''D'', content = u ''x''\<rparr>]"

section \<open>Lemmas\<close>

lemma quiet_step_refl: "quiet_step w w"
  by (auto simp: quiet_step_def)

lemma quiet_step_trans: "quiet_step w1 w2 \<Longrightarrow> quiet_step w2 w3 \<Longrightarrow> quiet_step w1 w3"
  by (auto simp: quiet_step_def)

lemma summarize_quiet: "preserves quiet_step (summarize env a)"
proof (rule summarize_preserves_rel [where R = quiet_step, OF quiet_step_refl quiet_step_trans])
  show "preserves quiet_step (get_claude_client env)" "preserves quiet_step (get_openai_client env)"
    by (auto intro!: preservesI simp: quiet_step_def get_claude_client_def get_openai_client_def
        Let_def split: option.splits)
  show "preserves quiet_step (messages_create env c m mt msgs)"
    "preserves quiet_step (chat_completions_create env c m mt msgs)" for c m mt msgs
    by (auto intro!: preservesI simp: quiet_step_def messages_create_def chat_completions_create_def
        Let_def split: client.splits)
  show "preserves quiet_step (print_line (LogUnknownProvider p))"
    "preserves quiet_step (print_line (LogSummaryFailed t e))" for p t e
    by (auto intro!: preservesI simp: quiet_step_def)
qed

lemma world_step_template: "world_step w w' \<Longrightarrow> prompt_template (obj w') = prompt_template (obj w)"
  unfolding world_step_def by (blast dest: config_of_eq_fields)

lemma batch_loop_results:
  "batch_loop env count i results as w = (Inr rs, w') \<Longrightarrow> map fst rs = map fst results @ as"
  by (induction as arbitrary: i results w) (auto split: prod.splits sum.splits)

lemma batch_loop_world_step:
  "batch_loop env count i results as w = (r, w') \<Longrightarrow> world_step w w'"
proof (induction as arbitrary: i results w)
  case Nil
  then show ?case by simp
next
  case (Cons a as)
  let ?w1 = "w\<lparr>printed := printed w @ [LogProgress (i + 1) count (py_slice_to (title a) 50)]\<rparr>"
  obtain s w2 where run: "summarize env a ?w1 = (s, w2)" by fastforce
  have w01: "world_step w ?w1" by (rule world_step_print)
  have w12: "world_step ?w1 w2" using run by (rule preservesD [OF summarize_preserves])
  show ?case
  proof (cases s)
    case (Inl e)
    with Cons.prems run have "w' = w2" by simp
    with world_step_trans [OF w01 w12] show ?thesis by simp
  next
    case (Inr x)
    with Cons.prems run have "batch_loop env count (i + 1) (results @ [(a, x)]) as w2 = (r, w')"
      by simp
    then have "world_step w2 w'" by (rule Cons.IH)
    with world_step_trans [OF w01 w12] show ?thesis by (rule world_step_trans)
  qed
qed

lemma batch_loop_log:
  "batch_loop env count i results as w = (Inr rs, w') \<Longrightarrow>
     \<exists>segs. length segs = length as \<and> list_all (\<lambda>seg. \<not> list_ex is_progress seg) segs \<and>
            printed w' = printed w @ batch_log count i as segs"
proof (induction as arbitrary: i results w)
  case Nil
  then show ?case by simp
next
  case (Cons a as)
  let ?w1 = "w\<lparr>printed := printed w @ [LogProgress (i + 1) count (py_slice_to (title a) 50)]\<rparr>"
  from Cons.prems obtain x w2 where run: "summarize env a ?w1 = (Inr x, w2)"
    and rest: "batch_loop env count (i + 1) (results @ [(a, x)]) as w2 = (Inr rs, w')"
    by (auto split: prod.splits sum.splits)
  from preservesD [OF summarize_quiet run] obtain seg where
    seg: "printed w2 = printed ?w1 @ seg" "\<not> list_ex is_progress seg"
    by (auto simp: quiet_step_def)
  from Cons.IH [OF rest] obtain segs where
    "length segs = length as" "list_all (\<lambda>seg. \<not> list_ex is_progress seg) segs"
    "printed w' = printed w2 @ batch_log count (i + 1) as segs"
    by blast
  with seg show ?case
    by (intro exI [of _ "seg # segs"]) simp
qed

lemma batch_loop_short:
  "batch_loop env count i results as w = (Inr rs, w') \<Longrightarrow> list_all short_result results \<Longrightarrow>
     list_all short_result rs"
proof (induction as arbitrary: i results w)
  case Nil
  then show ?case by simp
next
  case (Cons a as)
  let ?w1 = "w\<lparr>printed := printed w @ [LogProgress (i + 1) count (py_slice_to (title a) 50)]\<rparr>"
  from Cons.prems(1) obtain x w2 where run: "summarize env a ?w1 = (Inr x, w2)"
    and rest: "batch_loop env count (i + 1) (results @ [(a, x)]) as w2 = (Inr rs, w')"
    by (auto split: prod.splits sum.splits)
  from run have "short_result (a, x)"
    by (auto simp: short_result_def summarize_short)
  with Cons.prems(2) have "list_all short_result (results @ [(a, x)])"
    by simp
  with rest show ?case by (rule Cons.IH)
qed

lemma batch_loop_safe:
  assumes "safe_template ps" and "prompt_template (obj w) = unparse ps"
  shows "\<exists>rs w'. batch_loop env count i results as w = (Inr rs, w')"
  using assms(2)
proof (induction as arbitrary: i results w)
  case Nil
  then show ?case by simp
next
  case (Cons a as)
  let ?w1 = "w\<lparr>printed := printed w @ [LogProgress (i + 1) count (py_slice_to (title a) 50)]\<rparr>"
  obtain s w2 where run: "summarize env a ?w1 = (s, w2)" by fastforce
  from render_prompt_safe [OF assms(1)] Cons.prems
  obtain p where "render_prompt (prompt_template (obj ?w1)) a = Inr p"
    by auto
  with run obtain x where x: "s = Inr x"
    by (cases s) (auto dest: summarize_Inl_render)
  from preservesD [OF summarize_preserves run] Cons.prems
  have "prompt_template (obj w2) = unparse ps"
    by (simp add: world_step_template)
  then obtain rs w' where "batch_loop env count (i + 1) (results @ [(a, x)]) as w2 = (Inr rs, w')"
    using Cons.IH by blast
  with run x show ?case by simp
qed

lemma batch_loop_raises:
  "batch_loop env count i results as w = (Inl e, w') \<Longrightarrow>
     \<exists>a \<in> set as. 100 \<le> length (content a) \<and> render_prompt (prompt_template (obj w)) a = Inl e"
proof (induction as arbitrary: i results w)
  case Nil
  then show ?case by simp
next
  case (Cons a as)
  let ?w1 = "w\<lparr>printed := printed w @ [LogProgress (i + 1) count (py_slice_to (title a) 50)]\<rparr>"
  obtain s w2 where run: "summarize env a ?w1 = (s, w2)" by fastforce
  show ?case
  proof (cases s)
    case (Inl e')
    with run Cons.prems have "e' = e" by simp
    with run Inl have "render_prompt (prompt_template (obj w)) a = Inl e"
      by (auto dest: summarize_Inl_render)
    moreover from run Inl \<open>e' = e\<close> have "100 \<le> length (content a)"
      by (cases "length (content a) < 100") (auto simp: summarize_short)
    ultimately show ?thesis by auto
  next
    case (Inr x)
    with run Cons.prems have "batch_loop env count (i + 1) (results @ [(a, x)]) as w2 = (Inl e, w')"
      by simp
    then obtain b where "b \<in> set as" "100 \<le> length (content b)"
      "render_prompt (prompt_template (obj w2)) b = Inl e"
      using Cons.IH by blast
    moreover from preservesD [OF summarize_preserves run]
    have "prompt_template (obj w2) = prompt_template (obj w)"
      by (simp add: world_step_template)
    ultimately show ?thesis by auto
  qed
qed

lemma batch_log_bounded:
  "list_all (\<lambda>seg. \<not> list_ex is_progress seg) segs \<Longrightarrow> 0 \<le> i \<Longrightarrow> i + int (length as) \<le> c \<Longrightarrow>
     list_all (progress_bounded c) (batch_log c i as segs)"
proof (induction c i as segs rule: batch_log.induct)
  case (1 c i a as seg segs)
  have "list_all (progress_bounded c) seg"
    using "1.prems"(1) by (induction seg) (auto elim: is_progress.elims progress_bounded.elims)
  with 1 show ?case by simp
qed simp_all


text \<open>Each call of \<^verbatim>\<open>summarize\<close> sends at most one request, none for a short article.\<close>

lemma get_client_requests:
  "get_claude_client env w = (r, w') \<Longrightarrow> requests w' = requests w"
  "get_openai_client env w = (r, w') \<Longrightarrow> requests w' = requests w"
  by (auto simp: get_claude_client_def get_openai_client_def Let_def split: option.splits)

lemma provider_dispatch_one_request:
  "provider_dispatch env p w = (r, w') \<Longrightarrow> \<exists>rs. requests w' = requests w @ rs \<and> length rs \<le> 1"
  by (auto simp: provider_dispatch_def summarize_with_claude_def summarize_with_openai_def
      messages_create_def chat_completions_create_def Let_def
      dest!: get_client_requests split: prod.splits sum.splits client.splits if_splits)

lemma summarize_one_request:
  "summarize env a w = (r, w') \<Longrightarrow>
     \<exists>rs. requests w' = requests w @ rs \<and> length rs \<le> (if length (content a) < 100 then 0 else 1)"
  by (cases "length (content a) < 100")
    (auto simp: summarize_short summarize_long dest!: provider_dispatch_one_request
      split: sum.splits prod.splits)

lemma batch_loop_requests:
  "batch_loop env count i results as w = (r, w') \<Longrightarrow>
     length (requests w') \<le> length (requests w) + length (filter (\<lambda>a. 100 \<le> length (content a)) as)"
proof (induction as arbitrary: i results w)
  case Nil
  then show ?case by simp
next
  case (Cons a as)
  let ?w1 = "w\<lparr>printed := printed w @ [LogProgress (i + 1) count (py_slice_to (title a) 50)]\<rparr>"
  obtain s w2 where run: "summarize env a ?w1 = (s, w2)" by fastforce
  from summarize_one_request [OF run] have one:
    "length (requests w2) \<le> length (requests w) + (if 100 \<le> length (content a) then 1 else 0)"
    by auto
  show ?case
  proof (cases s)
    case (Inl e)
    with Cons.prems run one show ?thesis by auto
  next
    case (Inr x)
    with Cons.prems run have "batch_loop env count (i + 1) (results @ [(a, x)]) as w2 = (r, w')"
      by simp
    from Cons.IH [OF this] one show ?thesis by auto
  qed
qed

section \<open>Properties of the batch\<close>

lemma demo_batch_run:
  "summarize_batch demo_sdk demo_batch 2 demo_world =
     (Inr [(\<lparr>title = u ''A'', content = []\<rparr>, Some no_summary_text),
           (\<lparr>title = u ''B'', content = u ''short''\<rparr>, Some (u ''short''))],
      demo_world\<lparr>printed := [LogProgress 1 2 (u ''A''), LogProgress 2 2 (u ''B'')]\<rparr>)"
  by (simp add: summarize_batch_def demo_batch_def summarize_short demo_world_def)

text \<open>C15: a batch that returns pairs exactly the articles of articles[:max_articles] with their summaries, in input order.\<close>

theorem summarize_batch_prefix_order:
  "summarize_batch env articles n w = (Inr rs, w') \<Longrightarrow> map fst rs = py_slice_to articles n"
  unfolding summarize_batch_def by (simp add: batch_loop_results)

theorem summarize_batch_prefix_order_witness:
  "map fst [(\<lparr>title = u ''A'', content = []\<rparr>, Some no_summary_text),
            (\<lparr>title = u ''B'', content = u ''short''\<rparr>, Some (u ''short''))] = py_slice_to demo_batch 2"
  using summarize_batch_prefix_order [OF demo_batch_run] .

text \<open>C16: for a non-negative max_articles a returning batch has min(len(articles), max_articles) results.\<close>

theorem summarize_batch_length:
  assumes "summarize_batch env articles n w = (Inr rs, w')" and "0 \<le> n"
  shows "length rs = min (length articles) (nat n)"
proof -
  have "map fst rs = py_slice_to articles n"
    using batch_loop_results [OF assms(1) [unfolded summarize_batch_def]] by simp
  then have "length rs = length (py_slice_to articles n)" by (metis length_map)
  with assms(2) show ?thesis by simp
qed

theorem summarize_batch_length_witness:
  "length [(\<lparr>title = u ''A'', content = []\<rparr>, Some no_summary_text),
           (\<lparr>title = u ''B'', content = u ''short''\<rparr>, Some (u ''short''))] = min (length demo_batch) (nat 2)"
  using summarize_batch_length [OF demo_batch_run] by simp

text \<open>C17: for a negative max_articles the slice counts from the end: a returning batch has len(articles) + max_articles results (clipped at 0), not none.\<close>

theorem summarize_batch_negative_limit:
  assumes "summarize_batch env articles n w = (Inr rs, w')" and "n < 0"
  shows "length rs = nat (int (length articles) + n)"
proof -
  have "map fst rs = py_slice_to articles n"
    using batch_loop_results [OF assms(1) [unfolded summarize_batch_def]] by simp
  then have "length rs = length (py_slice_to articles n)" by (metis length_map)
  with assms(2) show ?thesis by (simp add: py_slice_to_neg)
qed

lemma demo_batch_run_neg:
  "summarize_batch demo_sdk demo_batch (-1) demo_world =
     (Inr [(\<lparr>title = u ''A'', content = []\<rparr>, Some no_summary_text),
           (\<lparr>title = u ''B'', content = u ''short''\<rparr>, Some (u ''short''))],
      demo_world\<lparr>printed := [LogProgress 1 (-1) (u ''A''), LogProgress 2 (-1) (u ''B'')]\<rparr>)"
  by (simp add: summarize_batch_def demo_batch_def summarize_short demo_world_def py_slice_to_def)

theorem summarize_batch_negative_limit_witness:
  "length [(\<lparr>title = u ''A'', content = []\<rparr>, Some no_summary_text),
           (\<lparr>title = u ''B'', content = u ''short''\<rparr>, Some (u ''short''))] =
     nat (int (length demo_batch) + (-1))"
  using summarize_batch_negative_limit [OF demo_batch_run_neg] by simp

text \<open>C18: when the template has only {title} and {content} fields and literal text, the batch always returns, whatever the SDKs do.\<close>

theorem summarize_batch_safe_total:
  assumes "safe_template ps" and "prompt_template (obj w) = unparse ps"
  shows "\<exists>rs w'. summarize_batch env articles n w = (Inr rs, w')"
  unfolding summarize_batch_def using batch_loop_safe [OF assms] .

theorem summarize_batch_safe_total_witness:
  "\<exists>rs w'. summarize_batch demo_sdk [demo_article, demo_article] 10
      (demo_world\<lparr>obj := (obj demo_world)\<lparr>prompt_template := u ''{content}''\<rparr>\<rparr>) = (Inr rs, w')"
  using summarize_batch_safe_total [of "[Fld (u ''content'')]"
      "demo_world\<lparr>obj := (obj demo_world)\<lparr>prompt_template := u ''{content}''\<rparr>\<rparr>"]
  by (simp add: safe_template_def)

text \<open>C19: an exception leaves summarize_batch only from an article of the slice with at least 100 code points of content whose prompt fails to render with the configured template.\<close>

theorem summarize_batch_raises_only_on_template:
  "summarize_batch env articles n w = (Inl e, w') \<Longrightarrow>
     \<exists>a \<in> set (py_slice_to articles n).
       100 \<le> length (content a) \<and> render_prompt (prompt_template (obj w)) a = Inl e"
  unfolding summarize_batch_def by (rule batch_loop_raises)

lemma demo_batch_url:
  "summarize_batch demo_sdk [demo_article] 10
      (demo_world\<lparr>obj := (obj demo_world)\<lparr>prompt_template := u ''{url}''\<rparr>\<rparr>) =
     (Inl (KeyError (u ''url'')),
      demo_world\<lparr>obj := (obj demo_world)\<lparr>prompt_template := u ''{url}''\<rparr>,
                 printed := [LogProgress 1 1 (u ''C'')]\<rparr>)"
  by (simp add: summarize_batch_def summarize_long demo_article_def demo_world_def render_prompt_def
      py_format_def parse_field_def render_field_def is_ascii_digit_def)

theorem summarize_batch_raises_only_on_template_witness:
  "\<exists>a \<in> set (py_slice_to [demo_article] 10). 100 \<le> length (content a) \<and>
     render_prompt (prompt_template (obj (demo_world\<lparr>obj := (obj demo_world)\<lparr>prompt_template := u ''{url}''\<rparr>\<rparr>))) a =
       Inl (KeyError (u ''url''))"
  using summarize_batch_raises_only_on_template [OF demo_batch_url] .

text \<open>C20: the lines a returning batch prints are, article by article, the progress line of the article followed by the lines its summary printed, none of which is a progress line.\<close>

theorem summarize_batch_log:
  assumes "summarize_batch env articles n w = (Inr rs, w')"
  shows "\<exists>segs. length segs = length (py_slice_to articles n) \<and>
           list_all (\<lambda>seg. \<not> list_ex is_progress seg) segs \<and>
           printed w' = printed w @
             batch_log (min (int (length articles)) n) 0 (py_slice_to articles n) segs"
  using batch_loop_log [OF assms [unfolded summarize_batch_def]] .

theorem summarize_batch_log_witness:
  "\<exists>segs. length segs = length (py_slice_to demo_batch 2) \<and>
     list_all (\<lambda>seg. \<not> list_ex is_progress seg) segs \<and>
     printed (demo_world\<lparr>printed := [LogProgress 1 2 (u ''A''), LogProgress 2 2 (u ''B'')]\<rparr>) =
       printed demo_world @ batch_log (min (int (length demo_batch)) 2) 0 (py_slice_to demo_batch 2) segs"
  using summarize_batch_log [OF demo_batch_run] .

text \<open>C21: for a non-negative max_articles every progress line of a returning batch has an index from 1 to the number of results, that number as total, and at most 50 code points of title.\<close>

theorem summarize_batch_progress_bounded:
  assumes "summarize_batch env articles n w = (Inr rs, w')" and "0 \<le> n"
  shows "list_all (progress_bounded (int (length rs))) (drop (length (printed w)) (printed w'))"
proof -
  obtain segs where segs: "length segs = length (py_slice_to articles n)"
    "list_all (\<lambda>seg. \<not> list_ex is_progress seg) segs"
    "printed w' = printed w @ batch_log (min (int (length articles)) n) 0 (py_slice_to articles n) segs"
    using batch_loop_log [OF assms(1) [unfolded summarize_batch_def]] by blast
  have "map fst rs = py_slice_to articles n"
    using batch_loop_results [OF assms(1) [unfolded summarize_batch_def]] by simp
  then have len: "int (length rs) = min (int (length articles)) n"
    using assms(2) by (metis length_map length_py_slice_to)
  have "list_all (progress_bounded (int (length rs)))
          (batch_log (int (length rs)) 0 (py_slice_to articles n) segs)"
    using segs(2) len assms(2) \<open>map fst rs = py_slice_to articles n\<close>
    by (intro batch_log_bounded) (auto simp: length_py_slice_to)
  with segs(3) len show ?thesis by simp
qed

theorem summarize_batch_progress_bounded_witness:
  "list_all (progress_bounded 2) [LogProgress 1 2 (u ''A''), LogProgress 2 2 (u ''B'')]"
  using summarize_batch_progress_bounded [OF demo_batch_run] by (simp add: demo_world_def)

text \<open>C22: in the results of a returning batch every article with fewer than 100 code points of content has its content, or the placeholder when it is empty, as summary.\<close>

theorem summarize_batch_short_verbatim:
  "summarize_batch env articles n w = (Inr rs, w') \<Longrightarrow> list_all short_result rs"
  unfolding summarize_batch_def by (erule batch_loop_short) simp

theorem summarize_batch_short_verbatim_witness:
  "list_all short_result [(\<lparr>title = u ''A'', content = []\<rparr>, Some no_summary_text),
           (\<lparr>title = u ''B'', content = u ''short''\<rparr>, Some (u ''short''))]"
  using summarize_batch_short_verbatim [OF demo_batch_run] .

text \<open>C23: a batch, returning or raising, changes the world only by the frame step: configuration unchanged, cache filled only from empty, requests and lines only appended.\<close>

theorem summarize_batch_world_step:
  "summarize_batch env articles n w = (r, w') \<Longrightarrow> world_step w w'"
  unfolding summarize_batch_def by (rule batch_loop_world_step)

theorem summarize_batch_world_step_witness:
  "world_step demo_world (demo_world\<lparr>printed := [LogProgress 1 2 (u ''A''), LogProgress 2 2 (u ''B'')]\<rparr>)"
  using summarize_batch_world_step [OF demo_batch_run] .

text \<open>
  C27: summaries are not cached and not retried: a batch, returning or raising, sends at
  most one request per article of \<^verbatim>\<open>articles[:max_articles]\<close> with at least 100 code
  points of content, and none for the others.
\<close>

theorem summarize_batch_requests_bounded:
  "summarize_batch env articles n w = (r, w') \<Longrightarrow>
     length (requests w') \<le>
       length (requests w) + length (filter (\<lambda>a. 100 \<le> length (content a)) (py_slice_to articles n))"
  unfolding summarize_batch_def by (rule batch_loop_requests)

theorem summarize_batch_requests_bounded_witness:
  "length (requests (snd (summarize_batch demo_sdk (demo_batch @ [demo_article]) 10 demo_world))) \<le> 1"
  using summarize_batch_requests_bounded [of demo_sdk "demo_batch @ [demo_article]" 10 demo_world
      "fst (summarize_batch demo_sdk (demo_batch @ [demo_article]) 10 demo_world)"
      "snd (summarize_batch demo_sdk (demo_batch @ [demo_article]) 10 demo_world)"]
  by (simp add: demo_world_def demo_batch_def demo_article_def)

end
