(* ===== verification/Summary_Spec.thy ===== *)
theory Summary_Spec
  imports Batch
begin

text \<open>
  The contract of the summariser, stated without the monad: what \<^verbatim>\<open>summarize\<close> returns
  is decided by the content length, the rendering of the template and the answer of the
  configured provider to the rendered prompt (\<open>None\<close> when the client cannot be built,
  the call raises, or the response cannot be read). \<open>summary_spec\<close> is this contract for one
  article and \<open>batch_spec\<close> for a batch, where the first exception ends the batch.
  The lemmas show that \<open>summarize\<close> and \<open>summarize_batch\<close> refine these contracts,
  the batch for an SDK whose answers do not depend on how many requests were sent before.
  Last, the response of a Claude call whose first block is not a text block, which the
  specification reads by its first text block and the code by its first block.
\<close>

section \<open>The abstract contract\<close>

text \<open>The client of the configured provider is not cached and cannot be built.\<close>

definition construct_fails :: "sdk \<Rightarrow> summarizer \<Rightarrow> bool" where
  "construct_fails env s \<longleftrightarrow>
     client s = None \<and> (case provider_client s of None \<Rightarrow> False | Some c \<Rightarrow> sdk_construct env c \<noteq> None)"

text \<open>
  The answer of the configured provider to a prompt, for the \<open>k\<close>-th request sent:
  the text, or \<open>None\<close> for every failure the \<^verbatim>\<open>except\<close> clause absorbs, or for an
  unknown provider.
\<close>

definition provider_answer :: "sdk \<Rightarrow> nat \<Rightarrow> summarizer \<Rightarrow> pystr \<Rightarrow> pystr option" where
  "provider_answer env k s p =
     (if construct_fails env s then None
      else if provider s = u ''claude'' then
        (case sdk_messages env k (claude_request s p) of
           Inl e \<Rightarrow> None
         | Inr bs \<Rightarrow> (case first_text bs of Inl e \<Rightarrow> None | Inr t \<Rightarrow> Some t))
      else if provider s = u ''openai'' then
        (case sdk_chat env k (openai_request s p) of
           Inl e \<Rightarrow> None
         | Inr cs \<Rightarrow> (case first_choice_content cs of Inl e \<Rightarrow> None | Inr c \<Rightarrow> c))
      else None)"

text \<open>The result of summarising one article with answer function \<open>ans\<close> and template \<open>tmpl\<close>.\<close>

definition summary_spec :: "(pystr \<Rightarrow> pystr option) \<Rightarrow> pystr \<Rightarrow> article \<Rightarrow> pyexc + pystr option" where
  "summary_spec ans tmpl a =
     (if length (content a) < 100 then Inr (Some (if content a \<noteq> [] then content a else no_summary_text))
      else map_sum id ans (render_prompt tmpl a))"

text \<open>The results of a batch: the summaries in order, or the first exception.\<close>

fun batch_spec ::
  "(pystr \<Rightarrow> pystr option) \<Rightarrow> pystr \<Rightarrow> article list \<Rightarrow> pyexc + (article \<times> pystr option) list" where
  "batch_spec ans tmpl [] = Inr []"
| "batch_spec ans tmpl (a # as) =
     (case summary_spec ans tmpl a of
        Inl e \<Rightarrow> Inl e
      | Inr s \<Rightarrow> map_sum id (Cons (a, s)) (batch_spec ans tmpl as))"

text \<open>An SDK whose answer to a request does not depend on the requests sent before it.\<close>

definition index_free :: "sdk \<Rightarrow> bool" where
  "index_free env \<longleftrightarrow> sdk_messages env = (\<lambda>_. sdk_messages env 0) \<and> sdk_chat env = (\<lambda>_. sdk_chat env 0)"

text \<open>
  The specification's reading of a Claude response (``take the first text block''), and
  an SDK whose Claude responses start with a tool-use block followed by a text block.
\<close>

fun spec_first_text :: "content_block list \<Rightarrow> pystr option" where
  "spec_first_text [] = None"
| "spec_first_text (TextBlock t # bs) = Some t"
| "spec_first_text (OtherBlock k # bs) = spec_first_text bs"

definition demo_sdk_tool :: sdk where
  "demo_sdk_tool = demo_sdk\<lparr>sdk_messages := (\<lambda>_ _. Inr [OtherBlock (u ''tool_use''), TextBlock (u ''ok'')])\<rparr>"

section \<open>Lemmas\<close>

lemma summarize_fst_spec:
  assumes "client_inv (obj w)"
  shows "fst (summarize env a w) =
           summary_spec (provider_answer env (length (requests w)) (obj w)) (prompt_template (obj w)) a"
proof (cases "length (content a) < 100")
  case True
  then show ?thesis by (simp add: summarize_short summary_spec_def)
next
  case long: False
  show ?thesis
  proof (cases "render_prompt (prompt_template (obj w)) a")
    case (Inl e)
    with long show ?thesis by (simp add: summarize_long summary_spec_def)
  next
    case (Inr p)
    consider (claude) "provider (obj w) = u ''claude''" | (openai) "provider (obj w) = u ''openai''"
      | (other) "provider (obj w) \<noteq> u ''claude''" "provider (obj w) \<noteq> u ''openai''"
      by blast
    then show ?thesis
    proof cases
      case claude
      show ?thesis
      proof (cases "construct_fails env (obj w)")
        case True
        with claude long Inr show ?thesis
          by (auto simp: summarize_long summary_spec_def provider_answer_def construct_fails_def
              provider_client_def provider_dispatch_claude summarize_with_claude_def get_claude_client_raises)
      next
        case False
        with claude have ok: "client (obj w) \<noteq> None \<or> sdk_construct env (AnthropicClient (api_key (obj w))) = None"
          by (auto simp: construct_fails_def provider_client_def)
        from False claude long Inr show ?thesis
          by (auto simp: summarize_long summary_spec_def provider_answer_def provider_dispatch_claude
              summarize_with_claude_ok [OF assms claude ok] split: sum.splits)
      qed
    next
      case openai
      show ?thesis
      proof (cases "construct_fails env (obj w)")
        case True
        with openai long Inr show ?thesis
          by (auto simp: summarize_long summary_spec_def provider_answer_def construct_fails_def
              provider_client_def provider_dispatch_openai summarize_with_openai_def get_openai_client_raises)
      next
        case False
        with openai have ok: "client (obj w) \<noteq> None \<or>
            sdk_construct env (OpenAIClient (openai_api_key (obj w)) (openai_api_base (obj w))) = None"
          by (auto simp: construct_fails_def provider_client_def)
        from False openai long Inr show ?thesis
          by (auto simp: summarize_long summary_spec_def provider_answer_def provider_dispatch_openai
              summarize_with_openai_ok [OF assms openai ok] split: sum.splits)
      qed
    next
      case other
      with long Inr show ?thesis
        by (simp add: summarize_long summary_spec_def provider_answer_def provider_dispatch_unknown)
    qed
  qed
qed


lemma summarize_keeps_fails:
  assumes fails: "construct_fails env (obj w)" and run: "summarize env a w = (r, w')"
  shows "client (obj w') = None"
proof -
  from fails obtain c e where none: "client (obj w) = None" and pc: "provider_client (obj w) = Some c"
    and ce: "sdk_construct env c = Some e"
    by (auto simp: construct_fails_def split: option.splits)
  show ?thesis
  proof (cases "length (content a) < 100 \<or> (\<exists>e. render_prompt (prompt_template (obj w)) a = Inl e)")
    case True
    with run none show ?thesis
      by (cases "length (content a) < 100") (auto simp: summarize_short summarize_long)
  next
    case False
    then obtain p where p: "render_prompt (prompt_template (obj w)) a = Inr p" and long: "\<not> length (content a) < 100"
      by (cases "render_prompt (prompt_template (obj w)) a") auto
    from pc have "provider (obj w) = u ''claude'' \<and> c = AnthropicClient (api_key (obj w)) \<or>
        provider (obj w) = u ''openai'' \<and> c = OpenAIClient (openai_api_key (obj w)) (openai_api_base (obj w))"
      by (auto simp: provider_client_def split: if_splits)
    with run none ce p long show ?thesis
      by (auto simp: summarize_long provider_dispatch_claude provider_dispatch_openai
          summarize_with_claude_def summarize_with_openai_def get_claude_client_raises get_openai_client_raises)
  qed
qed

lemma summarize_step_spec:
  assumes inv: "client_inv (obj w)" and run: "summarize env a w = (r, w')"
  shows "client_inv (obj w') \<and> world_step w w' \<and> construct_fails env (obj w') = construct_fails env (obj w)"
proof -
  have step: "world_step w w'" using run by (rule preservesD [OF summarize_preserves])
  then have cfg: "config_of (obj w') = config_of (obj w)" and
    keep: "client (obj w) \<noteq> None \<Longrightarrow> client (obj w') = client (obj w)"
    by (auto simp: world_step_def)
  have inv': "client_inv (obj w')"
  proof (cases "length (content a) < 100 \<or> (\<exists>e. render_prompt (prompt_template (obj w)) a = Inl e)")
    case True
    with run inv show ?thesis
      by (cases "length (content a) < 100") (auto simp: summarize_short summarize_long)
  next
    case False
    then obtain p where p: "render_prompt (prompt_template (obj w)) a = Inr p" and long: "\<not> length (content a) < 100"
      by (cases "render_prompt (prompt_template (obj w)) a") auto
    obtain r1 w1 where d: "provider_dispatch env p w = (r1, w1)" by fastforce
    have "client_inv (obj w1)" using provider_dispatch_client_inv [OF inv d] .
    moreover have "obj w' = obj w1" using run d p long
      by (auto simp: summarize_long split: sum.splits)
    ultimately show ?thesis by simp
  qed
  have "construct_fails env (obj w') = construct_fails env (obj w)"
    using summarize_keeps_fails [OF _ run] keep config_of_eq_provider_client [OF cfg]
    by (cases "client (obj w)") (auto simp: construct_fails_def)
  with inv' step show ?thesis by blast
qed

lemma provider_answer_cong:
  assumes "config_of s' = config_of s" and "construct_fails env s' = construct_fails env s"
  shows "provider_answer env k s' = provider_answer env k s"
proof -
  from config_of_eq_fields [OF assms(1)] have "claude_request s' = claude_request s"
    "openai_request s' = openai_request s" "provider s' = provider s"
    by (simp_all add: fun_eq_iff claude_request_def openai_request_def)
  with assms(2) show ?thesis by (intro ext) (simp add: provider_answer_def)
qed

lemma provider_answer_index_free:
  assumes "index_free env"
  shows "provider_answer env k s = provider_answer env 0 s"
proof -
  from assms have "sdk_messages env k = sdk_messages env 0" "sdk_chat env k = sdk_chat env 0"
    unfolding index_free_def by (metis fun_cong)+
  then show ?thesis by (intro ext) (simp add: provider_answer_def)
qed

lemma batch_loop_refines:
  assumes "index_free env"
  shows "client_inv (obj w) \<Longrightarrow>
    fst (batch_loop env c i results as w) =
      map_sum id (append results) (batch_spec (provider_answer env 0 (obj w)) (prompt_template (obj w)) as)"
proof (induction as arbitrary: i results w)
  case Nil
  then show ?case by simp
next
  case (Cons a as)
  let ?w1 = "w\<lparr>printed := printed w @ [LogProgress (i + 1) c (py_slice_to (title a) 50)]\<rparr>"
  obtain s w2 where run: "summarize env a ?w1 = (s, w2)" by fastforce
  have inv1: "client_inv (obj ?w1)" using Cons.prems by simp
  have spec: "s = summary_spec (provider_answer env 0 (obj w)) (prompt_template (obj w)) a"
    using summarize_fst_spec [OF inv1, of env a] run provider_answer_index_free [OF assms, of "length (requests w)" "obj w"]
    by simp
  from summarize_step_spec [OF inv1 run] have inv2: "client_inv (obj w2)"
    and same: "provider_answer env 0 (obj w2) = provider_answer env 0 (obj w)"
      "prompt_template (obj w2) = prompt_template (obj w)"
    by (auto simp: world_step_def world_step_template intro: provider_answer_cong)
  show ?case
  proof (cases s)
    case (Inl e)
    with spec have "summary_spec (provider_answer env 0 (obj w)) (prompt_template (obj w)) a = Inl e"
      by simp
    with run Inl show ?thesis by simp
  next
    case (Inr x)
    with spec have ss: "summary_spec (provider_answer env 0 (obj w)) (prompt_template (obj w)) a = Inr x"
      by simp
    from run Inr ss Cons.IH [OF inv2, of "i + 1" "results @ [(a, x)]"] same show ?thesis
      by (cases "batch_spec (provider_answer env 0 (obj w)) (prompt_template (obj w)) as") simp_all
  qed
qed

section \<open>Refinement properties\<close>

text \<open>
  C24: one call of \<^verbatim>\<open>summarize\<close> from a state with the cache invariant returns what the
  abstract contract \<open>summary_spec\<close> gives for the configured provider's answer to the
  request it would send, keeps the invariant and is a frame step of the world.
\<close>

theorem summarize_simulates_spec:
  assumes "client_inv (obj w)" and "summarize env a w = (r, w')"
  shows "r = summary_spec (provider_answer env (length (requests w)) (obj w)) (prompt_template (obj w)) a \<and>
         client_inv (obj w') \<and> world_step w w'"
  using summarize_fst_spec [OF assms(1), of env a] summarize_step_spec [OF assms] assms(2) by simp

theorem summarize_simulates_spec_witness:
  "fst (summarize demo_sdk demo_article demo_world) =
     summary_spec (provider_answer demo_sdk (length (requests demo_world)) (obj demo_world))
       (prompt_template (obj demo_world)) demo_article \<and>
   client_inv (obj (snd (summarize demo_sdk demo_article demo_world))) \<and>
   world_step demo_world (snd (summarize demo_sdk demo_article demo_world))"
  using summarize_simulates_spec [of demo_world demo_sdk demo_article
      "fst (summarize demo_sdk demo_article demo_world)" "snd (summarize demo_sdk demo_article demo_world)"]
    demo_world_facts
  by simp

text \<open>
  C25: for an SDK whose answers do not depend on the number of requests sent before,
  \<^verbatim>\<open>summarize_batch\<close> from a state with the cache invariant returns what \<open>batch_spec\<close>
  gives for \<^verbatim>\<open>articles[:max_articles]\<close>: each article paired with its abstract summary, in
  order, or the first exception of the template.
\<close>

theorem summarize_batch_refines_spec:
  assumes "index_free env" and "client_inv (obj w)"
  shows "fst (summarize_batch env articles n w) =
           batch_spec (provider_answer env 0 (obj w)) (prompt_template (obj w)) (py_slice_to articles n)"
  using batch_loop_refines [OF assms, of "min (int (length articles)) n" 0 "[]" "py_slice_to articles n"]
  by (simp add: summarize_batch_def)

theorem summarize_batch_refines_spec_witness:
  "fst (summarize_batch demo_sdk (demo_batch @ [demo_article]) 10 demo_world) =
     batch_spec (provider_answer demo_sdk 0 (obj demo_world)) (prompt_template (obj demo_world))
       (py_slice_to (demo_batch @ [demo_article]) 10)"
  using summarize_batch_refines_spec [of demo_sdk demo_world "demo_batch @ [demo_article]" 10]
    demo_world_facts
  by (simp add: index_free_def demo_sdk_def)

text \<open>
  C26: a Claude response whose first content block is not a text block (a tool-use block)
  followed by a text block: the code reads \<^verbatim>\<open>message.content[0].text\<close>, raises
  \<^verbatim>\<open>AttributeError\<close>, prints an error line and returns \<open>None\<close>, while the specification's
  ``first text block'' of the same response is the text.
\<close>

theorem summarize_claude_first_block_not_text:
  assumes "100 \<le> length (content a)" and "provider (obj w) = u ''claude''"
    and "client_inv (obj w)" and "sdk_construct env (AnthropicClient (api_key (obj w))) = None"
    and "render_prompt (prompt_template (obj w)) a = Inr p"
    and "sdk_messages env (length (requests w)) (claude_request (obj w) p) =
           Inr (OtherBlock k # TextBlock t # bs)"
  shows "summarize env a w =
           (Inr None, (claude_sent w p)\<lparr>printed := printed w @
              [LogSummaryFailed (title a) (AttributeError (u ''content block has no attribute text''))]\<rparr>) \<and>
         spec_first_text (OtherBlock k # TextBlock t # bs) = Some t"
  using assms
  by (simp add: summarize_long provider_dispatch_claude summarize_with_claude_ok claude_sent_def)

theorem summarize_claude_first_block_not_text_witness:
  "summarize demo_sdk_tool demo_article demo_world =
     (Inr None, (claude_sent demo_world demo_prompt)\<lparr>printed := printed demo_world @
        [LogSummaryFailed (u ''C'') (AttributeError (u ''content block has no attribute text''))]\<rparr>) \<and>
   spec_first_text [OtherBlock (u ''tool_use''), TextBlock (u ''ok'')] = Some (u ''ok'')"
  using summarize_claude_first_block_not_text [of demo_article demo_world demo_sdk_tool demo_prompt
      "u ''tool_use''" "u ''ok''" "[]"]
    render_demo_article demo_world_facts
  by (simp add: demo_sdk_tool_def demo_sdk_def demo_article_def)

end
