(* ===== verification/Prompt_Render.thy ===== *)
theory Prompt_Render
  imports Summarize
begin

text \<open>
  The prompt of \<^verbatim>\<open>summarize\<close>: \<^verbatim>\<open>self.prompt_template.format(title=..., content=...)\<close>
  on a configured \<^verbatim>\<open>summary_prompt\<close>. The lemmas carry the properties of the
  \<^verbatim>\<open>str.format\<close> model to the prompt, with the article's title and content bound: a
  template of text and named fields renders by plain substitution, a single brace makes
  \<^verbatim>\<open>summarize\<close> itself raise \<^verbatim>\<open>ValueError\<close>, since the formatting is outside the
  \<^verbatim>\<open>try\<close>, and precision, padding, \<^verbatim>\<open>!a\<close> and indexing act on the bound value.
\<close>

text \<open>The keyword arguments the prompt is formatted with.\<close>

definition prompt_kw :: "article \<Rightarrow> pystr \<rightharpoonup> pystr" where
  "prompt_kw a = [u ''title'' \<mapsto> title a, u ''content'' \<mapsto> content a]"

text \<open>A template with a literal brace pair and both fields, as a user might configure it.\<close>

definition demo_pieces :: "tpiece list" where
  "demo_pieces = [Lit lbrace, Fld (u ''title''), Lit rbrace, Lit 10, Fld (u ''content'')]"

text \<open>\<^verbatim>\<open>_default_prompt\<close> as pieces: its three texts around the two fields.\<close>

definition default_pieces :: "tpiece list" where
  "default_pieces = map Lit default_prompt_head @ [Fld (u ''title'')] @ map Lit default_prompt_mid @
     [Fld (u ''content'')] @ map Lit default_prompt_tail"

section \<open>Lemmas\<close>

text \<open>The default prompt is a safe template: no literal brace, only the two fields.\<close>

lemma default_prompt_pieces: "default_prompt = unparse default_pieces" "safe_template default_pieces"
  by (simp_all add: default_pieces_def default_prompt_def default_prompt_head_def default_prompt_mid_def
      default_prompt_tail_def safe_template_def)

lemma content_plain: "plain_name (u ''content'')"
  and title_plain: "plain_name (u ''title'')"
  by (simp_all add: plain_name_def is_ascii_digit_def)

section \<open>Properties of the prompt\<close>

text \<open>
  C28: a configured prompt made of literal text and plain named fields renders exactly as
  the reference substitution \<open>expand\<close> with the article's title and content: each field
  replaced by its value, the first field other than \<^verbatim>\<open>title\<close> and \<^verbatim>\<open>content\<close>
  raising \<^verbatim>\<open>KeyError\<close>.
\<close>

theorem render_prompt_expand:
  "list_all plain_piece ps \<Longrightarrow> render_prompt (unparse ps) a = expand (prompt_kw a) ps"
  by (simp add: render_prompt_def prompt_kw_def py_format_unparse_expand)

theorem render_prompt_expand_witness:
  "render_prompt (unparse demo_pieces) demo_article = expand (prompt_kw demo_article) demo_pieces \<and>
   expand (prompt_kw demo_article) demo_pieces =
     Inr ([lbrace] @ u ''C'' @ [rbrace, 10] @ replicate 200 120)"
  using render_prompt_expand [of demo_pieces demo_article]
  by (simp add: demo_pieces_def prompt_kw_def plain_name_def is_ascii_digit_def demo_article_def)

text \<open>
  C29: a configured prompt that is well formed up to a single closing or opening brace
  makes \<^verbatim>\<open>summarize\<close> raise \<^verbatim>\<open>ValueError\<close> to its caller for every article with at
  least 100 code points, leaving the world unchanged: nothing is sent and nothing printed.
\<close>

theorem summarize_stray_brace_raises:
  assumes "100 \<le> length (content a)" and "list_all plain_piece ps"
    and "expand (prompt_kw a) ps = Inr s" and "b = rbrace \<or> b = lbrace"
    and "prompt_template (obj w) = unparse ps @ [b]"
  shows "\<exists>msg. summarize env a w = (Inl (ValueError msg), w)"
proof -
  from py_format_stray_brace [OF assms(2,3)] assms(4)
  obtain msg where "render_prompt (unparse ps @ [b]) a = Inl (ValueError msg)"
    by (auto simp: render_prompt_def prompt_kw_def)
  with assms(1,5) show ?thesis by (auto simp: summarize_long)
qed

theorem summarize_stray_brace_raises_witness:
  "\<exists>msg. summarize demo_sdk demo_article
      (demo_world\<lparr>obj := (obj demo_world)\<lparr>prompt_template := u ''{title}}''\<rparr>\<rparr>) =
     (Inl (ValueError msg), demo_world\<lparr>obj := (obj demo_world)\<lparr>prompt_template := u ''{title}}''\<rparr>\<rparr>)"
  using summarize_stray_brace_raises [of demo_article "[Fld (u ''title'')]" "u ''C''" rbrace
      "demo_world\<lparr>obj := (obj demo_world)\<lparr>prompt_template := u ''{title}}''\<rparr>\<rparr>" demo_sdk]
  by (simp add: demo_article_def prompt_kw_def plain_name_def is_ascii_digit_def)

text \<open>
  C33: a configured prompt \<^verbatim>\<open>{content:.N}\<close> cuts the content to its first \<open>N\<close> code
  points when \<open>N\<close> fits in a \<^verbatim>\<open>Py_ssize_t\<close>, and raises \<^verbatim>\<open>ValueError\<close> ("Too many
  decimal digits") as soon as \<open>N\<close> exceeds \<^verbatim>\<open>PY_SSIZE_T_MAX\<close> = 2^63 - 1.
\<close>

theorem render_prompt_precision:
  assumes "list_all is_ascii_digit ds" and "ds \<noteq> []"
  shows "render_prompt (u ''{content:.'' @ ds @ u ''}'') a =
           (if dec_val ds \<le> PY_SSIZE_T_MAX then Inr (take (nat (dec_val ds)) (content a))
            else Inl (ValueError (u ''Too many decimal digits in format string'')))"
proof -
  have t: "u ''{content:.'' @ ds @ u ''}'' = lbrace # u ''content'' @ colon # (46 # ds) @ rbrace # []"
    by simp
  have nb: "list_all (\<lambda>c. c \<noteq> lbrace \<and> c \<noteq> rbrace) (46 # ds)"
    using assms(1) by (auto simp: list_all_iff is_ascii_digit_def)
  have "render_prompt (u ''{content:.'' @ ds @ u ''}'') a = str_format_spec (content a) (46 # ds)"
    unfolding render_prompt_def py_format_def t fmt_loop_field_spec [OF content_plain nb]
    by (simp split: sum.split)
  with assms show ?thesis by (simp add: str_format_spec_precision)
qed

theorem render_prompt_precision_witness:
  "render_prompt (u ''{content:.'' @ u ''3'' @ u ''}'') demo_article = Inr (replicate 3 120) \<and>
   render_prompt (u ''{content:.'' @ u ''9999999999999999999'' @ u ''}'') demo_article =
     Inl (ValueError (u ''Too many decimal digits in format string''))"
  using render_prompt_precision [of "u ''3''" demo_article]
    render_prompt_precision [of "u ''9999999999999999999''" demo_article]
  by (simp add: is_ascii_digit_def dec_val_def PY_SSIZE_T_MAX_def demo_article_def)

text \<open>
  C34: a configured prompt \<^verbatim>\<open>{content:spec}\<close> with a specification a string accepts
  renders the content cut to the precision and padded with the fill character to the
  width: on the right for \<^verbatim>\<open><\<close> (the default), on the left for \<^verbatim>\<open>>\<close>, on both
  sides for \<^verbatim>\<open>^\<close> with the odd character on the right; CPython's fast path and its
  padding path both give this layout.
\<close>

theorem render_prompt_field_spec:
  assumes "list_all (\<lambda>c. c \<noteq> lbrace \<and> c \<noteq> rbrace) spec" and "spec \<noteq> []"
    and "parse_format_spec 115 60 (u ''str'') spec = Inr f" and "sp_type f = 115"
    and "sp_sign f = None" and "\<not> sp_no_neg_0 f" and "\<not> sp_alternate f" and "sp_align f \<noteq> 61"
  shows "render_prompt (lbrace # u ''content'' @ colon # spec @ [rbrace]) a =
           Inr (str_layout (sp_fill f) (sp_align f) (nat (sp_width f))
                  (if 0 \<le> sp_precision f then take (nat (sp_precision f)) (content a) else content a))"
proof -
  have wf: "spec_wf f" by (rule parse_format_spec_wf [OF assms(3)])
  have "str_format_spec (content a) spec = Inr (pad_layout f (content a))"
    using assms(2-4) format_fast_path_eq [OF wf assms(5-8)]
    by (simp add: str_format_spec_def)
  then show ?thesis
    unfolding render_prompt_def py_format_def fmt_loop_field_spec [OF content_plain assms(1)]
    by (simp add: pad_layout_str_layout [OF wf])
qed

theorem render_prompt_field_spec_witness:
  "render_prompt (lbrace # u ''content'' @ colon # u ''*^7'' @ [rbrace]) \<lparr>title = u ''T'', content = u ''abc''\<rparr> =
     Inr (u ''**abc**'')"
proof -
  have r2: "replicate 2 c = [c, c]" for c :: codepoint by (simp add: numeral_2_eq_2)
  have "str_layout 42 94 7 (u ''abc'') = u ''**abc**''" by (simp add: str_layout_def r2)
  then show ?thesis
    using render_prompt_field_spec [of "u ''*^7''" "\<lparr>sp_fill = 42, sp_align = 94, sp_alternate = False,
        sp_no_neg_0 = False, sp_sign = None, sp_width = 7, sp_thousands = LT_NO_LOCALE, sp_precision = -1,
        sp_type = 115\<rparr>" "\<lparr>title = u ''T'', content = u ''abc''\<rparr>"]
    by (simp add: parse_format_spec_def align_prefix_def opt_char_def is_alignment_token_def
        is_sign_element_def get_integer_def is_ascii_digit_def parse_precision_def thousands_ok_def
        PY_SSIZE_T_MAX_def)
qed

text \<open>
  C36: a configured prompt \<^verbatim>\<open>{title!a}\<close> renders the title as \<^verbatim>\<open>ascii(title)\<close>:
  pure ASCII text that, read as a Python string literal, gives back the title exactly,
  whatever characters (Chinese text, quotes, control characters) it holds.
\<close>

theorem render_prompt_ascii_roundtrip:
  assumes "list_all (\<lambda>c. c < 1114112) (title a)"
  shows "render_prompt (u ''{title!a}'') a = Inr (py_ascii (title a)) \<and>
         list_all (\<lambda>c. c < 128) (py_ascii (title a)) \<and>
         py_literal_value (py_ascii (title a)) = Some (title a)"
proof -
  have t: "u ''{title!a}'' = lbrace # u ''title'' @ bang # 97 # rbrace # []" by simp
  have "fmt_loop (prompt_kw a) (lbrace # u ''title'' @ bang # 97 # rbrace # []) =
          map_sum id (append (py_ascii (title a))) (fmt_loop (prompt_kw a) [])"
    by (subst fmt_loop_field_conv [OF title_plain]) (simp_all add: prompt_kw_def do_conversion_def)
  then have "render_prompt (u ''{title!a}'') a = Inr (py_ascii (title a))"
    unfolding render_prompt_def py_format_def t prompt_kw_def by simp
  with assms show ?thesis
    by (simp add: py_ascii_literal list_all_iff py_ascii_ascii)
qed

theorem render_prompt_ascii_roundtrip_witness:
  "render_prompt (u ''{title!a}'') \<lparr>title = [20013, 39, 10], content = []\<rparr> =
     Inr (py_ascii [20013, 39, 10]) \<and>
   py_ascii [20013, 39, 10] = [34, 92, 117, 52, 101, 50, 100, 39, 92, 110, 34] \<and>
   list_all (\<lambda>c. c < 128) (py_ascii [20013, 39, 10]) \<and>
   py_literal_value (py_ascii [20013, 39, 10]) = Some [20013, 39, 10]"
  using render_prompt_ascii_roundtrip [of "\<lparr>title = [20013, 39, 10], content = []\<rparr>"]
  by (simp add: py_ascii_def repr_quote_def ascii_escape_def hex_digit_def)

text \<open>
  C37: a configured prompt \<^verbatim>\<open>{title[i]}\<close> renders the \<open>i\<close>-th code point of the title
  when \<open>i\<close> is less than its length, and otherwise raises out of \<^verbatim>\<open>summarize\<close>:
  \<^verbatim>\<open>IndexError\<close> ("string index out of range") for an index past the end,
  \<^verbatim>\<open>ValueError\<close> ("Too many decimal digits") for one above \<^verbatim>\<open>PY_SSIZE_T_MAX\<close>.
\<close>

theorem render_prompt_title_index:
  assumes "list_all is_ascii_digit ds" and "ds \<noteq> []"
  shows "render_prompt (u ''{title['' @ ds @ u '']}'') a =
           (if dec_val ds \<le> PY_SSIZE_T_MAX then
              (if dec_val ds < int (length (title a)) then Inr [title a ! nat (dec_val ds)]
               else Inl (IndexError (u ''string index out of range'')))
            else Inl (ValueError (u ''Too many decimal digits in format string'')))"
proof -
  have t: "u ''{title['' @ ds @ u '']}'' = lbrace # u ''title'' @ lbrack # ds @ rbrack # rbrace # []"
    by simp
  show ?thesis
    unfolding render_prompt_def py_format_def t fmt_loop_field_index [OF title_plain assms]
    by (simp add: prompt_kw_def)
qed

theorem render_prompt_title_index_witness:
  "render_prompt (u ''{title['' @ u ''1'' @ u '']}'') \<lparr>title = u ''Hello'', content = []\<rparr> = Inr (u ''e'') \<and>
   render_prompt (u ''{title['' @ u ''9'' @ u '']}'') \<lparr>title = u ''Hello'', content = []\<rparr> =
     Inl (IndexError (u ''string index out of range'')) \<and>
   render_prompt (u ''{title['' @ u ''99999999999999999999'' @ u '']}'') \<lparr>title = u ''Hello'', content = []\<rparr> =
     Inl (ValueError (u ''Too many decimal digits in format string''))"
  using render_prompt_title_index [of "u ''1''" "\<lparr>title = u ''Hello'', content = []\<rparr>"]
    render_prompt_title_index [of "u ''9''" "\<lparr>title = u ''Hello'', content = []\<rparr>"]
    render_prompt_title_index [of "u ''99999999999999999999''" "\<lparr>title = u ''Hello'', content = []\<rparr>"]
  by (simp add: is_ascii_digit_def dec_val_def PY_SSIZE_T_MAX_def)

end
