(* ===== verification/Request_Wf.thy ===== *)
theory Request_Wf
  imports Summary_Spec
begin

text \<open>
  The type of the requests the summariser sends. A request is well formed for a
  configuration when it goes to the endpoint of the configured provider, on the client
  that provider builds from the configured credentials, with the provider's configured
  model, \<^verbatim>\<open>max_tokens=500\<close> and a single message of role \<^verbatim>\<open>user\<close>. A world is well
  typed when its cache invariant holds and every request it has sent is well formed.
  The lemmas: each call of \<^verbatim>\<open>summarize\<close> appends only well-formed requests, well-formedness
  depends on the configuration only, and so a batch keeps the world well typed.
\<close>

section \<open>Well-formed requests and well-typed worlds\<close>

definition request_wf :: "summarizer \<Rightarrow> api_request \<Rightarrow> bool" where
  "request_wf s rq \<longleftrightarrow>
     provider_client s = Some (rq_client rq) \<and>
     (case rq_client rq of
        AnthropicClient k \<Rightarrow> rq_endpoint rq = MessagesCreate \<and> rq_model rq = model s
      | OpenAIClient k b \<Rightarrow> rq_endpoint rq = ChatCompletionsCreate \<and> rq_model rq = openai_model s) \<and>
     rq_max_tokens rq = 500 \<and> map fst (rq_messages rq) = [u ''user'']"

definition world_wf :: "world \<Rightarrow> bool" where
  "world_wf w \<longleftrightarrow> client_inv (obj w) \<and> list_all (request_wf (obj w)) (requests w)"

section \<open>Lemmas\<close>

lemma request_wf_config:
  "config_of s' = config_of s \<Longrightarrow> request_wf s' = request_wf s"
  using config_of_eq_fields [of s' s] config_of_eq_provider_client [of s' s]
  by (intro ext) (simp add: request_wf_def split: client.split)

lemma claude_request_wf:
  "provider s = u ''claude'' \<Longrightarrow> request_wf s (claude_request s p)"
  and openai_request_wf:
  "provider s = u ''openai'' \<Longrightarrow> request_wf s (openai_request s p)"
  by (simp_all add: request_wf_def claude_request_def openai_request_def provider_client_def)

lemma summarize_requests_wf:
  assumes inv: "client_inv (obj w)" and run: "summarize env a w = (r, w')"
  shows "\<exists>rs. requests w' = requests w @ rs \<and> list_all (request_wf (obj w)) rs"
proof (cases "length (content a) < 100 \<or> (\<exists>e. render_prompt (prompt_template (obj w)) a = Inl e)")
  case True
  with run show ?thesis
    by (cases "length (content a) < 100") (auto simp: summarize_short summarize_long)
next
  case False
  then obtain p where p: "render_prompt (prompt_template (obj w)) a = Inr p"
    and long: "\<not> length (content a) < 100"
    by (cases "render_prompt (prompt_template (obj w)) a") auto
  consider (claude) "provider (obj w) = u ''claude''" | (openai) "provider (obj w) = u ''openai''"
    | (other) "provider (obj w) \<noteq> u ''claude''" "provider (obj w) \<noteq> u ''openai''"
    by blast
  then show ?thesis
  proof cases
    case claude
    show ?thesis
    proof (cases "client (obj w) = None \<and> sdk_construct env (AnthropicClient (api_key (obj w))) \<noteq> None")
      case True
      with run claude p long show ?thesis
        by (auto simp: summarize_long provider_dispatch_claude summarize_with_claude_def
            get_claude_client_raises)
    next
      case False
      with run claude p long inv show ?thesis
        by (auto simp: summarize_long provider_dispatch_claude summarize_with_claude_ok claude_sent_def
            claude_request_wf split: sum.splits)
    qed
  next
    case openai
    show ?thesis
    proof (cases "client (obj w) = None \<and>
        sdk_construct env (OpenAIClient (openai_api_key (obj w)) (openai_api_base (obj w))) \<noteq> None")
      case True
      with run openai p long show ?thesis
        by (auto simp: summarize_long provider_dispatch_openai summarize_with_openai_def
            get_openai_client_raises)
    next
      case False
      with run openai p long inv show ?thesis
        by (auto simp: summarize_long provider_dispatch_openai summarize_with_openai_ok openai_sent_def
            openai_request_wf split: sum.splits)
    qed
  next
    case other
    with run p long show ?thesis by (auto simp: summarize_long provider_dispatch_unknown)
  qed
qed

lemma summarize_world_wf:
  assumes wf: "world_wf w" and run: "summarize env a w = (r, w')"
  shows "world_wf w'"
proof -
  from wf have inv: "client_inv (obj w)" by (simp add: world_wf_def)
  from summarize_step_spec [OF inv run] have inv': "client_inv (obj w')" and "world_step w w'"
    by auto
  then have "request_wf (obj w') = request_wf (obj w)"
    by (intro request_wf_config) (simp add: world_step_def)
  moreover from summarize_requests_wf [OF inv run] obtain rs where
    "requests w' = requests w @ rs" "list_all (request_wf (obj w)) rs"
    by blast
  ultimately show ?thesis using wf inv' by (simp add: world_wf_def)
qed

lemma batch_loop_world_wf:
  "batch_loop env count i results as w = (r, w') \<Longrightarrow> world_wf w \<Longrightarrow> world_wf w'"
proof (induction as arbitrary: i results w)
  case Nil
  then show ?case by simp
next
  case (Cons a as)
  let ?w1 = "w\<lparr>printed := printed w @ [LogProgress (i + 1) count (py_slice_to (title a) 50)]\<rparr>"
  obtain s w2 where run: "summarize env a ?w1 = (s, w2)" by fastforce
  have "world_wf ?w1" using Cons.prems(2) by (simp add: world_wf_def)
  from this run have wf2: "world_wf w2" by (rule summarize_world_wf)
  show ?case
  proof (cases s)
    case (Inl e)
    with Cons.prems(1) run wf2 show ?thesis by simp
  next
    case (Inr x)
    with Cons.prems(1) run have "batch_loop env count (i + 1) (results @ [(a, x)]) as w2 = (r, w')"
      by simp
    from Cons.IH [OF this wf2] show ?thesis .
  qed
qed

section \<open>The type of the world under a batch\<close>

text \<open>
  C35: a batch, returning or raising, keeps the world well typed: the cache invariant
  holds after it and every request sent, before or during the batch, goes to the
  configured provider's endpoint on its own client with its configured model, 500 tokens
  and one user message.
\<close>

theorem summarize_batch_world_wf:
  "world_wf w \<Longrightarrow> summarize_batch env articles n w = (r, w') \<Longrightarrow> world_wf w'"
  unfolding summarize_batch_def by (rule batch_loop_world_wf)

theorem summarize_batch_world_wf_witness:
  "world_wf (snd (summarize_batch demo_sdk (demo_batch @ [demo_article, demo_article]) 10 demo_world))"
  using summarize_batch_world_wf [of demo_world demo_sdk "demo_batch @ [demo_article, demo_article]" 10
      "fst (summarize_batch demo_sdk (demo_batch @ [demo_article, demo_article]) 10 demo_world)"
      "snd (summarize_batch demo_sdk (demo_batch @ [demo_article, demo_article]) 10 demo_world)"]
    demo_world_facts
  by (simp add: world_wf_def demo_world_def)

end
