(* ===== verification/Spec2Isabelle.thy ===== *)
theory Spec2Isabelle
  imports Summary_Spec Prompt_Render Request_Wf
begin

text \<open>
  A verification development of \<^verbatim>\<open>src/rss_reader/summarizer.py\<close>, the module of the RSS
  reader that summarises articles with a hosted language model. The module is one class,
  \<^verbatim>\<open>Summarizer\<close>: the constructor reads a configuration dictionary; two getters build
  and cache the client of the configured provider (Anthropic or OpenAI); two methods send
  one chat request each; \<^verbatim>\<open>summarize\<close> returns short content unchanged, formats the
  configured prompt with \<^verbatim>\<open>str.format\<close>, dispatches on the provider inside a
  \<^verbatim>\<open>try\<close> whose handler prints the error and returns \<^verbatim>\<open>None\<close>;
  \<^verbatim>\<open>summarize_batch\<close> loops over \<^verbatim>\<open>articles[:max_articles]\<close>, printing a progress
  line before each call of \<^verbatim>\<open>summarize\<close>.

  \<^bold>\<open>Theories and how they correspond to the code.\<close>
  \<^item> \<open>Prelude\<close>: Python strings as code-point lists (\<open>pystr\<close>), the exceptions
    (\<open>pyexc\<close>), an exception-state monad \<open>('s, 'a) pyM\<close> (\<open>returnM\<close>, \<open>raiseM\<close>,
    \<open>bindM\<close>, \<open>tryM\<close> for \<^verbatim>\<open>try/except Exception\<close>, \<open>getsM\<close>, \<open>modifyM\<close>) in
    which every method is a function from the state to a result and the new state, and
    \<open>preserves R m\<close> with its composition rules, by which a relation on states is carried
    through a method. \<open>dict_get\<close> is \<^verbatim>\<open>dict.get\<close>, \<open>py_slice_to\<close> is \<^verbatim>\<open>xs[:n]\<close>
    with Python's treatment of negative and large \<open>n\<close>.
  \<^item> \<open>Format_Spec\<close>: the format-specification mini-language of a \<^verbatim>\<open>str\<close>
    value as CPython 3.12 parses and applies it (\<^verbatim>\<open>formatter_unicode.c\<close>):
    \<open>get_integer\<close> with its \<^verbatim>\<open>Py_ssize_t\<close> overflow test, the record
    \<open>format_spec\<close> (\<^verbatim>\<open>InternalFormatSpec\<close>), \<open>parse_format_spec\<close>
    (\<^verbatim>\<open>parse_internal_render_format_spec\<close>) with every \<^verbatim>\<open>ValueError\<close> of it,
    \<open>format_string_internal\<close> with its fast path, \<open>calc_padding\<close> and the padding
    path \<open>pad_layout\<close>; and \<open>str_layout\<close>, the layout the language reference describes,
    written independently as the reference the padding path is proved to meet.
  \<^item> \<open>Py_Repr\<close>: \<^verbatim>\<open>repr()\<close> and \<^verbatim>\<open>ascii()\<close> of a string (\<open>repr_quote\<close>,
    \<open>ascii_escape\<close>, \<open>py_ascii\<close>, \<open>py_repr\<close> from \<^verbatim>\<open>unicode_repr\<close> and
    backslashreplace), \<open>do_conversion\<close> (\<^verbatim>\<open>!s\<close>, \<^verbatim>\<open>!r\<close>, \<^verbatim>\<open>!a\<close> and the
    error for any other letter), and \<open>py_literal_value\<close>, a reader of Python string
    literals, by which \<^verbatim>\<open>ascii()\<close> is shown to be invertible.
  \<^item> \<open>Py_Format\<close>: \<^verbatim>\<open>str.format\<close> with keyword arguments, as CPython 3.12's
    \<^verbatim>\<open>MarkupIterator_next\<close>, \<^verbatim>\<open>parse_field\<close>, \<^verbatim>\<open>field_name_split\<close>,
    \<^verbatim>\<open>FieldNameIterator\<close> and \<^verbatim>\<open>get_field_object\<close> do it (\<open>fmt_loop\<close>;
    \<open>parse_field\<close> with \<open>field_name_scan\<close>, \<open>parse_after_name\<close>, \<open>parse_spec\<close>
    and the nesting count \<open>field_end\<close>, which read the field directly from the template
    as 3.12 does, with no pre-scan for its closing brace; \<open>render_field\<close>,
    \<open>access_chain\<close> for \<^verbatim>\<open>.name\<close> and \<^verbatim>\<open>[index]\<close> on a \<^verbatim>\<open>str\<close>), raising
    \<^verbatim>\<open>KeyError\<close>, \<^verbatim>\<open>IndexError\<close>, \<^verbatim>\<open>ValueError\<close>, \<^verbatim>\<open>AttributeError\<close> and
    \<^verbatim>\<open>TypeError\<close> in CPython's order; a reference semantics \<open>expand\<close> on templates
    given as pieces, and \<open>fmt_escape\<close>. This code (and that of the two theories above) is
    the Python runtime, not the repository: it is modelled from CPython 3.12's behaviour and
    marked so in the manifest.
  \<^item> \<open>Summarizer_Object\<close>: \<open>summarizer\<close> (the instance fields), \<open>summarizer_init\<close>
    (\<^verbatim>\<open>__init__\<close>), \<open>default_prompt\<close> (\<^verbatim>\<open>_default_prompt\<close>), \<open>client\<close>,
    \<open>log_line\<close> (the three \<^verbatim>\<open>print\<close> calls), \<open>api_request\<close>, and the state
    \<open>world\<close>: the object, the requests sent, the lines printed. The SDKs are an
    environment \<open>sdk\<close> that says whether a client can be built and what the \<open>n\<close>-th
    request returns or raises.
  \<^item> \<open>Client_Cache\<close>: \<open>get_claude_client\<close> and \<open>get_openai_client\<close>
    (\<^verbatim>\<open>_get_claude_client\<close>, \<^verbatim>\<open>_get_openai_client\<close>); the cache invariant
    \<open>client_inv\<close> and the frame relation \<open>world_step\<close> (configuration unchanged, cache
    written only when empty, requests and lines only appended).
  \<^item> \<open>Summarize\<close>: \<open>messages_create\<close>, \<open>chat_completions_create\<close>,
    \<open>first_text\<close>, \<open>first_choice_content\<close>, \<open>summarize_with_claude\<close>,
    \<open>summarize_with_openai\<close>, \<open>render_prompt\<close> (the \<^verbatim>\<open>format\<close> call),
    \<open>provider_dispatch\<close> (the body of the \<^verbatim>\<open>try\<close>), \<open>report_failure\<close> (the
    \<^verbatim>\<open>except\<close> clause) and \<open>summarize\<close>, composed with \<open>bindM\<close> and \<open>tryM\<close> in
    the order of the source. Claims C1 to C14.
  \<^item> \<open>Batch\<close>: \<open>batch_loop\<close> (the \<^verbatim>\<open>for\<close> loop), \<open>summarize_batch\<close> and
    \<open>summarize_batch_default\<close>; the specification \<open>batch_log\<close> of the printed lines.
    Claims C15 to C23 and C27.
  \<^item> \<open>Summary_Spec\<close>: the abstract contract (\<open>provider_answer\<close>, \<open>summary_spec\<close>,
    \<open>batch_spec\<close>) and the refinement of \<open>summarize\<close> and \<open>summarize_batch\<close>
    into it (C24, C25); the first-block reading of Claude responses (C26).
  \<^item> \<open>Prompt_Render\<close>: the prompt formatting of \<open>summarize\<close> on configured
    templates: plain fields and single braces (C28, C29), precision and format
    specifications (C33, C34), \<^verbatim>\<open>!a\<close> (C36), indexing of the title (C37).
  \<^item> \<open>Request_Wf\<close>: the well-typedness of the requests a batch sends (C35).
  \<^item> This root theory: C30, from the constructor's configuration to the request sent,
    C31, on the default batch with the default prompt, and C32, that every article of the
    slice is processed.

  \<^bold>\<open>What the lemmas show.\<close> Each branch of \<open>summarize\<close>: short and empty content
  (C1, C2), each provider's request and answer (C3, C4), an unknown provider (C5), every
  exception of the provider path absorbed and logged (C6, C7), and exactly the template
  errors escaping to the caller (C8, C9, C29), so that a template of text and the two
  fields never raises (C10). The cache invariant and the frame of every call (C12, C13);
  summaries are not memoised but the client is, and the second call builds none (C14).
  \<^verbatim>\<open>__init__\<close> reads the provider, model, key and prompt that the request then carries,
  with the source's defaults (C30). For the batch: the processed prefix in order and its
  length for every \<open>max_articles\<close>, negative ones included (C15 to C17), totality under a
  safe template (C18) with every article of the slice processed (C32), where exceptions
  come from (C19), the interleaving and bounds of the printed lines (C20, C21), short
  articles (C22), the frame (C23) and at most one request per long article (C27). The
  refinement lemmas C24 and C25 state the whole behaviour abstractly: the result of
  \<open>summarize\<close> is \<open>summary_spec\<close> of the configured provider's answer, and for an SDK
  whose answers do not depend on the requests before, the result of a batch is
  \<open>batch_spec\<close> of the slice. C28 is the equivalence of the scanning formatter, with the
  article's title and content bound, and plain substitution. For the configured prompt:
  \<^verbatim>\<open>{content:.N}\<close> truncates, and a precision above \<^verbatim>\<open>PY_SSIZE_T_MAX\<close> raises (C33,
  bounds at the machine width); \<^verbatim>\<open>{content:spec}\<close> pads as the language reference
  says, on CPython's fast path and its padding path alike (C34); \<^verbatim>\<open>{title!a}\<close> gives
  ASCII text that reads back as the title (C36); \<^verbatim>\<open>{title[i]}\<close> gives the character
  or raises (C37). C35 is the type invariant of the world: every request sent is well
  formed for the configured provider.

  \<^bold>\<open>Loops and termination.\<close> No fuel is needed: \<open>fmt_loop\<close> (through the lemma
  that \<open>parse_field\<close> consumes at least one code point), \<open>field_name_scan\<close>,
  \<open>access_chain\<close> and the literal reader \<open>lit_body\<close> terminate by the length of the
  rest of their input (\<open>termination\<close> with a \<open>measure\<close>), and
  \<open>batch_loop\<close> is structural recursion on the slice, so every definition is total and
  executable; a claim that a run returns (C18) is an existence of its \<open>Inr\<close> result.

  \<^bold>\<open>Not modelled.\<close> The two SDKs (an environment, as said); configuration values that
  are not strings (a YAML number as \<^verbatim>\<open>summary_prompt\<close>); the parts of
  \<^verbatim>\<open>str.format\<close> whose result is not a string the model can compute, which it reports as
  \<open>Unmodelled\<close> instead: an attribute \<^verbatim>\<open>str\<close> has (a bound method, whose text holds a
  memory address), \<^verbatim>\<open>!r\<close> of non-ASCII text (it depends on the Unicode database's
  printable property) and a replacement field nested in a format specification; the
  \<^verbatim>\<open>MemoryError\<close> of a width too large to allocate (the model pads to any width);
  non-ASCII decimal digits in field names and
  specifications, which CPython's \<^verbatim>\<open>Py_UNICODE_TODECIMAL\<close> accepts and the model treats
  as other characters; the exact text of the printed lines and of \<^verbatim>\<open>str(e)\<close>, which are
  data of \<open>log_line\<close>; the race on the cached client under concurrent calls, which the
  single-threaded module does not have; \<^verbatim>\<open>fetcher.Article\<close> beyond the two fields
  read; the other modules of the reader (fetching, configuration loading, the command line).
  The runtime is assumed to be CPython 3.12 (messages and \<^verbatim>\<open>dir(str)\<close>).
\<close>

section \<open>Lemmas\<close>

text \<open>The lines of a batch hold the progress line of every article, with its index.\<close>

lemma batch_log_progress:
  "length segs = length as \<Longrightarrow> j < length as \<Longrightarrow>
     LogProgress (i + int j + 1) c (take 50 (title (as ! j))) \<in> set (batch_log c i as segs)"
proof (induction c i as segs arbitrary: j rule: batch_log.induct)
  case (1 c i a as seg segs)
  then show ?case
    by (cases j) (auto simp: add.assoc)
qed simp_all

section \<open>Properties across the components\<close>

text \<open>
  C30: a summariser built by \<^verbatim>\<open>__init__\<close> from a configuration that names no provider, or
  \<^verbatim>\<open>claude\<close>, summarises a long article by one Claude request with the configured model
  (\<^verbatim>\<open>claude-sonnet-4-20250514\<close> when none is given), on the client built from the
  configured \<^verbatim>\<open>api_key\<close>, with the prompt rendered from the configured
  \<^verbatim>\<open>summary_prompt\<close> (the default prompt when none is given).
\<close>

theorem summarizer_init_request:
  assumes "config (u ''provider'') = None \<or> config (u ''provider'') = Some (u ''claude'')"
    and "100 \<le> length (content a)"
    and "render_prompt (case config (u ''summary_prompt'') of None \<Rightarrow> default_prompt | Some t \<Rightarrow> t) a = Inr p"
    and "sdk_construct env (AnthropicClient (config (u ''api_key''))) = None"
    and "summarize env a \<lparr>obj = summarizer_init config, requests = [], printed = []\<rparr> = (r, w')"
  shows "requests w' =
           [\<lparr>rq_endpoint = MessagesCreate, rq_client = AnthropicClient (config (u ''api_key'')),
             rq_model = (case config (u ''model'') of None \<Rightarrow> u ''claude-sonnet-4-20250514'' | Some m \<Rightarrow> m),
             rq_max_tokens = 500, rq_messages = [(u ''user'', p)]\<rparr>]"
proof -
  let ?w = "\<lparr>obj = summarizer_init config, requests = [], printed = []\<rparr>"
  have "provider (obj ?w) = u ''claude''" "client_inv (obj ?w)"
    "render_prompt (prompt_template (obj ?w)) a = Inr p"
    "client (obj ?w) \<noteq> None \<or> sdk_construct env (AnthropicClient (api_key (obj ?w))) = None"
    using assms(1,3,4) by (auto simp: summarizer_init_def client_inv_def dict_get_def)
  with summarize_claude_world [OF assms(2) _ _ _ _ assms(5)] show ?thesis
    by (simp add: claude_request_def summarizer_init_def dict_get_def split: option.split)
qed

theorem summarizer_init_request_witness:
  "requests (snd (summarize demo_sdk demo_article
      \<lparr>obj = summarizer_init [u ''model'' \<mapsto> u ''m1'', u ''api_key'' \<mapsto> u ''k''], requests = [], printed = []\<rparr>)) =
     [\<lparr>rq_endpoint = MessagesCreate, rq_client = AnthropicClient (Some (u ''k'')), rq_model = u ''m1'',
       rq_max_tokens = 500, rq_messages = [(u ''user'', demo_prompt)]\<rparr>]"
  using summarizer_init_request [of "[u ''model'' \<mapsto> u ''m1'', u ''api_key'' \<mapsto> u ''k'']" demo_article
      demo_prompt demo_sdk "fst (summarize demo_sdk demo_article
        \<lparr>obj = summarizer_init [u ''model'' \<mapsto> u ''m1'', u ''api_key'' \<mapsto> u ''k''], requests = [], printed = []\<rparr>)"
      "snd (summarize demo_sdk demo_article
        \<lparr>obj = summarizer_init [u ''model'' \<mapsto> u ''m1'', u ''api_key'' \<mapsto> u ''k''], requests = [], printed = []\<rparr>)"]
    render_demo_article demo_world_facts(5)
  by (simp add: demo_sdk_def)

text \<open>
  C31: with the default prompt of \<^verbatim>\<open>_default_prompt\<close>, the default call
  \<^verbatim>\<open>summarize_batch(articles)\<close> always returns, whatever the SDKs do, and its results
  pair exactly the first ten articles (all of them when there are fewer) in order; for
  fifteen articles, ten pairs covering the first ten, as the specification's example says.
\<close>

theorem default_batch_first_ten:
  assumes "prompt_template (obj w) = default_prompt"
  shows "\<exists>rs w'. summarize_batch_default env articles w = (Inr rs, w') \<and> map fst rs = take 10 articles"
proof -
  obtain rs w' where run: "batch_loop env (min (int (length articles)) 10) 0 [] (take 10 articles) w = (Inr rs, w')"
    using batch_loop_safe [OF default_prompt_pieces(2)] assms default_prompt_pieces(1) by metis
  from batch_loop_results [OF run] have "map fst rs = take 10 articles" by simp
  with run show ?thesis by (auto simp: summarize_batch_default_def summarize_batch_def)
qed

theorem default_batch_first_ten_witness:
  "\<exists>rs w'. summarize_batch_default demo_sdk (replicate 15 demo_article) demo_world = (Inr rs, w') \<and>
     map fst rs = replicate 10 demo_article"
  using default_batch_first_ten [of demo_world demo_sdk "replicate 15 demo_article"] demo_world_facts
  by simp

text \<open>
  C32: with a template of text and the two fields, every article of
  \<^verbatim>\<open>articles[:max_articles]\<close> is processed, whatever happens to the ones before it:
  the batch returns, the \<open>j\<close>-th result is the \<open>j\<close>-th article, and the progress line
  of that article, with index \<open>j + 1\<close>, has been printed.
\<close>

theorem summarize_batch_every_article_processed:
  assumes "safe_template ps" and "prompt_template (obj w) = unparse ps"
    and "j < length (py_slice_to articles n)"
  shows "\<exists>rs w'. summarize_batch env articles n w = (Inr rs, w') \<and>
           fst (rs ! j) = py_slice_to articles n ! j \<and>
           LogProgress (int j + 1) (min (int (length articles)) n)
             (take 50 (title (py_slice_to articles n ! j))) \<in> set (printed w')"
proof -
  obtain rs w' where run: "summarize_batch env articles n w = (Inr rs, w')"
    using batch_loop_safe [OF assms(1,2)] unfolding summarize_batch_def by blast
  then have fst_rs: "map fst rs = py_slice_to articles n"
    using batch_loop_results [of env _ 0 "[]"] unfolding summarize_batch_def by simp
  from run obtain segs where "length segs = length (py_slice_to articles n)"
    "printed w' = printed w @ batch_log (min (int (length articles)) n) 0 (py_slice_to articles n) segs"
    unfolding summarize_batch_def by (blast dest: batch_loop_log)
  with batch_log_progress [of segs "py_slice_to articles n" j 0] assms(3)
  have "LogProgress (int j + 1) (min (int (length articles)) n)
          (take 50 (title (py_slice_to articles n ! j))) \<in> set (printed w')"
    by simp
  moreover from fst_rs assms(3) have "fst (rs ! j) = py_slice_to articles n ! j"
    by (metis length_map nth_map)
  ultimately show ?thesis using run by blast
qed

theorem summarize_batch_every_article_processed_witness:
  "\<exists>rs w'. summarize_batch demo_sdk (demo_batch @ [demo_article]) 10 demo_world = (Inr rs, w') \<and>
     fst (rs ! 3) = py_slice_to (demo_batch @ [demo_article]) 10 ! 3 \<and>
     LogProgress (int 3 + 1) (min (int (length (demo_batch @ [demo_article]))) 10)
       (take 50 (title (py_slice_to (demo_batch @ [demo_article]) 10 ! 3))) \<in> set (printed w')"
  using summarize_batch_every_article_processed [OF default_prompt_pieces(2), of demo_world 3
      "demo_batch @ [demo_article]" 10 demo_sdk] demo_world_facts default_prompt_pieces(1)
  by (simp add: demo_batch_def)

end
